theory Spec2Isabelle
  imports Main
begin

section \<open>The APT method for S3: a shallow embedding of method.go\<close>

text \<open>
  The Go package \<^verbatim>\<open>method\<close> implements the request engine of an APT acquire method that
  fetches objects from S3. Go strings and byte slices are modelled as \<^typ>\<open>string\<close>
  (lists of bytes), Go errors as values of \<open>error\<close>, and every procedure that prints,
  changes the \<^verbatim>\<open>Method\<close> struct, exits the process or panics as a function from the
  state to an outcome and the next state. What the package calls outside the repository
  (the S3 client, the file system, the time zone database, the digests, the parser of
  messages) is a parameter of the model; the goroutines of \<^verbatim>\<open>Run\<close> are the steps of a
  transition relation.
\<close>

subsection \<open>The functions of package strings that method.go calls\<close>

text \<open>\<^verbatim>\<open>strings.Index(s, string(c))\<close> for a one-byte separator: the first position of
  \<open>c\<close>, or \<open>None\<close> where Go returns \<open>-1\<close>.\<close>

fun strings_Index :: "string \<Rightarrow> char \<Rightarrow> nat option" where
  "strings_Index [] c = None"
| "strings_Index (x # xs) c =
     (if x = c then Some 0
      else (case strings_Index xs c of None \<Rightarrow> None | Some i \<Rightarrow> Some (Suc i)))"

text \<open>\<^verbatim>\<open>strings.Split(s, string(c))\<close> for a one-byte separator: the pieces between the
  separators, never the empty list.\<close>

fun strings_Split :: "string \<Rightarrow> char \<Rightarrow> string list" where
  "strings_Split [] c = [[]]"
| "strings_Split (x # xs) c =
     (if x = c then [] # strings_Split xs c
      else (case strings_Split xs c of
              [] \<Rightarrow> [[x]]
            | t # ts \<Rightarrow> (x # t) # ts))"

text \<open>\<^verbatim>\<open>strings.Join(elems, string(c))\<close>.\<close>

fun strings_Join :: "string list \<Rightarrow> char \<Rightarrow> string" where
  "strings_Join [] c = []"
| "strings_Join [t] c = t"
| "strings_Join (t # u # ts) c = t @ c # strings_Join (u # ts) c"

definition strings_HasPrefix :: "string \<Rightarrow> string \<Rightarrow> bool" where
  "strings_HasPrefix s p = (take (length p) s = p)"

definition strings_HasSuffix :: "string \<Rightarrow> string \<Rightarrow> bool" where
  "strings_HasSuffix s suf =
     (length suf \<le> length s \<and> drop (length s - length suf) s = suf)"

definition strings_TrimSuffix :: "string \<Rightarrow> string \<Rightarrow> string" where
  "strings_TrimSuffix s suf =
     (if strings_HasSuffix s suf then take (length s - length suf) s else s)"

text \<open>The replacement loop of \<^verbatim>\<open>strings.Replace\<close> for a non-empty \<open>old\<close>: leftmost
  occurrences, not overlapping.\<close>

fun replace_from :: "string \<Rightarrow> string \<Rightarrow> string \<Rightarrow> string" where
  "replace_from [] old new = []"
| "replace_from (x # xs) old new =
     (if old \<noteq> [] \<and> strings_HasPrefix (x # xs) old
      then new @ replace_from (drop (length old) (x # xs)) old new
      else x # replace_from xs old new)"

text \<open>\<^verbatim>\<open>strings.ReplaceAll(s, old, new)\<close>. Go returns \<open>s\<close> itself when \<open>old = new\<close>.
  With an empty \<open>old\<close> Go inserts \<open>new\<close> before every UTF-8 sequence and at the end; the
  model inserts it before every byte, which is the same on ASCII text, and method.go only
  reaches an empty \<open>old\<close> together with an empty \<open>new\<close>.\<close>

definition strings_ReplaceAll :: "string \<Rightarrow> string \<Rightarrow> string \<Rightarrow> string" where
  "strings_ReplaceAll s old new =
     (if old = new then s
      else if old = [] then new @ concat (map (\<lambda>x. x # new) s)
      else replace_from s old new)"

subsection \<open>Messages\<close>

text \<open>Package \<^verbatim>\<open>message\<close> is imported by method.go: a header with a status code and a
  description, and an ordered list of fields.\<close>

record header =
  Status :: int
  Description :: string

record field =
  Name :: string
  Value :: string

record message =
  Header :: header
  Fields :: "field list"

definition headerCodeCapabilities :: int where "headerCodeCapabilities = 100"
definition headerCodeGeneralLog :: int where "headerCodeGeneralLog = 101"
definition headerCodeStatus :: int where "headerCodeStatus = 102"
definition headerCodeURIStart :: int where "headerCodeURIStart = 200"
definition headerCodeURIDone :: int where "headerCodeURIDone = 201"
definition headerCodeURIFailure :: int where "headerCodeURIFailure = 400"
definition headerCodeGeneralFailure :: int where "headerCodeGeneralFailure = 401"
definition headerCodeURIAcquire :: int where "headerCodeURIAcquire = 600"
definition headerCodeConfiguration :: int where "headerCodeConfiguration = 601"

lemmas headerCode_defs =
  headerCodeCapabilities_def headerCodeGeneralLog_def headerCodeStatus_def
  headerCodeURIStart_def headerCodeURIDone_def headerCodeURIFailure_def
  headerCodeGeneralFailure_def headerCodeURIAcquire_def headerCodeConfiguration_def

definition headerDescriptionGeneralFailure :: string where
  "headerDescriptionGeneralFailure = ''General Failure''"

definition fieldNameMessage :: string where "fieldNameMessage = ''Message''"

definition mk_header :: "int \<Rightarrow> string \<Rightarrow> header" where
  "mk_header code description = \<lparr>Status = code, Description = description\<rparr>"

definition mk_field :: "string \<Rightarrow> string \<Rightarrow> field" where
  "mk_field name val = \<lparr>Name = name, Value = val\<rparr>"

subsection \<open>Errors, the state of the process, outcomes\<close>

text \<open>A Go error: its text, and for an \<^verbatim>\<open>awserr.RequestFailure\<close> the HTTP status code.\<close>

datatype error = Error string | RequestFailure string int

fun Error_text :: "error \<Rightarrow> string" where
  "Error_text (Error t) = t"
| "Error_text (RequestFailure t c) = t"

text \<open>The fields of the \<^verbatim>\<open>Method\<close> struct (\<open>wg\<close> is the counter of the wait group,
  \<open>stdout\<close> the messages printed so far), and the local files.\<close>

record state =
  region :: string
  roleARN :: string
  endpoint :: string
  configured :: bool
  wg :: int
  stdout :: "message list"
  files :: "string \<Rightarrow> string option"

text \<open>How a procedure ends: it returns a value, the process exits with a status
  (\<^verbatim>\<open>os.Exit\<close>), the goroutine panics, or it keeps waiting.\<close>

datatype 'a outcome = Return 'a | Exit int | Panic | Blocked

type_synonym 'a proc = "state \<Rightarrow> 'a outcome \<times> state"

definition ret :: "'a \<Rightarrow> 'a proc" where
  "ret a s = (Return a, s)"

definition seq :: "'a proc \<Rightarrow> ('a \<Rightarrow> 'b proc) \<Rightarrow> 'b proc" where
  "seq p f s =
     (case p s of
        (Return a, s') \<Rightarrow> f a s'
      | (Exit n, s') \<Rightarrow> (Exit n, s')
      | (Panic, s') \<Rightarrow> (Panic, s')
      | (Blocked, s') \<Rightarrow> (Blocked, s'))"

definition println :: "message \<Rightarrow> unit proc" where
  "println m s = (Return (), s\<lparr>stdout := stdout s @ [m]\<rparr>)"

definition os_Exit :: "int \<Rightarrow> 'a proc" where
  "os_Exit n s = (Exit n, s)"

subsection \<open>Fatal errors\<close>

definition generalFailure :: "error \<Rightarrow> message" where
  "generalFailure err =
     (let h = mk_header headerCodeGeneralFailure headerDescriptionGeneralFailure;
          msg = strings_ReplaceAll (Error_text err) [CHR 0x0A] '' '';
          messageField = mk_field fieldNameMessage msg
      in \<lparr>Header = h, Fields = [messageField]\<rparr>)"

definition outputGeneralFailure :: "error \<Rightarrow> unit proc" where
  "outputGeneralFailure err = println (generalFailure err)"

definition handleError :: "error option \<Rightarrow> unit proc" where
  "handleError err =
     (case err of
        None \<Rightarrow> ret ()
      | Some e \<Rightarrow> seq (outputGeneralFailure e) (\<lambda>_. os_Exit 1))"

subsection \<open>Configuration\<close>

text \<open>Modelled from the spec: \<^verbatim>\<open>Message.GetFieldList\<close> of package \<^verbatim>\<open>message\<close>, which is not
  among the sources. The spec asks for a lookup by name that returns all matches, in the
  order of the message.\<close>

definition GetFieldList :: "message \<Rightarrow> string \<Rightarrow> field list" where
  "GetFieldList msg name = filter (\<lambda>f. Name f = name) (Fields msg)"

text \<open>Modelled from the spec: \<^verbatim>\<open>Message.GetFieldValue\<close> of package \<^verbatim>\<open>message\<close>, which is not
  among the sources. The spec asks for a lookup by name that returns the first match; Go
  returns the value and whether the field is there.\<close>

definition GetFieldValue :: "message \<Rightarrow> string \<Rightarrow> string \<times> bool" where
  "GetFieldValue msg name =
     (case filter (\<lambda>f. Name f = name) (Fields msg) of
        [] \<Rightarrow> ([], False)
      | f # _ \<Rightarrow> (Value f, True))"

definition fieldNameConfigItem :: string where "fieldNameConfigItem = ''Config-Item''"

definition configItemAcquireS3Region :: string where
  "configItemAcquireS3Region = ''Acquire::s3::region''"
definition configItemAcquireS3Role :: string where
  "configItemAcquireS3Role = ''Acquire::s3::role''"
definition configItemAcquireS3Endpoint :: string where
  "configItemAcquireS3Endpoint = ''Acquire::s3::endpoint''"

text \<open>\<^verbatim>\<open>xs[i]\<close> in Go: out of range it panics, which is \<open>None\<close> here.\<close>

definition at_index :: "'a list \<Rightarrow> nat \<Rightarrow> 'a option" where
  "at_index xs i = (if i < length xs then Some (xs ! i) else None)"

text \<open>\<^verbatim>\<open>wg.Done()\<close>: the counter of a \<^verbatim>\<open>sync.WaitGroup\<close> must not become negative.\<close>

definition wg_Done :: "unit proc" where
  "wg_Done s = (if wg s - 1 < 0 then (Panic, s) else (Return (), s\<lparr>wg := wg s - 1\<rparr>))"

text \<open>The body of the loop of \<^verbatim>\<open>configure\<close>, for one Config-Item field.\<close>

definition configure_item :: "field \<Rightarrow> unit proc" where
  "configure_item f s =
     (let config = strings_Split (Value f) (CHR ''='') in
      if at_index config 0 = Some configItemAcquireS3Region then
        (case at_index config 1 of
           None \<Rightarrow> (Panic, s)
         | Some v \<Rightarrow> (Return (), s\<lparr>region := v\<rparr>))
      else if at_index config 0 = Some configItemAcquireS3Role then
        (case at_index config 1 of
           None \<Rightarrow> (Panic, s)
         | Some v \<Rightarrow> (Return (), s\<lparr>roleARN := v\<rparr>))
      else if at_index config 0 = Some configItemAcquireS3Endpoint then
        (case at_index config 1 of
           None \<Rightarrow> (Panic, s)
         | Some v \<Rightarrow> (Return (), s\<lparr>endpoint := v\<rparr>))
      else (Return (), s))"

fun configure_items :: "field list \<Rightarrow> unit proc" where
  "configure_items [] = ret ()"
| "configure_items (f # fs) = seq (configure_item f) (\<lambda>_. configure_items fs)"

definition configure :: "message \<Rightarrow> unit proc" where
  "configure msg =
     seq (configure_items (GetFieldList msg fieldNameConfigItem)) (\<lambda>_.
     seq (\<lambda>s. (Return (), s\<lparr>configured := True\<rparr>)) (\<lambda>_.
     wg_Done))"

subsection \<open>Locations\<close>

text \<open>The fields of \<^verbatim>\<open>url.URL\<close> and \<^verbatim>\<open>url.Userinfo\<close> of package net/url.\<close>

record userinfo =
  username :: string
  password :: string
  passwordSet :: bool

record url =
  Scheme :: string
  Opaque :: string
  User :: "userinfo option"
  Host :: string
  Path :: string
  RawPath :: string
  OmitHost :: bool
  ForceQuery :: bool
  RawQuery :: string
  Fragment :: string
  RawFragment :: string

text \<open>A result of a function that returns a value or an error, or panics.\<close>

datatype 'a result = Ok 'a | Err error | Panics

definition userAndPasswordFormattedTokensCount :: nat where
  "userAndPasswordFormattedTokensCount = 2"

text \<open>\<^verbatim>\<open>preProcessURL\<close>. The slice \<^verbatim>\<open>sub[5:]\<close> panics when the first \<^verbatim>\<open>@\<close> is among the
  first five bytes.\<close>

definition preProcessURL :: "string \<Rightarrow> string result" where
  "preProcessURL url =
     (case strings_Index url (CHR ''@'') of
        None \<Rightarrow> Ok url
      | Some idx \<Rightarrow>
          (let sub = take idx url in
           if length sub < 5 then Panics
           else
             (let sub = drop 5 sub;
                  tkns = strings_Split sub (CHR '':'');
                  key = (if length tkns = userAndPasswordFormattedTokensCount
                         then tkns ! 0 else []);
                  secret = (if length tkns = userAndPasswordFormattedTokensCount
                            then tkns ! 1 else []);
                  processedKey = strings_ReplaceAll key ''/'' ''%2F'';
                  processedSecret = strings_ReplaceAll secret ''/'' ''%2F'';
                  p = strings_ReplaceAll url key processedKey;
                  p = strings_ReplaceAll p secret processedSecret
              in Ok p)))"

record objectLocation =
  uri :: url
  bucket :: string
  key :: string

definition locationMinTokensCount :: nat where
  "locationMinTokensCount = 3"

definition errLocMissingRequiredTokens :: error where
  "errLocMissingRequiredTokens = Error ''location missing required number of tokens''"

text \<open>\<^verbatim>\<open>newLocation\<close>, over the parser of net/url, which is a parameter \<open>parse\<close>. The slice
  \<^verbatim>\<open>uri.Path[1:]\<close> panics on the empty path.\<close>

definition newLocation ::
  "(string \<Rightarrow> error + url) \<Rightarrow> string \<Rightarrow> string \<Rightarrow> objectLocation result" where
  "newLocation parse val s3Hostname =
     (case preProcessURL val of
        Panics \<Rightarrow> Panics
      | Err e \<Rightarrow> Err e
      | Ok v \<Rightarrow>
         (case parse v of
            Inl err \<Rightarrow> Err err
          | Inr u \<Rightarrow>
              if Host u = s3Hostname then
                (let tokens = strings_Split (Path u) (CHR ''/'') in
                 if length tokens < locationMinTokensCount
                 then Err errLocMissingRequiredTokens
                 else Ok \<lparr>uri = u, bucket = tokens ! 1,
                          key = strings_Join (drop 2 tokens) (CHR ''/'')\<rparr>)
              else if strings_HasSuffix (Host u) s3Hostname then
                (if Path u = [] then Panics
                 else Ok \<lparr>uri = u,
                          bucket = strings_TrimSuffix (Host u) (''.'' @ s3Hostname),
                          key = drop 1 (Path u)\<rparr>)
              else
                (if Path u = [] then Panics
                 else Ok \<lparr>uri = u, bucket = Host u, key = drop 1 (Path u)\<rparr>)))"

subsection \<open>A model of the parser of net/url\<close>

text \<open>
  The theorems about \<^verbatim>\<open>newLocation\<close> hold for every parser. To run the code on concrete
  locators, \<open>url_Parse\<close> follows \<^verbatim>\<open>url.Parse\<close> of the Go library on the syntax
  \<^verbatim>\<open>[scheme:][//[userinfo@]host][/path][?query][#fragment]\<close>: the scheme, the cut at the
  query and the fragment, opaque and relative references, the user information, the check
  of the port and of the bytes of the host, and the percent-decoding of user information,
  host and path. Zone identifiers of bracketed IPv6 literals are not treated apart, and a
  bracketed host is not checked to be an IP literal. An error carries the text of its cause
  alone: the library wraps it as \<^verbatim>\<open>parse "<url>": <cause>\<close> and quotes in the cause the
  escape, the byte or the port that it rejects.
\<close>

definition is_alpha :: "char \<Rightarrow> bool" where
  "is_alpha c = ((97 \<le> (of_char c :: nat) \<and> (of_char c :: nat) \<le> 122)
               \<or> (65 \<le> (of_char c :: nat) \<and> (of_char c :: nat) \<le> 90))"

definition is_digit :: "char \<Rightarrow> bool" where
  "is_digit c = (48 \<le> (of_char c :: nat) \<and> (of_char c :: nat) \<le> 57)"

definition ishex :: "char \<Rightarrow> bool" where
  "ishex c = (is_digit c
            \<or> (97 \<le> (of_char c :: nat) \<and> (of_char c :: nat) \<le> 102)
            \<or> (65 \<le> (of_char c :: nat) \<and> (of_char c :: nat) \<le> 70))"

definition unhex :: "char \<Rightarrow> nat" where
  "unhex c = (if is_digit c then of_char c - 48
              else if 97 \<le> (of_char c :: nat) \<and> (of_char c :: nat) \<le> 102
              then of_char c - 97 + 10
              else if 65 \<le> (of_char c :: nat) \<and> (of_char c :: nat) \<le> 70
              then of_char c - 65 + 10
              else 0)"

definition stringContainsCTLByte :: "string \<Rightarrow> bool" where
  "stringContainsCTLByte s = (\<exists>c \<in> set s. (of_char c :: nat) < 32 \<or> (of_char c :: nat) = 127)"

text \<open>\<^verbatim>\<open>strings.Cut(s, string(c))\<close>: the text before and after the first \<open>c\<close>.\<close>

definition strings_Cut :: "string \<Rightarrow> char \<Rightarrow> string \<times> string" where
  "strings_Cut s c =
     (case strings_Index s c of
        None \<Rightarrow> (s, [])
      | Some i \<Rightarrow> (take i s, drop (Suc i) s))"

text \<open>\<^verbatim>\<open>strings.LastIndex(s, string(c))\<close>.\<close>

definition strings_LastIndex :: "string \<Rightarrow> char \<Rightarrow> nat option" where
  "strings_LastIndex s c =
     (case strings_Index (rev s) c of
        None \<Rightarrow> None
      | Some i \<Rightarrow> Some (length s - 1 - i))"

text \<open>The loop of \<^verbatim>\<open>getScheme\<close>: \<open>seen\<close> holds the bytes before the current one.\<close>

fun getScheme_loop :: "string \<Rightarrow> string \<Rightarrow> string \<Rightarrow> error + string \<times> string" where
  "getScheme_loop rawURL seen [] = Inr ([], rawURL)"
| "getScheme_loop rawURL seen (c # cs) =
     (if is_alpha c then getScheme_loop rawURL (seen @ [c]) cs
      else if is_digit c \<or> c = CHR ''+'' \<or> c = CHR ''-'' \<or> c = CHR ''.'' then
        (if seen = [] then Inr ([], rawURL) else getScheme_loop rawURL (seen @ [c]) cs)
      else if c = CHR '':'' then
        (if seen = [] then Inl (Error ''missing protocol scheme'') else Inr (seen, cs))
      else Inr ([], rawURL))"

definition getScheme :: "string \<Rightarrow> error + string \<times> string" where
  "getScheme rawURL = getScheme_loop rawURL [] rawURL"

text \<open>The modes of \<^verbatim>\<open>shouldEscape\<close> that the parser and the printer of a URL use.\<close>

datatype encoding = encodePath | encodeHost | encodeUserPassword | encodeFragment

definition shouldEscape :: "char \<Rightarrow> encoding \<Rightarrow> bool" where
  "shouldEscape c mode =
     (if is_alpha c \<or> is_digit c then False
      else if mode = encodeHost \<and> c \<in> set ''!$&'' \<union> {CHR 0x27} \<union> set ''()*+,;=:[]<>'' \<union> {CHR 0x22}
      then False
      else if c \<in> set ''-_.~'' then False
      else if c \<in> set ''$&+,/:;=?@'' then
        (case mode of
           encodePath \<Rightarrow> c = CHR ''?''
         | encodeUserPassword \<Rightarrow> c = CHR ''@'' \<or> c = CHR ''/'' \<or> c = CHR ''?'' \<or> c = CHR '':''
         | encodeFragment \<Rightarrow> False
         | encodeHost \<Rightarrow> True)
      else if mode = encodeFragment \<and> c \<in> set ''!()*'' then False
      else True)"

text \<open>\<^verbatim>\<open>unescape\<close>: an error for a malformed escape and, in a host, for an escape of an
  ASCII byte other than \<^verbatim>\<open>%25\<close> or a byte that a host cannot hold.\<close>

fun unescape :: "string \<Rightarrow> encoding \<Rightarrow> error + string" where
  "unescape [] mode = Inr []"
| "unescape (c # cs) mode =
     (if c = CHR ''%'' then
        (case cs of
           h1 # h2 # rest \<Rightarrow>
             if \<not> ishex h1 \<or> \<not> ishex h2 then Inl (Error ''invalid URL escape'')
             else if mode = encodeHost \<and> unhex h1 < 8 \<and> [c, h1, h2] \<noteq> ''%25''
             then Inl (Error ''invalid URL escape'')
             else (case unescape rest mode of
                     Inl e \<Rightarrow> Inl e
                   | Inr r \<Rightarrow> Inr (char_of (16 * unhex h1 + unhex h2) # r))
         | _ \<Rightarrow> Inl (Error ''invalid URL escape''))
      else if mode = encodeHost \<and> (of_char c :: nat) < 128 \<and> shouldEscape c encodeHost
      then Inl (Error ''invalid character in host name'')
      else (case unescape cs mode of
              Inl e \<Rightarrow> Inl e
            | Inr r \<Rightarrow> Inr (c # r)))"

definition validOptionalPort :: "string \<Rightarrow> bool" where
  "validOptionalPort port =
     (case port of
        [] \<Rightarrow> True
      | c # ds \<Rightarrow> c = CHR '':'' \<and> (\<forall>d \<in> set ds. is_digit d))"

definition validUserinfo :: "string \<Rightarrow> bool" where
  "validUserinfo s =
     (\<forall>c \<in> set s. is_alpha c \<or> is_digit c
        \<or> c \<in> set ''-._:~!$&'' \<union> {CHR 0x27} \<union> set ''()*+,;=%@'')"

definition parseHost :: "string \<Rightarrow> error + string" where
  "parseHost host =
     (if strings_HasPrefix host ''['' then
        (case strings_LastIndex host (CHR '']'') of
           None \<Rightarrow> Inl (Error ''missing ] in host'')
         | Some i \<Rightarrow>
             if \<not> validOptionalPort (drop (Suc i) host)
             then Inl (Error ''invalid port after host'')
             else unescape host encodeHost)
      else
        (case strings_LastIndex host (CHR '':'') of
           None \<Rightarrow> unescape host encodeHost
         | Some i \<Rightarrow>
             if \<not> validOptionalPort (drop i host)
             then Inl (Error ''invalid port after host'')
             else unescape host encodeHost))"

definition parseAuthority :: "string \<Rightarrow> error + userinfo option \<times> string" where
  "parseAuthority authority =
     (case strings_LastIndex authority (CHR ''@'') of
        None \<Rightarrow>
          (case parseHost authority of
             Inl e \<Rightarrow> Inl e
           | Inr h \<Rightarrow> Inr (None, h))
      | Some i \<Rightarrow>
          (case parseHost (drop (Suc i) authority) of
             Inl e \<Rightarrow> Inl e
           | Inr h \<Rightarrow>
               (let ui = take i authority in
                if \<not> validUserinfo ui then Inl (Error ''net/url: invalid userinfo'')
                else if CHR '':'' \<notin> set ui then
                  (case unescape ui encodeUserPassword of
                     Inl e \<Rightarrow> Inl e
                   | Inr n \<Rightarrow>
                       Inr (Some \<lparr>username = n, password = [], passwordSet = False\<rparr>, h))
                else
                  (case unescape (fst (strings_Cut ui (CHR '':''))) encodeUserPassword of
                     Inl e \<Rightarrow> Inl e
                   | Inr n \<Rightarrow>
                       (case unescape (snd (strings_Cut ui (CHR '':''))) encodeUserPassword of
                          Inl e \<Rightarrow> Inl e
                        | Inr pw \<Rightarrow>
                            Inr (Some \<lparr>username = n, password = pw, passwordSet = True\<rparr>,
                                 h))))))"

definition hexdigits_upper :: string where
  "hexdigits_upper = ''0123456789ABCDEF''"

text \<open>\<^verbatim>\<open>escape\<close>, for the modes above (none of them writes a space as \<^verbatim>\<open>+\<close>).\<close>

definition escape :: "string \<Rightarrow> encoding \<Rightarrow> string" where
  "escape s mode =
     concat (map (\<lambda>c. if shouldEscape c mode
                       then [CHR ''%'', hexdigits_upper ! (of_char c div 16),
                             hexdigits_upper ! (of_char c mod 16)]
                       else [c]) s)"

text \<open>\<^verbatim>\<open>URL.setPath\<close>: the raw path is kept only where it is not the default encoding.\<close>

definition setPath :: "url \<Rightarrow> string \<Rightarrow> error + url" where
  "setPath u p =
     (case unescape p encodePath of
        Inl e \<Rightarrow> Inl e
      | Inr path \<Rightarrow>
          Inr (u\<lparr>Path := path, RawPath := (if p = escape path encodePath then [] else p)\<rparr>))"

definition tolower_char :: "char \<Rightarrow> char" where
  "tolower_char c = (if 65 \<le> (of_char c :: nat) \<and> (of_char c :: nat) \<le> 90
                     then char_of ((of_char c :: nat) + 32) else c)"

text \<open>\<^verbatim>\<open>parse(rawURL, false)\<close>, after the fragment has been cut off.\<close>

definition url_parse :: "string \<Rightarrow> error + url" where
  "url_parse rawURL =
     (let empty = \<lparr>Scheme = [], Opaque = [], User = None, Host = [], Path = [],
                   RawPath = [], OmitHost = False, ForceQuery = False, RawQuery = [],
                   Fragment = [], RawFragment = []\<rparr> in
      if stringContainsCTLByte rawURL
      then Inl (Error ''net/url: invalid control character in URL'')
      else if rawURL = ''*'' then Inr (empty\<lparr>Path := ''*''\<rparr>)
      else
        (case getScheme rawURL of
           Inl e \<Rightarrow> Inl e
         | Inr (scheme, rest0) \<Rightarrow>
             (let force = (strings_HasSuffix rest0 ''?''
                           \<and> length (filter (\<lambda>c. c = CHR ''?'') rest0) = 1);
                  u = empty\<lparr>Scheme := map tolower_char scheme,
                            ForceQuery := force,
                            RawQuery := snd (strings_Cut rest0 (CHR ''?''))\<rparr>;
                  rest = fst (strings_Cut rest0 (CHR ''?''))
              in
              if \<not> strings_HasPrefix rest ''/'' \<and> scheme \<noteq> []
              then Inr (u\<lparr>Opaque := rest\<rparr>)
              else if \<not> strings_HasPrefix rest ''/''
                      \<and> CHR '':'' \<in> set (fst (strings_Cut rest (CHR ''/'')))
              then Inl (Error ''first path segment in URL cannot contain colon'')
              else if (scheme \<noteq> [] \<or> \<not> strings_HasPrefix rest ''///'')
                      \<and> strings_HasPrefix rest ''//''
              then
                (let authority0 = drop 2 rest;
                     authority = (case strings_Index authority0 (CHR ''/'') of
                                    None \<Rightarrow> authority0 | Some i \<Rightarrow> take i authority0);
                     rest' = (case strings_Index authority0 (CHR ''/'') of
                                None \<Rightarrow> [] | Some i \<Rightarrow> drop i authority0)
                 in case parseAuthority authority of
                      Inl e \<Rightarrow> Inl e
                    | Inr (usr, h) \<Rightarrow> setPath (u\<lparr>User := usr, Host := h\<rparr>) rest')
              else if scheme \<noteq> [] \<and> strings_HasPrefix rest ''/''
              then setPath (u\<lparr>OmitHost := True\<rparr>) rest
              else setPath u rest)))"

text \<open>\<^verbatim>\<open>url.Parse\<close>: the fragment is cut at the first \<^verbatim>\<open>#\<close> and percent-decoded.\<close>

definition url_Parse :: "string \<Rightarrow> error + url" where
  "url_Parse rawURL =
     (case url_parse (fst (strings_Cut rawURL (CHR ''#''))) of
        Inl e \<Rightarrow> Inl e
      | Inr u \<Rightarrow>
          (let f = snd (strings_Cut rawURL (CHR ''#'')) in
           if f = [] then Inr u
           else
             (case unescape f encodeFragment of
                Inl e \<Rightarrow> Inl e
              | Inr frag \<Rightarrow>
                  Inr (u\<lparr>Fragment := frag,
                         RawFragment := (if f = escape frag encodeFragment then [] else f)\<rparr>))))"

text \<open>\<^verbatim>\<open>URL.String\<close>, with \<^verbatim>\<open>validEncoded\<close>, \<^verbatim>\<open>URL.EscapedPath\<close>,
  \<^verbatim>\<open>URL.EscapedFragment\<close> and \<^verbatim>\<open>Userinfo.String\<close>.\<close>

definition validEncoded :: "string \<Rightarrow> encoding \<Rightarrow> bool" where
  "validEncoded s mode =
     (\<forall>c \<in> set s. c \<in> set ''!$&'' \<union> {CHR 0x27} \<union> set ''()*+,;=:@[]%''
                   \<or> \<not> shouldEscape c mode)"

definition EscapedPath :: "url \<Rightarrow> string" where
  "EscapedPath u =
     (if RawPath u \<noteq> [] \<and> validEncoded (RawPath u) encodePath
         \<and> unescape (RawPath u) encodePath = Inr (Path u)
      then RawPath u
      else if Path u = ''*'' then ''*''
      else escape (Path u) encodePath)"

definition EscapedFragment :: "url \<Rightarrow> string" where
  "EscapedFragment u =
     (if RawFragment u \<noteq> [] \<and> validEncoded (RawFragment u) encodeFragment
         \<and> unescape (RawFragment u) encodeFragment = Inr (Fragment u)
      then RawFragment u
      else escape (Fragment u) encodeFragment)"

definition Userinfo_String :: "userinfo \<Rightarrow> string" where
  "Userinfo_String ui =
     escape (username ui) encodeUserPassword
     @ (if passwordSet ui then '':'' @ escape (password ui) encodeUserPassword else [])"

definition url_String :: "url \<Rightarrow> string" where
  "url_String u =
     (let buf = (if Scheme u \<noteq> [] then Scheme u @ '':'' else []);
          buf =
            (if Opaque u \<noteq> [] then buf @ Opaque u
             else
               (let buf =
                      (if Scheme u \<noteq> [] \<or> Host u \<noteq> [] \<or> User u \<noteq> None then
                         (if OmitHost u \<and> Host u = [] \<and> User u = None then buf
                          else
                            buf
                            @ (if Host u \<noteq> [] \<or> Path u \<noteq> [] \<or> User u \<noteq> None
                               then ''//'' else [])
                            @ (case User u of
                                 None \<Rightarrow> []
                               | Some ui \<Rightarrow> Userinfo_String ui @ ''@'')
                            @ escape (Host u) encodeHost)
                       else buf);
                    path = EscapedPath u;
                    buf = (if path \<noteq> [] \<and> hd path \<noteq> CHR ''/'' \<and> Host u \<noteq> []
                           then buf @ ''/'' else buf);
                    buf = (if buf = [] \<and> CHR '':'' \<in> set (fst (strings_Cut path (CHR ''/'')))
                           then buf @ ''./'' else buf)
                in buf @ path));
          buf = (if ForceQuery u \<or> RawQuery u \<noteq> [] then buf @ ''?'' @ RawQuery u else buf);
          buf = (if Fragment u \<noteq> [] then buf @ ''#'' @ EscapedFragment u else buf)
      in buf)"

subsection \<open>The collaborators of the request engine\<close>

text \<open>\<^verbatim>\<open>URL.Hostname\<close>: the host without a valid port and without the brackets of an IPv6
  literal.\<close>

definition url_Hostname :: "url \<Rightarrow> string" where
  "url_Hostname u =
     (let host = (case strings_LastIndex (Host u) (CHR '':'') of
                    None \<Rightarrow> Host u
                  | Some colon \<Rightarrow>
                      if validOptionalPort (drop colon (Host u))
                      then take colon (Host u) else Host u)
      in if strings_HasPrefix host ''['' \<and> strings_HasSuffix host '']''
         then take (length host - 2) (drop 1 host) else host)"

text \<open>An instant is counted in seconds since the epoch; a location of package time is
  known by its name.\<close>

type_synonym time = int
type_synonym location = string

text \<open>\<^verbatim>\<open>s3.HeadObjectOutput\<close>: both fields are pointers, \<open>None\<close> is nil.\<close>

record headObjectOutput =
  ContentLength :: "int option"
  LastModified :: "time option"

text \<open>\<^verbatim>\<open>aws.Config\<close> as far as \<^verbatim>\<open>s3Client\<close> fills it: static credentials, or the
  credentials of an assumed role. The client that \<^verbatim>\<open>s3.New\<close> returns is known by its
  configuration.\<close>

datatype credentials = StaticCredentials string string string | AssumeRoleCredentials string

record config =
  Region :: string
  Endpoint :: "string option"
  Credentials :: "credentials option"

text \<open>
  What the engine calls outside this repository, as parameters: the parser and the
  printer of net/url, the endpoint of a region (\<^verbatim>\<open>s3EndpointURL\<close>, defined elsewhere in
  the package), the AWS session, the metadata query and the download of the S3 client,
  \<^verbatim>\<open>os.Create\<close>, the time zone database and the formatter of package time, the four
  digests, and the parser of package \<^verbatim>\<open>message\<close>. A download answers with the bytes it
  has written to the file and the number of bytes it reports.
\<close>

record env =
  e_Parse :: "string \<Rightarrow> error + url"
  e_String :: "url \<Rightarrow> string"
  e_s3EndpointURL :: "string \<Rightarrow> error + url"
  e_NewSession :: "config \<Rightarrow> error option"
  e_HeadObject :: "config \<Rightarrow> string \<Rightarrow> string \<Rightarrow> error + headObjectOutput"
  e_Download :: "config \<Rightarrow> string \<Rightarrow> string \<Rightarrow> error + string \<times> int"
  e_Create :: "string \<Rightarrow> error option"
  e_LoadLocation :: "string \<Rightarrow> error + location"
  e_Format :: "location \<Rightarrow> string \<Rightarrow> time \<Rightarrow> string"
  e_md5 :: "string \<Rightarrow> string"
  e_sha1 :: "string \<Rightarrow> string"
  e_sha256 :: "string \<Rightarrow> string"
  e_sha512 :: "string \<Rightarrow> string"
  e_FromBytes :: "string \<Rightarrow> error + message"

subsection \<open>The messages of the engine\<close>

definition headerDescriptionCapabilities :: string where
  "headerDescriptionCapabilities = ''Capabilities''"
definition headerDescriptionStatus :: string where
  "headerDescriptionStatus = ''Status''"
definition headerDescriptionURIStart :: string where
  "headerDescriptionURIStart = ''URI Start''"
definition headerDescriptionURIDone :: string where
  "headerDescriptionURIDone = ''URI Done''"
definition headerDescriptionURIFailure :: string where
  "headerDescriptionURIFailure = ''URI Failure''"

definition fieldNameSendConfig :: string where "fieldNameSendConfig = ''Send-Config''"
definition fieldNamePipeline :: string where "fieldNamePipeline = ''Pipeline''"
definition fieldNameSingleInstance :: string where "fieldNameSingleInstance = ''Single-Instance''"
definition fieldNameURI :: string where "fieldNameURI = ''URI''"
definition fieldNameFilename :: string where "fieldNameFilename = ''Filename''"
definition fieldNameSize :: string where "fieldNameSize = ''Size''"
definition fieldNameLastModified :: string where "fieldNameLastModified = ''Last-Modified''"
definition fieldNameMD5Hash :: string where "fieldNameMD5Hash = ''MD5-Hash''"
definition fieldNameMD5SumHash :: string where "fieldNameMD5SumHash = ''MD5Sum-Hash''"
definition fieldNameSHA1Hash :: string where "fieldNameSHA1Hash = ''SHA1-Hash''"
definition fieldNameSHA256Hash :: string where "fieldNameSHA256Hash = ''SHA256-Hash''"
definition fieldNameSHA512Hash :: string where "fieldNameSHA512Hash = ''SHA512-Hash''"

lemmas fieldName_defs =
  fieldNameMessage_def fieldNameConfigItem_def fieldNameSendConfig_def fieldNamePipeline_def
  fieldNameSingleInstance_def fieldNameURI_def fieldNameFilename_def fieldNameSize_def
  fieldNameLastModified_def fieldNameMD5Hash_def fieldNameMD5SumHash_def
  fieldNameSHA1Hash_def fieldNameSHA256Hash_def fieldNameSHA512Hash_def

lemmas headerDescription_defs =
  headerDescriptionGeneralFailure_def headerDescriptionCapabilities_def
  headerDescriptionStatus_def headerDescriptionURIStart_def headerDescriptionURIDone_def
  headerDescriptionURIFailure_def

definition fieldValueTrue :: string where "fieldValueTrue = ''true''"
definition fieldValueYes :: string where "fieldValueYes = ''yes''"
definition fieldValueNotFound :: string where
  "fieldValueNotFound = ''The specified key does not exist.''"
definition fieldValueConnecting :: string where
  "fieldValueConnecting = ''Connecting to s3.amazonaws.com''"

lemmas fieldValue_defs =
  fieldValueTrue_def fieldValueYes_def fieldValueNotFound_def fieldValueConnecting_def

definition errAcqMsgMissingRequiredFieldURI :: error where
  "errAcqMsgMissingRequiredFieldURI = Error ''acquire message missing required field: URI''"
definition errAcqMsgMissingRequiredFieldFilename :: error where
  "errAcqMsgMissingRequiredFieldFilename =
     Error ''acquire message missing required field: Filename''"
definition errAcqMsgMissingRequiredFieldPassword :: error where
  "errAcqMsgMissingRequiredFieldPassword =
     Error ''acquire message missing required value: Password''"

lemmas err_defs =
  errLocMissingRequiredTokens_def errAcqMsgMissingRequiredFieldURI_def
  errAcqMsgMissingRequiredFieldFilename_def errAcqMsgMissingRequiredFieldPassword_def

definition capabilities :: message where
  "capabilities =
     \<lparr>Header = mk_header headerCodeCapabilities headerDescriptionCapabilities,
      Fields = [mk_field fieldNameSendConfig fieldValueTrue,
                mk_field fieldNamePipeline fieldValueTrue,
                mk_field fieldNameSingleInstance fieldValueYes]\<rparr>"

definition requestStatus :: "env \<Rightarrow> url \<Rightarrow> string \<Rightarrow> message" where
  "requestStatus env s3Uri status =
     (let h = mk_header headerCodeStatus headerDescriptionStatus;
          uriField = mk_field fieldNameURI (e_String env s3Uri);
          messageField = mk_field fieldNameMessage status
      in \<lparr>Header = h, Fields = [uriField, messageField]\<rparr>)"

definition notFound :: "env \<Rightarrow> url \<Rightarrow> message" where
  "notFound env s3Uri =
     (let h = mk_header headerCodeURIFailure headerDescriptionURIFailure;
          uriField = mk_field fieldNameURI (e_String env s3Uri);
          messageField = mk_field fieldNameMessage fieldValueNotFound
      in \<lparr>Header = h, Fields = [uriField, messageField]\<rparr>)"

text \<open>A step that is not reached: the call before it does not return. In Go it would
  dereference a nil pointer.\<close>

definition panic :: "'a proc" where
  "panic s = (Panic, s)"

definition RFC1123 :: string where
  "RFC1123 = ''Mon, 02 Jan 2006 15:04:05 MST''"

definition lastModified :: "env \<Rightarrow> time \<Rightarrow> field proc" where
  "lastModified env t =
     (case e_LoadLocation env ''GMT'' of
        Inl err \<Rightarrow> seq (handleError (Some err)) (\<lambda>_. panic)
      | Inr gmt \<Rightarrow> ret (mk_field fieldNameLastModified (e_Format env gmt RFC1123 t)))"

text \<open>\<^verbatim>\<open>strconv.FormatInt(n, 10)\<close>.\<close>

fun decimal :: "nat \<Rightarrow> string" where
  "decimal n =
     (if n < 10 then [''0123456789'' ! n]
      else decimal (n div 10) @ [''0123456789'' ! (n mod 10)])"

declare decimal.simps [simp del]

definition strconv_FormatInt :: "int \<Rightarrow> string" where
  "strconv_FormatInt n = (if n < 0 then CHR ''-'' # decimal (nat (- n)) else decimal (nat n))"

text \<open>\<^verbatim>\<open>hex.EncodeToString\<close>.\<close>

definition hex_EncodeToString :: "string \<Rightarrow> string" where
  "hex_EncodeToString bs =
     concat (map (\<lambda>c. [''0123456789abcdef'' ! nat (of_char c div 16),
                        ''0123456789abcdef'' ! nat (of_char c mod 16)]) bs)"

text \<open>\<^verbatim>\<open>computeHash\<close>: the digest \<open>h\<close> of the bytes, in hexadecimal. Writing to a
  \<^verbatim>\<open>hash.Hash\<close> never returns an error, so the error branch of \<^verbatim>\<open>prepareHash\<close> is not
  taken.\<close>

definition computeHash :: "(string \<Rightarrow> string) \<Rightarrow> string \<Rightarrow> string" where
  "computeHash h fileBytes = hex_EncodeToString (h fileBytes)"

definition md5Field :: "env \<Rightarrow> string \<Rightarrow> field" where
  "md5Field env bytes = mk_field fieldNameMD5Hash (computeHash (e_md5 env) bytes)"

definition md5SumField :: "env \<Rightarrow> string \<Rightarrow> field" where
  "md5SumField env bytes = mk_field fieldNameMD5SumHash (computeHash (e_md5 env) bytes)"

definition sha1Field :: "env \<Rightarrow> string \<Rightarrow> field" where
  "sha1Field env bytes = mk_field fieldNameSHA1Hash (computeHash (e_sha1 env) bytes)"

definition sha256Field :: "env \<Rightarrow> string \<Rightarrow> field" where
  "sha256Field env bytes = mk_field fieldNameSHA256Hash (computeHash (e_sha256 env) bytes)"

definition sha512Field :: "env \<Rightarrow> string \<Rightarrow> field" where
  "sha512Field env bytes = mk_field fieldNameSHA512Hash (computeHash (e_sha512 env) bytes)"

definition uriStart :: "env \<Rightarrow> url \<Rightarrow> int \<Rightarrow> time \<Rightarrow> message proc" where
  "uriStart env s3Uri sz t =
     (let h = mk_header headerCodeURIStart headerDescriptionURIStart;
          uriField = mk_field fieldNameURI (e_String env s3Uri);
          sizeField = mk_field fieldNameSize (strconv_FormatInt sz)
      in seq (lastModified env t) (\<lambda>lmField.
         ret \<lparr>Header = h, Fields = [uriField, sizeField, lmField]\<rparr>))"

text \<open>\<^verbatim>\<open>os.ReadFile\<close>, on the files of the state: the bytes and the error.\<close>

definition os_ReadFile :: "string \<Rightarrow> (string \<times> error option) proc" where
  "os_ReadFile filename s =
     (case files s filename of
        None \<Rightarrow> (Return ([], Some (Error (''open '' @ filename @ '': no such file or directory''))), s)
      | Some bytes \<Rightarrow> (Return (bytes, None), s))"

definition uriDone :: "env \<Rightarrow> url \<Rightarrow> int \<Rightarrow> time \<Rightarrow> string \<Rightarrow> message proc" where
  "uriDone env s3Uri sz t filename =
     (let uriField = mk_field fieldNameURI (e_String env s3Uri);
          filenameField = mk_field fieldNameFilename filename;
          sizeField = mk_field fieldNameSize (strconv_FormatInt sz)
      in seq (lastModified env t) (\<lambda>lmField.
         seq (os_ReadFile filename) (\<lambda>(fileBytes, err).
         seq (handleError err) (\<lambda>_.
         ret \<lparr>Header = mk_header headerCodeURIDone headerDescriptionURIDone,
              Fields = [uriField, filenameField, sizeField, lmField,
                        md5Field env fileBytes, md5SumField env fileBytes,
                        sha1Field env fileBytes, sha256Field env fileBytes,
                        sha512Field env fileBytes]\<rparr>))))"

definition outputRequestStatus :: "env \<Rightarrow> url \<Rightarrow> string \<Rightarrow> unit proc" where
  "outputRequestStatus env s3Uri status = println (requestStatus env s3Uri status)"

definition outputURIStart :: "env \<Rightarrow> url \<Rightarrow> int \<Rightarrow> time \<Rightarrow> unit proc" where
  "outputURIStart env s3Uri sz t = seq (uriStart env s3Uri sz t) println"

definition outputURIDone :: "env \<Rightarrow> url \<Rightarrow> int \<Rightarrow> time \<Rightarrow> string \<Rightarrow> unit proc" where
  "outputURIDone env s3Uri sz t filename =
     seq (uriDone env s3Uri sz t filename) (\<lambda>msg.
     seq (println msg) (\<lambda>_.
     wg_Done))"

definition outputNotFound :: "env \<Rightarrow> url \<Rightarrow> unit proc" where
  "outputNotFound env s3Uri =
     seq (println (notFound env s3Uri)) (\<lambda>_.
     wg_Done)"

subsection \<open>Fetching\<close>

text \<open>\<^verbatim>\<open>waitForConfiguration\<close> polls the latch: with the latch set it returns, otherwise the
  goroutine sleeps and polls again, and nothing after the call is reached.\<close>

definition waitForConfiguration :: "unit proc" where
  "waitForConfiguration s = (if configured s then (Return (), s) else (Blocked, s))"

text \<open>The methods \<^verbatim>\<open>Username\<close> and \<^verbatim>\<open>Password\<close> of \<^verbatim>\<open>*url.Userinfo\<close> accept the nil
  pointer.\<close>

definition Userinfo_Username :: "userinfo option \<Rightarrow> string" where
  "Userinfo_Username usr = (case usr of None \<Rightarrow> [] | Some ui \<Rightarrow> username ui)"

definition Userinfo_Password :: "userinfo option \<Rightarrow> string \<times> bool" where
  "Userinfo_Password usr =
     (case usr of None \<Rightarrow> ([], False) | Some ui \<Rightarrow> (password ui, passwordSet ui))"

definition s3Client :: "env \<Rightarrow> userinfo option \<Rightarrow> config proc" where
  "s3Client env usr s =
     (let config = \<lparr>Region = region s,
                     Endpoint = (if endpoint s \<noteq> [] then Some (endpoint s) else None),
                     Credentials = None\<rparr>
      in seq (case e_NewSession env config of
                None \<Rightarrow> ret ()
              | Some err \<Rightarrow>
                  handleError (Some (Error (''creating AWS session: '' @ Error_text err))))
           (\<lambda>_. let accessKeyID = Userinfo_Username usr in
                 if accessKeyID \<noteq> [] then
                   (case Userinfo_Password usr of
                      (secretAccessKey, True) \<Rightarrow>
                        ret (config\<lparr>Credentials :=
                               Some (StaticCredentials accessKeyID secretAccessKey [])\<rparr>)
                    | (_, False) \<Rightarrow>
                        seq (handleError (Some errAcqMsgMissingRequiredFieldPassword))
                          (\<lambda>_. ret config))
                 else if roleARN s \<noteq> [] then
                   ret (config\<lparr>Credentials := Some (AssumeRoleCredentials (roleARN s))\<rparr>)
                 else ret config) s)"

definition http_StatusNotFound :: int where
  "http_StatusNotFound = 404"

text \<open>\<^verbatim>\<open>os.Create\<close> truncates the file; the download leaves in it the bytes it has
  written.\<close>

definition os_Create :: "env \<Rightarrow> string \<Rightarrow> unit proc" where
  "os_Create env filename s =
     (case e_Create env filename of
        Some err \<Rightarrow> seq (handleError (Some err)) (\<lambda>_. ret ()) s
      | None \<Rightarrow> (Return (), s\<lparr>files := (files s)(filename \<mapsto> [])\<rparr>))"

definition download :: "env \<Rightarrow> config \<Rightarrow> string \<Rightarrow> string \<Rightarrow> string \<Rightarrow> int proc" where
  "download env client filename bkt ky s =
     (case e_Download env client bkt ky of
        Inl err \<Rightarrow> seq (handleError (Some err)) (\<lambda>_. ret 0) s
      | Inr (bytes, numBytes) \<Rightarrow>
          (Return numBytes, s\<lparr>files := (files s)(filename \<mapsto> bytes)\<rparr>))"

definition uriAcquire :: "env \<Rightarrow> message \<Rightarrow> unit proc" where
  "uriAcquire env msg =
     seq waitForConfiguration (\<lambda>_.
     seq (ret (GetFieldValue msg fieldNameURI)) (\<lambda>(locator, hasField).
     seq (if \<not> hasField then handleError (Some errAcqMsgMissingRequiredFieldURI)
          else ret ()) (\<lambda>_.
     seq (\<lambda>s.
            (if endpoint s \<noteq> [] then
               (case e_Parse env (endpoint s) of
                  Inl err \<Rightarrow>
                    seq (handleError (Some (Error (''parsing S3 endpoint '' @ endpoint s
                                                    @ '': '' @ Error_text err))))
                      (\<lambda>_. panic)
                | Inr u \<Rightarrow> ret u)
             else
               (case e_s3EndpointURL env (region s) of
                  Inl err \<Rightarrow>
                    seq (handleError (Some (Error (''resolving S3 endpoint for region ''
                                                    @ region s @ '': '' @ Error_text err))))
                      (\<lambda>_. panic)
                | Inr u \<Rightarrow> ret u)) s) (\<lambda>s3URL.
     seq (case newLocation (e_Parse env) locator (url_Hostname s3URL) of
            Panics \<Rightarrow> panic
          | Err err \<Rightarrow> seq (handleError (Some err)) (\<lambda>_. panic)
          | Ok loc \<Rightarrow> ret loc) (\<lambda>objLoc.
     seq (outputRequestStatus env (uri objLoc) fieldValueConnecting) (\<lambda>_.
     seq (s3Client env (User (uri objLoc))) (\<lambda>client.
     case e_HeadObject env client (bucket objLoc) (key objLoc) of
       Inl err \<Rightarrow>
         (case err of
            RequestFailure t code \<Rightarrow>
              if code = http_StatusNotFound then outputNotFound env (uri objLoc)
              else seq (handleError (Some err)) (\<lambda>_. panic)
          | Error t \<Rightarrow> seq (handleError (Some err)) (\<lambda>_. panic))
     | Inr headObjectOutput \<Rightarrow>
         (case ContentLength headObjectOutput of
            None \<Rightarrow> panic
          | Some expectedLen \<Rightarrow>
         (case LastModified headObjectOutput of
            None \<Rightarrow> panic
          | Some lastMod \<Rightarrow>
         seq (outputURIStart env (uri objLoc) expectedLen lastMod) (\<lambda>_.
         seq (ret (GetFieldValue msg fieldNameFilename)) (\<lambda>(filename, hasField).
         seq (if \<not> hasField then handleError (Some errAcqMsgMissingRequiredFieldFilename)
              else ret ()) (\<lambda>_.
         seq (os_Create env filename) (\<lambda>_.
         seq (download env client filename (bucket objLoc) (key objLoc)) (\<lambda>numBytes.
         outputURIDone env (uri objLoc) numBytes lastMod filename))))))))))))))"

subsection \<open>Dispatch\<close>

definition handleBytes :: "env \<Rightarrow> string \<Rightarrow> unit proc" where
  "handleBytes env b =
     (case e_FromBytes env b of
        Inl err \<Rightarrow> seq (handleError (Some err)) (\<lambda>_. panic)
      | Inr msg \<Rightarrow>
          if Status (Header msg) = headerCodeURIAcquire then uriAcquire env msg
          else if Status (Header msg) = headerCodeConfiguration then configure msg
          else ret ())"

subsection \<open>A sample environment\<close>

text \<open>Modelled from the spec: \<^verbatim>\<open>message.FromBytes\<close> of package \<^verbatim>\<open>message\<close>, which is not
  among the sources. The spec gives the wire format: the first non-empty line is the code,
  a space and the description; every line after it, up to the blank line that ends the
  message, is a field name, a colon with a space, and the field value.\<close>

definition parse_code :: "string \<Rightarrow> int option" where
  "parse_code ds =
     (if ds \<noteq> [] \<and> (\<forall>d \<in> set ds. is_digit d)
      then Some (foldl (\<lambda>n d. 10 * n + (int (of_char d) - 48)) 0 ds)
      else None)"

fun parse_fields :: "string list \<Rightarrow> error + field list" where
  "parse_fields [] = Inr []"
| "parse_fields (l # ls) =
     (if l = [] then Inr []
      else
        (case strings_Index l (CHR '':'') of
           None \<Rightarrow> Inl (Error ''malformed field'')
         | Some i \<Rightarrow>
             (case parse_fields ls of
                Inl e \<Rightarrow> Inl e
              | Inr fs \<Rightarrow>
                  Inr (\<lparr>Name = take i l, Value = dropWhile (\<lambda>c. c = CHR '' '') (drop (Suc i) l)\<rparr>
                       # fs))))"

definition message_FromBytes :: "string \<Rightarrow> error + message" where
  "message_FromBytes b =
     (case dropWhile (\<lambda>l. l = []) (strings_Split b (CHR 0x0A)) of
        [] \<Rightarrow> Inl (Error ''empty message'')
      | l # ls \<Rightarrow>
          (case parse_code (fst (strings_Cut l (CHR '' ''))) of
             None \<Rightarrow> Inl (Error ''malformed header'')
           | Some code \<Rightarrow>
               (case parse_fields ls of
                  Inl e \<Rightarrow> Inl e
                | Inr fs \<Rightarrow>
                    Inr \<lparr>Header = \<lparr>Status = code, Description = snd (strings_Cut l (CHR '' ''))\<rparr>,
                         Fields = fs\<rparr>)))"

text \<open>The layout \<^verbatim>\<open>time.RFC1123\<close> for an instant in a zone without offset: the civil
  date of the proleptic Gregorian calendar, and the name of the zone.\<close>

definition two_digits :: "int \<Rightarrow> string" where
  "two_digits n = [''0123456789'' ! nat (n div 10 mod 10), ''0123456789'' ! nat (n mod 10)]"

text \<open>A year is printed with four digits at least, and with its sign when negative.\<close>

definition four_digits :: "int \<Rightarrow> string" where
  "four_digits n =
     (let a = \<bar>n\<bar>;
          ds = (if a < 10000 then two_digits (a div 100) @ two_digits a
                else strconv_FormatInt a)
      in if n < 0 then CHR ''-'' # ds else ds)"

definition format_RFC1123 :: "string \<Rightarrow> time \<Rightarrow> string" where
  "format_RFC1123 zone t =
     (let days = t div 86400;
          secs = t mod 86400;
          weekday = nat ((days + 4) mod 7);
          z = days + 719468;
          era = z div 146097;
          doe = z - era * 146097;
          yoe = (doe - doe div 1460 + doe div 36524 - doe div 146096) div 365;
          doy = doe - (365 * yoe + yoe div 4 - yoe div 100);
          mp = (5 * doy + 2) div 153;
          d = doy - (153 * mp + 2) div 5 + 1;
          m = (if mp < 10 then mp + 3 else mp - 9);
          y = yoe + era * 400 + (if m \<le> 2 then 1 else 0)
      in [''Sun'', ''Mon'', ''Tue'', ''Wed'', ''Thu'', ''Fri'', ''Sat''] ! weekday
         @ '', '' @ two_digits d @ '' ''
         @ [''Jan'', ''Feb'', ''Mar'', ''Apr'', ''May'', ''Jun'', ''Jul'', ''Aug'', ''Sep'',
            ''Oct'', ''Nov'', ''Dec''] ! nat (m - 1)
         @ '' '' @ four_digits y @ '' ''
         @ two_digits (secs div 3600) @ '':'' @ two_digits (secs div 60 mod 60) @ '':''
         @ two_digits (secs mod 60) @ '' '' @ zone)"

text \<open>A stand-in for a digest of \<open>n\<close> bytes: the sum of the bytes, repeated. The
  properties below hold for every digest function.\<close>

definition byte_sum :: "nat \<Rightarrow> string \<Rightarrow> string" where
  "byte_sum n bs = replicate n (char_of (sum_list (map of_char bs) :: int))"

text \<open>
  An environment to run the engine in: the parser and printer of net/url as modelled
  above; the endpoint of a region; a store that holds the one object \<^verbatim>\<open>pkg.deb\<close> in the
  bucket \<^verbatim>\<open>my-bucket\<close> and answers 404 for every other key; a file system in which every
  file can be created; the zones \<^verbatim>\<open>GMT\<close> and \<^verbatim>\<open>UTC\<close>.
\<close>

definition sample_object :: string where
  "sample_object = ''!<arch>'' @ [CHR 0x0A] @ ''debian-binary''"

definition sample_env :: env where
  "sample_env =
     \<lparr>e_Parse = url_Parse,
      e_String = url_String,
      e_s3EndpointURL =
        (\<lambda>r. if r = ''us-east-1'' then url_Parse ''https://s3.amazonaws.com''
              else url_Parse (''https://s3.'' @ r @ ''.amazonaws.com'')),
      e_NewSession = (\<lambda>c. None),
      e_HeadObject =
        (\<lambda>c b k. if b = ''my-bucket'' \<and> k = ''pkg.deb''
                  then Inr \<lparr>ContentLength = Some (int (length sample_object)),
                            LastModified = Some 1540498659\<rparr>
                  else if b = ''my-bucket''
                  then Inl (RequestFailure ''NotFound: Not Found'' 404)
                  else Inl (RequestFailure ''Forbidden: Forbidden'' 403)),
      e_Download =
        (\<lambda>c b k. if b = ''my-bucket'' \<and> k = ''pkg.deb''
                  then Inr (sample_object, int (length sample_object))
                  else Inl (Error ''NoSuchKey: The specified key does not exist.'')),
      e_Create = (\<lambda>f. None),
      e_LoadLocation =
        (\<lambda>n. if n = ''GMT'' \<or> n = ''UTC'' then Inr n
              else Inl (Error (''unknown time zone '' @ n))),
      e_Format = (\<lambda>loc layout t. if layout = RFC1123 then format_RFC1123 loc t else layout),
      e_md5 = byte_sum 16,
      e_sha1 = byte_sum 20,
      e_sha256 = byte_sum 32,
      e_sha512 = byte_sum 64,
      e_FromBytes = message_FromBytes\<rparr>"

definition sample_state :: state where
  "sample_state =
     \<lparr>region = ''us-east-1'', roleARN = [], endpoint = [], configured = True, wg = 2,
      stdout = [], files = (\<lambda>_. None)\<rparr>"

text \<open>Two requests, for the object and for a key that the store does not hold, the
  request for the object without its Filename field, and what the engine derives from
  them: the parsed endpoint, the locations and the client.\<close>

definition sample_request :: message where
  "sample_request =
     \<lparr>Header = \<lparr>Status = 600, Description = ''URI Acquire''\<rparr>,
      Fields = [\<lparr>Name = ''URI'', Value = ''s3://ak:sk@s3.amazonaws.com/my-bucket/pkg.deb''\<rparr>,
                \<lparr>Name = ''Filename'', Value = ''/tmp/pkg.deb''\<rparr>]\<rparr>"

definition sample_request_other :: message where
  "sample_request_other =
     \<lparr>Header = \<lparr>Status = 600, Description = ''URI Acquire''\<rparr>,
      Fields = [\<lparr>Name = ''URI'', Value = ''s3://ak:sk@s3.amazonaws.com/my-bucket/other.deb''\<rparr>,
                \<lparr>Name = ''Filename'', Value = ''/tmp/other.deb''\<rparr>]\<rparr>"

definition sample_request_no_filename :: message where
  "sample_request_no_filename =
     \<lparr>Header = \<lparr>Status = 600, Description = ''URI Acquire''\<rparr>,
      Fields = [\<lparr>Name = ''URI'', Value = ''s3://ak:sk@s3.amazonaws.com/my-bucket/pkg.deb''\<rparr>]\<rparr>"

definition sample_endpoint :: url where
  "sample_endpoint =
     \<lparr>Scheme = ''https'', Opaque = [], User = None, Host = ''s3.amazonaws.com'', Path = [],
      RawPath = [], OmitHost = False, ForceQuery = False, RawQuery = [], Fragment = [],
      RawFragment = []\<rparr>"

definition sample_location :: "string \<Rightarrow> objectLocation" where
  "sample_location k =
     \<lparr>uri = \<lparr>Scheme = ''s3'', Opaque = [],
              User = Some \<lparr>username = ''ak'', password = ''sk'', passwordSet = True\<rparr>,
              Host = ''s3.amazonaws.com'', Path = ''/my-bucket/'' @ k, RawPath = [],
              OmitHost = False, ForceQuery = False, RawQuery = [], Fragment = [],
              RawFragment = []\<rparr>,
      bucket = ''my-bucket'', key = k\<rparr>"

definition sample_client :: config where
  "sample_client =
     \<lparr>Region = ''us-east-1'', Endpoint = None,
      Credentials = Some (StaticCredentials ''ak'' ''sk'' [])\<rparr>"

subsection \<open>The process: reading, dispatching, waiting\<close>

text \<open>\<^verbatim>\<open>strings.TrimRight(s, "\n")\<close>.\<close>

definition TrimRight_newlines :: "string \<Rightarrow> string" where
  "TrimRight_newlines s = rev (dropWhile (\<lambda>c. c = CHR 0x0A) (rev s))"

text \<open>\<^verbatim>\<open>New\<close>: the fields of a new \<^verbatim>\<open>Method\<close>; the counter of the wait group starts at
  one. The files are those of the machine.\<close>

definition endpoints_UsEast1RegionID :: string where
  "endpoints_UsEast1RegionID = ''us-east-1''"

definition New :: "(string \<Rightarrow> string option) \<Rightarrow> state" where
  "New fs =
     \<lparr>region = endpoints_UsEast1RegionID, roleARN = [], endpoint = [], configured = False,
      wg = 1, stdout = [], files = fs\<rparr>"

text \<open>
  \<^verbatim>\<open>Run\<close> prints the capabilities, starts the goroutine of \<^verbatim>\<open>readInput\<close> and the
  goroutine of \<^verbatim>\<open>processMessages\<close>, which starts one goroutine of \<^verbatim>\<open>handleBytes\<close> for
  every message it receives, and waits for the counter to be zero. The state of the process
  holds the state of the method, the lines of the input that the scanner has not read yet,
  the buffer of \<^verbatim>\<open>readInput\<close> and where it stands (between the send on the channel and
  \<^verbatim>\<open>wg.Add(1)\<close>, or after the end of the input), the goroutines of \<^verbatim>\<open>handleBytes\<close> with
  their bytes and whether they have returned, and the exit status once the process has
  ended.
\<close>

datatype reader_phase = Reading | Adding | Finished

record process =
  st :: state
  input :: "string list"
  buffer :: string
  reader :: reader_phase
  handlers :: "(string \<times> bool) list"
  exit_status :: "int option"

definition Run_start :: "string list \<Rightarrow> (string \<Rightarrow> string option) \<Rightarrow> process" where
  "Run_start lines fs =
     \<lparr>st = (New fs)\<lparr>stdout := [capabilities]\<rparr>, input = lines, buffer = [],
      reader = Reading, handlers = [], exit_status = None\<rparr>"

text \<open>One pass of the loop of \<^verbatim>\<open>readInput\<close> over a line: the line goes to the buffer;
  a blank line with more than three bytes in the buffer sends the buffer on the channel,
  where \<^verbatim>\<open>processMessages\<close> takes it and starts its goroutine, and empties the buffer.\<close>

definition read_line :: "string \<Rightarrow> process \<Rightarrow> process" where
  "read_line l p =
     (let line = l @ [CHR 0x0A];
          buf = buffer p @ line;
          trimmed = TrimRight_newlines line
      in if length trimmed = 0 \<and> length buf > 3
         then p\<lparr>buffer := [], reader := Adding, handlers := handlers p @ [(buf, False)]\<rparr>
         else p\<lparr>buffer := buf\<rparr>)"

text \<open>
  The steps of the process, interleaved in any order. A goroutine of \<^verbatim>\<open>handleBytes\<close>
  runs in one step, which it can take unless it waits for the configuration. A call of
  \<^verbatim>\<open>os.Exit\<close> ends the process with its status, a panic with status 2, and the return of
  \<^verbatim>\<open>Run\<close>, when the counter is zero, with status 0.
\<close>

datatype action = ReadLine | Add | Eof | Handle nat | RunReturns

inductive step :: "env \<Rightarrow> process \<Rightarrow> action \<Rightarrow> process \<Rightarrow> bool" for env where
  step_line:
    "exit_status p = None \<Longrightarrow> reader p = Reading \<Longrightarrow> input p = l # ls \<Longrightarrow>
     step env p ReadLine (read_line l (p\<lparr>input := ls\<rparr>))"
| step_add:
    "exit_status p = None \<Longrightarrow> reader p = Adding \<Longrightarrow>
     step env p Add (p\<lparr>st := (st p)\<lparr>wg := wg (st p) + 1\<rparr>, reader := Reading\<rparr>)"
| step_eof:
    "exit_status p = None \<Longrightarrow> reader p = Reading \<Longrightarrow> input p = [] \<Longrightarrow>
     wg_Done (st p) = (Return (), s') \<Longrightarrow>
     step env p Eof (p\<lparr>st := s', reader := Finished\<rparr>)"
| step_eof_panic:
    "exit_status p = None \<Longrightarrow> reader p = Reading \<Longrightarrow> input p = [] \<Longrightarrow>
     wg_Done (st p) = (Panic, s') \<Longrightarrow>
     step env p Eof (p\<lparr>st := s', exit_status := Some 2\<rparr>)"
| step_return:
    "exit_status p = None \<Longrightarrow> i < length (handlers p) \<Longrightarrow> handlers p ! i = (b, False) \<Longrightarrow>
     handleBytes env b (st p) = (Return (), s') \<Longrightarrow>
     step env p (Handle i) (p\<lparr>st := s', handlers := (handlers p)[i := (b, True)]\<rparr>)"
| step_exit:
    "exit_status p = None \<Longrightarrow> i < length (handlers p) \<Longrightarrow> handlers p ! i = (b, False) \<Longrightarrow>
     handleBytes env b (st p) = (Exit n, s') \<Longrightarrow>
     step env p (Handle i) (p\<lparr>st := s', exit_status := Some n\<rparr>)"
| step_panic:
    "exit_status p = None \<Longrightarrow> i < length (handlers p) \<Longrightarrow> handlers p ! i = (b, False) \<Longrightarrow>
     handleBytes env b (st p) = (Panic, s') \<Longrightarrow>
     step env p (Handle i) (p\<lparr>st := s', exit_status := Some 2\<rparr>)"
| step_run_returns:
    "exit_status p = None \<Longrightarrow> wg (st p) = 0 \<Longrightarrow>
     step env p RunReturns (p\<lparr>exit_status := Some 0\<rparr>)"

text \<open>The states that the process reaches from its start on the given input.\<close>

inductive reachable :: "env \<Rightarrow> string list \<Rightarrow> (string \<Rightarrow> string option) \<Rightarrow> process \<Rightarrow> bool"
  for env lines fs where
  reachable_start: "reachable env lines fs (Run_start lines fs)"
| reachable_step: "reachable env lines fs p \<Longrightarrow> step env p a p' \<Longrightarrow> reachable env lines fs p'"

text \<open>The header code of the message that a goroutine of \<^verbatim>\<open>handleBytes\<close> has been given,
  where its bytes parse.\<close>

definition code_of :: "env \<Rightarrow> string \<Rightarrow> int option" where
  "code_of env b =
     (case e_FromBytes env b of Inl err \<Rightarrow> None | Inr msg \<Rightarrow> Some (Status (Header msg)))"

subsection \<open>What a procedure does to the counter and to the latch\<close>

text \<open>A procedure is plain when it leaves the latch alone, leaves the counter alone where it
  returns, exits with status 1 only and never waits; it is ending when it decrements the
  counter by one where it returns, and is otherwise as a plain one.\<close>

definition plain :: "'a proc \<Rightarrow> bool" where
  "plain p = (\<forall>s. configured (snd (p s)) = configured s
                \<and> (\<forall>a. fst (p s) = Return a \<longrightarrow> wg (snd (p s)) = wg s)
                \<and> (\<forall>n. fst (p s) = Exit n \<longrightarrow> n = 1)
                \<and> fst (p s) \<noteq> Blocked)"

definition ending :: "'a proc \<Rightarrow> bool" where
  "ending p = (\<forall>s. configured (snd (p s)) = configured s
                \<and> (\<forall>a. fst (p s) = Return a \<longrightarrow> wg (snd (p s)) = wg s - 1)
                \<and> (\<forall>n. fst (p s) = Exit n \<longrightarrow> n = 1)
                \<and> fst (p s) \<noteq> Blocked)"



definition latch_inv :: "env \<Rightarrow> process \<Rightarrow> bool" where
  "latch_inv env p =
     (exit_status p = None \<longrightarrow> configured (st p) \<longrightarrow>
        (\<exists>j < length (handlers p).
           snd (handlers p ! j) \<and> code_of env (fst (handlers p ! j)) = Some 601))"



text \<open>What a procedure prints: messages other than General Failure, and where it exits,
  with status 1 and with one General Failure as the last message.\<close>


definition no_failure :: "message list \<Rightarrow> bool" where
  "no_failure out = (\<forall>m \<in> set out. Status (Header m) \<noteq> 401)"

definition reported :: "'a outcome \<Rightarrow> message list \<Rightarrow> bool" where
  "reported r out =
     (case r of
        Exit n \<Rightarrow> n = 1 \<and> (\<exists>pre err. out = pre @ [generalFailure err] \<and> no_failure pre)
      | _ \<Rightarrow> no_failure out)"

definition reports :: "'a proc \<Rightarrow> bool" where
  "reports p = (\<forall>s. \<exists>out. stdout (snd (p s)) = stdout s @ out \<and> reported (fst (p s)) out)"

definition sample_no_uri_bytes :: string where
  "sample_no_uri_bytes =
     ''600 URI Acquire'' @ [CHR 0x0A] @ ''Filename: /tmp/pkg.deb'' @ [CHR 0x0A, CHR 0x0A]"




definition sample_acquire_lines :: "string list" where
  "sample_acquire_lines =
     [''600 URI Acquire'', ''URI: s3://ak:sk@s3.amazonaws.com/my-bucket/pkg.deb'',
      ''Filename: /tmp/pkg.deb'', []]"

definition sample_acquire_bytes :: string where
  "sample_acquire_bytes =
     ''600 URI Acquire'' @ [CHR 0x0A]
     @ ''URI: s3://ak:sk@s3.amazonaws.com/my-bucket/pkg.deb'' @ [CHR 0x0A]
     @ ''Filename: /tmp/pkg.deb'' @ [CHR 0x0A, CHR 0x0A]"

definition sample_acquire_waiting :: process where
  "sample_acquire_waiting =
     \<lparr>st = (New (\<lambda>_. None))\<lparr>stdout := [capabilities], wg := 2\<rparr>, input = [], buffer = [],
      reader = Reading, handlers = [(sample_acquire_bytes, False)], exit_status = None\<rparr>"

text \<open>Variants of the sample environment: one whose time zone database is missing, and
  one whose file system refuses to create a file.\<close>

definition sample_env_no_zone :: env where
  "sample_env_no_zone =
     sample_env\<lparr>e_LoadLocation := (\<lambda>n. Inl (Error (''unknown time zone '' @ n)))\<rparr>"

definition sample_env_read_only :: env where
  "sample_env_read_only =
     sample_env\<lparr>e_Create := (\<lambda>f. Some (Error (''open '' @ f @ '': permission denied'')))\<rparr>"

text \<open>Inputs that the engine does not survive: a configuration message whose Config-Item
  has no \<^verbatim>\<open>=\<close>, with the state in which the process ends on it; a fetch request whose
  locator has its \<^verbatim>\<open>@\<close> among the first five bytes; and a configuration message
  followed by a fetch request whose locator has no path, with the state in which the
  process ends on them.\<close>

definition sample_config_no_value_lines :: "string list" where
  "sample_config_no_value_lines =
     [''601 Configuration'', ''Config-Item: Acquire::s3::region'', []]"

definition sample_config_no_value_bytes :: string where
  "sample_config_no_value_bytes =
     ''601 Configuration'' @ [CHR 0x0A] @ ''Config-Item: Acquire::s3::region''
     @ [CHR 0x0A, CHR 0x0A]"

definition sample_config_panicked :: process where
  "sample_config_panicked =
     \<lparr>st = (New (\<lambda>_. None))\<lparr>stdout := [capabilities], wg := 2\<rparr>, input = [], buffer = [],
      reader = Reading, handlers = [(sample_config_no_value_bytes, False)],
      exit_status = Some 2\<rparr>"

definition sample_request_no_scheme :: message where
  "sample_request_no_scheme =
     \<lparr>Header = \<lparr>Status = 600, Description = ''URI Acquire''\<rparr>,
      Fields = [\<lparr>Name = ''URI'', Value = ''me@s3.amazonaws.com/my-bucket/pkg.deb''\<rparr>,
                \<lparr>Name = ''Filename'', Value = ''/tmp/pkg.deb''\<rparr>]\<rparr>"

definition sample_config_region_bytes :: string where
  "sample_config_region_bytes =
     ''601 Configuration'' @ [CHR 0x0A] @ ''Config-Item: Acquire::s3::region=eu-west-1''
     @ [CHR 0x0A, CHR 0x0A]"

definition sample_no_path_bytes :: string where
  "sample_no_path_bytes =
     ''600 URI Acquire'' @ [CHR 0x0A] @ ''URI: s3://my-bucket'' @ [CHR 0x0A]
     @ ''Filename: /tmp/pkg.deb'' @ [CHR 0x0A, CHR 0x0A]"

definition sample_no_path_lines :: "string list" where
  "sample_no_path_lines =
     [''601 Configuration'', ''Config-Item: Acquire::s3::region=eu-west-1'', [],
      ''600 URI Acquire'', ''URI: s3://my-bucket'', ''Filename: /tmp/pkg.deb'', []]"

definition sample_no_path_panicked :: process where
  "sample_no_path_panicked =
     \<lparr>st = (New (\<lambda>_. None))\<lparr>region := ''eu-west-1'', configured := True, wg := 2,
                              stdout := [capabilities]\<rparr>,
      input = [], buffer = [], reader = Reading,
      handlers = [(sample_config_region_bytes, True), (sample_no_path_bytes, False)],
      exit_status = Some 2\<rparr>"

section \<open>Properties\<close>

subsection \<open>Replacing one byte\<close>

lemma replace_from_single:
  "replace_from s [c] new = concat (map (\<lambda>x. if x = c then new else [x]) s)"
  by (induction s) (simp_all add: strings_HasPrefix_def)

lemma ReplaceAll_newline:
  "strings_ReplaceAll s [CHR 0x0A] '' '' = map (\<lambda>x. if x = CHR 0x0A then CHR '' '' else x) s"
proof -
  have "concat (map (\<lambda>x. if x = CHR 0x0A then '' '' else [x]) s)
      = map (\<lambda>x. if x = CHR 0x0A then CHR '' '' else x) s"
    by (induction s) simp_all
  then show ?thesis
    by (simp add: strings_ReplaceAll_def replace_from_single)
qed

subsection \<open>C8: a configuration message that sets the region\<close>

text \<open>
  C8. A configuration message whose only Config-Item field has the value
  \<^verbatim>\<open>Acquire::s3::region=eu-west-1\<close> sets the region to \<^verbatim>\<open>eu-west-1\<close>. The role and the
  endpoint override keep their values, as do the output and the files. What every
  configuration message does comes on top: the latch is set and the counter is decremented,
  and with a positive counter the procedure returns.
\<close>

theorem configure_region_only:
  assumes "GetFieldList msg ''Config-Item'' = [f]"
    and "Value f = ''Acquire::s3::region=eu-west-1''"
  shows "region (snd (configure msg s)) = ''eu-west-1''
       \<and> roleARN (snd (configure msg s)) = roleARN s
       \<and> endpoint (snd (configure msg s)) = endpoint s
       \<and> stdout (snd (configure msg s)) = stdout s
       \<and> files (snd (configure msg s)) = files s
       \<and> configured (snd (configure msg s))
       \<and> (0 < wg s \<longrightarrow>
            configure msg s =
              (Return (), s\<lparr>region := ''eu-west-1'', configured := True, wg := wg s - 1\<rparr>))"
proof -
  have split: "strings_Split ''Acquire::s3::region=eu-west-1'' (CHR ''='')
      = [''Acquire::s3::region'', ''eu-west-1'']"
    by simp
  have item: "configure_item f s = (Return (), s\<lparr>region := ''eu-west-1''\<rparr>)"
    by (simp add: configure_item_def assms(2) split at_index_def
        configItemAcquireS3Region_def)
  show ?thesis
    using assms(1)
    by (simp add: configure_def fieldNameConfigItem_def seq_def ret_def item wg_Done_def)
qed

theorem configure_region_only_witness:
  "GetFieldList
     \<lparr>Header = \<lparr>Status = 601, Description = ''Configuration''\<rparr>,
      Fields = [\<lparr>Name = ''Config-Item'', Value = ''Acquire::s3::region=eu-west-1''\<rparr>]\<rparr>
     ''Config-Item''
     = [\<lparr>Name = ''Config-Item'', Value = ''Acquire::s3::region=eu-west-1''\<rparr>]
   \<and> configure
     \<lparr>Header = \<lparr>Status = 601, Description = ''Configuration''\<rparr>,
      Fields = [\<lparr>Name = ''Config-Item'', Value = ''Acquire::s3::region=eu-west-1''\<rparr>]\<rparr>
     \<lparr>region = ''us-east-1'', roleARN = ''arn:aws:iam::123456789012:role/reader'',
      endpoint = ''https://minio.example.com'', configured = False, wg = 2, stdout = [],
      files = (\<lambda>_. None)\<rparr>
   = (Return (),
      \<lparr>region = ''eu-west-1'', roleARN = ''arn:aws:iam::123456789012:role/reader'',
       endpoint = ''https://minio.example.com'', configured = True, wg = 1, stdout = [],
       files = (\<lambda>_. None)\<rparr>)"
proof -
  let ?f = "\<lparr>Name = ''Config-Item'', Value = ''Acquire::s3::region=eu-west-1''\<rparr>"
  let ?m = "\<lparr>Header = \<lparr>Status = 601, Description = ''Configuration''\<rparr>, Fields = [?f]\<rparr>"
  let ?s = "\<lparr>region = ''us-east-1'', roleARN = ''arn:aws:iam::123456789012:role/reader'',
      endpoint = ''https://minio.example.com'', configured = False, wg = 2, stdout = [],
      files = (\<lambda>_. None)\<rparr>"
  have h1: "GetFieldList ?m ''Config-Item'' = [?f]"
    by (simp add: GetFieldList_def)
  have h2: "Value ?f = ''Acquire::s3::region=eu-west-1''"
    by simp
  show ?thesis
    using h1 configure_region_only [OF h1 h2, of ?s] by simp
qed

subsection \<open>Splitting, joining and trimming\<close>

lemma Split_not_Nil: "strings_Split s c \<noteq> []"
  by (induction s) (auto split: list.splits)

lemma Join_Split: "strings_Join (strings_Split s c) c = s"
proof (induction s)
  case Nil
  then show ?case by simp
next
  case (Cons x xs)
  obtain t ts where ts: "strings_Split xs c = t # ts"
    using Split_not_Nil [of xs c] by (cases "strings_Split xs c") auto
  show ?case
    using Cons ts by (cases ts) auto
qed

lemma Split_no_sep: "c \<notin> set b \<Longrightarrow> strings_Split b c = [b]"
  by (induction b) auto

lemma Split_append_sep:
  "c \<notin> set b \<Longrightarrow> strings_Split (b @ c # k) c = b # strings_Split k c"
  by (induction b) auto

lemma HasSuffix_iff: "strings_HasSuffix s suf \<longleftrightarrow> (\<exists>a. s = a @ suf)"
proof
  assume "strings_HasSuffix s suf"
  then have "s = take (length s - length suf) s @ suf"
    by (metis append_take_drop_id strings_HasSuffix_def)
  then show "\<exists>a. s = a @ suf" ..
next
  assume "\<exists>a. s = a @ suf"
  then show "strings_HasSuffix s suf"
    by (auto simp: strings_HasSuffix_def)
qed

lemma TrimSuffix_append: "strings_TrimSuffix (a @ suf) suf = a"
  by (simp add: strings_TrimSuffix_def strings_HasSuffix_def)

lemma TrimSuffix_other: "\<not> (\<exists>a. s = a @ suf) \<Longrightarrow> strings_TrimSuffix s suf = s"
  by (simp add: strings_TrimSuffix_def HasSuffix_iff)

subsection \<open>The three styles of a location\<close>

text \<open>
  What \<^verbatim>\<open>newLocation\<close> does by design, for every parser: once the locator has been
  preprocessed and parsed, the style is chosen by comparing the host with the host of the
  endpoint. In the path style the path is split at the slashes; fewer than three tokens are
  an error, otherwise the bucket is the token after the leading empty one and the key joins
  the rest, so that \<^verbatim>\<open>/b/k\<close> gives \<open>b\<close> and \<open>k\<close>. In the other two styles a path that
  begins with a slash gives the key behind that slash; the bucket is the host without the
  suffix made of a dot and the host of the endpoint, or the whole host.
\<close>

theorem newLocation_styles:
  assumes "preProcessURL val = Ok v" and "parse v = Inr u"
  shows "(Host u = h \<longrightarrow>
            newLocation parse val h =
              (if length (strings_Split (Path u) (CHR ''/'')) < 3
               then Err (Error ''location missing required number of tokens'')
               else Ok \<lparr>uri = u, bucket = strings_Split (Path u) (CHR ''/'') ! 1,
                        key = strings_Join (drop 2 (strings_Split (Path u) (CHR ''/''))) (CHR ''/'')\<rparr>))
       \<and> (Host u = h \<and> Path u = ''/'' @ b @ ''/'' @ k \<and> CHR ''/'' \<notin> set b \<longrightarrow>
            newLocation parse val h = Ok \<lparr>uri = u, bucket = b, key = k\<rparr>)
       \<and> (Host u = b @ ''.'' @ h \<and> Path u = ''/'' @ k \<longrightarrow>
            newLocation parse val h = Ok \<lparr>uri = u, bucket = b, key = k\<rparr>)
       \<and> (Host u \<noteq> h \<and> (\<forall>a. Host u \<noteq> a @ ''.'' @ h) \<and> Path u = ''/'' @ k \<longrightarrow>
            newLocation parse val h = Ok \<lparr>uri = u, bucket = Host u, key = k\<rparr>)"
proof (intro conjI impI)
  assume "Host u = h"
  then show "newLocation parse val h =
              (if length (strings_Split (Path u) (CHR ''/'')) < 3
               then Err (Error ''location missing required number of tokens'')
               else Ok \<lparr>uri = u, bucket = strings_Split (Path u) (CHR ''/'') ! 1,
                        key = strings_Join (drop 2 (strings_Split (Path u) (CHR ''/''))) (CHR ''/'')\<rparr>)"
    using assms
    by (simp add: newLocation_def Let_def locationMinTokensCount_def
        errLocMissingRequiredTokens_def)
next
  assume a: "Host u = h \<and> Path u = ''/'' @ b @ ''/'' @ k \<and> CHR ''/'' \<notin> set b"
  then have "strings_Split (Path u) (CHR ''/'') = [] # b # strings_Split k (CHR ''/'')"
    by (simp add: Split_append_sep)
  then show "newLocation parse val h = Ok \<lparr>uri = u, bucket = b, key = k\<rparr>"
    using assms a
    by (simp add: newLocation_def Let_def locationMinTokensCount_def Join_Split Split_not_Nil)
next
  assume a: "Host u = b @ ''.'' @ h \<and> Path u = ''/'' @ k"
  then have "Host u \<noteq> h"
    by (metis append_self_conv2 append_is_Nil_conv list.distinct(1) append_Cons)
  moreover have "strings_HasSuffix (Host u) h"
    using a by (metis HasSuffix_iff append.assoc)
  moreover have "strings_TrimSuffix (Host u) (''.'' @ h) = b"
    using a TrimSuffix_append [of b "''.'' @ h"] by simp
  ultimately show "newLocation parse val h = Ok \<lparr>uri = u, bucket = b, key = k\<rparr>"
    using assms a by (simp add: newLocation_def)
next
  assume a: "Host u \<noteq> h \<and> (\<forall>a. Host u \<noteq> a @ ''.'' @ h) \<and> Path u = ''/'' @ k"
  then have "strings_TrimSuffix (Host u) (''.'' @ h) = Host u"
    by (intro TrimSuffix_other) auto
  then show "newLocation parse val h = Ok \<lparr>uri = u, bucket = Host u, key = k\<rparr>"
    using assms a by (simp add: newLocation_def)
qed

theorem newLocation_styles_example:
  "newLocation url_Parse ''s3://ak:sk@s3.amazonaws.com/my-bucket/dists/stable/Release''
     ''s3.amazonaws.com''
   = Ok \<lparr>uri = \<lparr>Scheme = ''s3'', Opaque = [],
                  User = Some \<lparr>username = ''ak'', password = ''sk'', passwordSet = True\<rparr>,
                  Host = ''s3.amazonaws.com'', Path = ''/my-bucket/dists/stable/Release'',
                  RawPath = [], OmitHost = False, ForceQuery = False, RawQuery = [],
                  Fragment = [], RawFragment = []\<rparr>,
          bucket = ''my-bucket'', key = ''dists/stable/Release''\<rparr>
   \<and> newLocation url_Parse ''s3://my-bucket.s3.amazonaws.com/dists/stable/Release''
     ''s3.amazonaws.com''
   = Ok \<lparr>uri = \<lparr>Scheme = ''s3'', Opaque = [], User = None,
                  Host = ''my-bucket.s3.amazonaws.com'', Path = ''/dists/stable/Release'',
                  RawPath = [], OmitHost = False, ForceQuery = False, RawQuery = [],
                  Fragment = [], RawFragment = []\<rparr>,
          bucket = ''my-bucket'', key = ''dists/stable/Release''\<rparr>
   \<and> newLocation url_Parse ''s3://my-bucket/dists/stable/Release'' ''minio.example.com''
   = Ok \<lparr>uri = \<lparr>Scheme = ''s3'', Opaque = [], User = None,
                  Host = ''my-bucket'', Path = ''/dists/stable/Release'',
                  RawPath = [], OmitHost = False, ForceQuery = False, RawQuery = [],
                  Fragment = [], RawFragment = []\<rparr>,
          bucket = ''my-bucket'', key = ''dists/stable/Release''\<rparr>
   \<and> newLocation url_Parse ''s3://s3.amazonaws.com/my-bucket'' ''s3.amazonaws.com''
   = Err (Error ''location missing required number of tokens'')"
  by code_simp

subsection \<open>C3: the key of a location outside the path style\<close>

text \<open>
  C3. Resolution is to give every locator a bucket and a key, or a location error; in the
  virtual-hosted and in the opaque style the key is the path without its leading slash.
  The code slices the path from its second byte without looking at its length. The locator
  \<^verbatim>\<open>s3://bucket.s3.amazonaws.com\<close>, virtual-hosted for the endpoint host
  \<^verbatim>\<open>s3.amazonaws.com\<close>, has the empty path: its resolution panics, where the path style,
  next to it, counts the tokens and returns an error. For the locators whose path begins
  with a slash the three styles are as described, by \<open>newLocation_styles\<close>.
\<close>

theorem newLocation_virtual_hosted_no_path:
  "newLocation url_Parse ''s3://bucket.s3.amazonaws.com'' ''s3.amazonaws.com'' = Panics"
  by code_simp

subsection \<open>C4: credentials with a slash\<close>

text \<open>
  C4. \<^verbatim>\<open>preProcessURL\<close> is meant to percent-escape the slashes of the access key and of the
  secret. It replaces every occurrence of the text of the key, and then of the secret, in
  the whole locator. For the access key \<^verbatim>\<open>x\<close> and the secret \<^verbatim>\<open>/\<close> every slash of the
  locator is escaped, those after the scheme and those of the path too: what is handed to
  the parser has no authority and no path any more, no credentials are extracted, and the
  resolution ends in the panic of the empty path. For the secret \<^verbatim>\<open>com/repo\<close>, whose text
  occurs again where the host \<^verbatim>\<open>s3.amazonaws.com\<close> meets the bucket \<^verbatim>\<open>repo\<close>, the slash
  that ends the authority is escaped as well, and the parser rejects the host.
\<close>

theorem preProcessURL_escapes_all_slashes:
  "preProcessURL ''s3://x:/@s3.amazonaws.com/bucket/key''
     = Ok ''s3:%2F%2Fx:%2F@s3.amazonaws.com%2Fbucket%2Fkey''
   \<and> url_Parse ''s3:%2F%2Fx:%2F@s3.amazonaws.com%2Fbucket%2Fkey''
     = Inr \<lparr>Scheme = ''s3'', Opaque = ''%2F%2Fx:%2F@s3.amazonaws.com%2Fbucket%2Fkey'',
            User = None, Host = [], Path = [], RawPath = [], OmitHost = False,
            ForceQuery = False, RawQuery = [], Fragment = [], RawFragment = []\<rparr>
   \<and> newLocation url_Parse ''s3://x:/@s3.amazonaws.com/bucket/key'' ''s3.amazonaws.com''
     = Panics
   \<and> preProcessURL ''s3://AKIAKEY:com/repo@s3.amazonaws.com/repo/dists/Release''
     = Ok ''s3://AKIAKEY:com%2Frepo@s3.amazonaws.com%2Frepo/dists/Release''
   \<and> newLocation url_Parse ''s3://AKIAKEY:com/repo@s3.amazonaws.com/repo/dists/Release''
       ''s3.amazonaws.com''
     = Err (Error ''invalid URL escape'')"
  by code_simp

text \<open>Two more locators. In the first the texts of the key and of the secret occur
  nowhere else: the slashes of the credentials are escaped, the parser restores them, and
  the bucket and the key are found. In the second the secret has a colon: the credentials
  split into more than two tokens, nothing is escaped, and the locator does not parse.\<close>

lemma preProcessURL_examples:
  "preProcessURL ''s3://AKIA/X:se/cr/et@s3.amazonaws.com/my-bucket/pool/pkg.deb''
     = Ok ''s3://AKIA%2FX:se%2Fcr%2Fet@s3.amazonaws.com/my-bucket/pool/pkg.deb''"
  "newLocation url_Parse ''s3://AKIA/X:se/cr/et@s3.amazonaws.com/my-bucket/pool/pkg.deb''
     ''s3.amazonaws.com''
     = Ok \<lparr>uri = \<lparr>Scheme = ''s3'', Opaque = [],
                    User = Some \<lparr>username = ''AKIA/X'', password = ''se/cr/et'',
                                  passwordSet = True\<rparr>,
                    Host = ''s3.amazonaws.com'', Path = ''/my-bucket/pool/pkg.deb'',
                    RawPath = [], OmitHost = False, ForceQuery = False, RawQuery = [],
                    Fragment = [], RawFragment = []\<rparr>,
            bucket = ''my-bucket'', key = ''pool/pkg.deb''\<rparr>"
  "preProcessURL ''s3://ak:se/cr:et@s3.amazonaws.com/my-bucket/pkg.deb''
     = Ok ''s3://ak:se/cr:et@s3.amazonaws.com/my-bucket/pkg.deb''"
  "newLocation url_Parse ''s3://ak:se/cr:et@s3.amazonaws.com/my-bucket/pkg.deb''
     ''s3.amazonaws.com''
     = Err (Error ''invalid port after host'')"
  by code_simp+

subsection \<open>C9: the empty path\<close>

text \<open>
  C9. \<^verbatim>\<open>newLocation\<close> is not total: for every parser and every locator that it parses to a
  URL whose host differs from the host of the endpoint and whose path is empty, the slice
  \<^verbatim>\<open>uri.Path[1:]\<close> is out of range and the function panics; it returns neither a location
  nor an error.
\<close>

theorem newLocation_empty_path_panics:
  assumes "preProcessURL val = Ok v" and "parse v = Inr u"
    and "Host u \<noteq> s3Hostname" and "Path u = []"
  shows "newLocation parse val s3Hostname = Panics
       \<and> (\<forall>e. newLocation parse val s3Hostname \<noteq> Err e)
       \<and> (\<forall>loc. newLocation parse val s3Hostname \<noteq> Ok loc)"
  using assms by (simp add: newLocation_def)

theorem newLocation_empty_path_panics_witness:
  "preProcessURL ''s3://my-bucket'' = Ok ''s3://my-bucket''
   \<and> url_Parse ''s3://my-bucket''
     = Inr \<lparr>Scheme = ''s3'', Opaque = [], User = None, Host = ''my-bucket'', Path = [],
            RawPath = [], OmitHost = False, ForceQuery = False, RawQuery = [],
                  Fragment = [], RawFragment = []\<rparr>
   \<and> newLocation url_Parse ''s3://my-bucket'' ''minio.example.com'' = Panics"
proof -
  let ?u = "\<lparr>Scheme = ''s3'', Opaque = [], User = None, Host = ''my-bucket'', Path = [],
            RawPath = [], OmitHost = False, ForceQuery = False, RawQuery = [],
                  Fragment = [], RawFragment = []\<rparr>"
  have h1: "preProcessURL ''s3://my-bucket'' = Ok ''s3://my-bucket''"
    by code_simp
  have h2: "url_Parse ''s3://my-bucket'' = Inr ?u"
    by code_simp
  have h3: "Host ?u \<noteq> ''minio.example.com''"
    by simp
  have h4: "Path ?u = []"
    by simp
  show ?thesis
    using h1 h2 newLocation_empty_path_panics [where parse = url_Parse, OF h1 h2 h3 h4] by simp
qed

subsection \<open>Running a fetch request\<close>

lemma seq_Return: "p s = (Return a, s') \<Longrightarrow> seq p f s = f a s'"
  by (simp add: seq_def)

lemma seq_ret: "seq (ret a) f s = f a s"
  by (simp add: seq_def ret_def)

lemma seq_Exit: "p s = (Exit n, s') \<Longrightarrow> seq p f s = (Exit n, s')"
  by (simp add: seq_def)

lemma handleError_None: "handleError None s = (Return (), s)"
  by (simp add: handleError_def ret_def)

lemma handleError_Some:
  "handleError (Some err) s = (Exit 1, s\<lparr>stdout := stdout s @ [generalFailure err]\<rparr>)"
  by (simp add: handleError_def outputGeneralFailure_def println_def os_Exit_def seq_def)

lemma s3Client_stdout:
  "fst (s3Client env usr s) = Return client \<Longrightarrow>
     s3Client env usr (s\<lparr>stdout := out\<rparr>) = (Return client, s\<lparr>stdout := out\<rparr>)"
  by (auto simp: s3Client_def Let_def seq_def ret_def handleError_Some
      split: option.splits prod.splits bool.splits if_splits)

lemma uriAcquire_to_query:
  assumes "configured s"
    and "GetFieldValue msg ''URI'' = (locator, True)"
    and "(if endpoint s \<noteq> [] then e_Parse env (endpoint s)
          else e_s3EndpointURL env (region s)) = Inr s3URL"
    and "newLocation (e_Parse env) locator (url_Hostname s3URL) = Ok objLoc"
    and "fst (s3Client env (User (uri objLoc)) s) = Return client"
  shows "uriAcquire env msg s =
     (case e_HeadObject env client (bucket objLoc) (key objLoc) of
       Inl err \<Rightarrow>
         (case err of
            RequestFailure t code \<Rightarrow>
              if code = http_StatusNotFound then outputNotFound env (uri objLoc)
              else seq (handleError (Some err)) (\<lambda>_. panic)
          | Error t \<Rightarrow> seq (handleError (Some err)) (\<lambda>_. panic))
     | Inr headObjectOutput \<Rightarrow>
         (case ContentLength headObjectOutput of
            None \<Rightarrow> panic
          | Some expectedLen \<Rightarrow>
         (case LastModified headObjectOutput of
            None \<Rightarrow> panic
          | Some lastMod \<Rightarrow>
         seq (outputURIStart env (uri objLoc) expectedLen lastMod) (\<lambda>_.
         seq (ret (GetFieldValue msg fieldNameFilename)) (\<lambda>(filename, hasField).
         seq (if \<not> hasField then handleError (Some errAcqMsgMissingRequiredFieldFilename)
              else ret ()) (\<lambda>_.
         seq (os_Create env filename) (\<lambda>_.
         seq (download env client filename (bucket objLoc) (key objLoc)) (\<lambda>numBytes.
         outputURIDone env (uri objLoc) numBytes lastMod filename))))))))
      (s\<lparr>stdout := stdout s @ [requestStatus env (uri objLoc) fieldValueConnecting]\<rparr>)"
proof -
  let ?s1 = "s\<lparr>stdout := stdout s @ [requestStatus env (uri objLoc) fieldValueConnecting]\<rparr>"
  have cl: "s3Client env (User (uri objLoc)) ?s1 = (Return client, ?s1)"
    using assms(5) by (rule s3Client_stdout)
  show ?thesis
    unfolding uriAcquire_def
    using assms(1,2,3,4) cl
    by (auto simp: seq_def ret_def waitForConfiguration_def fieldNameURI_def
        outputRequestStatus_def println_def split: if_splits)
qed


lemma lastModified_ok:
  "e_LoadLocation env ''GMT'' = Inr gmt \<Longrightarrow>
     lastModified env t s = (Return \<lparr>Name = ''Last-Modified'', Value = e_Format env gmt RFC1123 t\<rparr>, s)"
  by (simp add: lastModified_def ret_def mk_field_def fieldNameLastModified_def)

lemma outputURIStart_ok:
  "e_LoadLocation env ''GMT'' = Inr gmt \<Longrightarrow>
     outputURIStart env u n t s =
       (Return (),
        s\<lparr>stdout := stdout s @
           [\<lparr>Header = \<lparr>Status = 200, Description = ''URI Start''\<rparr>,
             Fields = [\<lparr>Name = ''URI'', Value = e_String env u\<rparr>,
                       \<lparr>Name = ''Size'', Value = strconv_FormatInt n\<rparr>,
                       \<lparr>Name = ''Last-Modified'', Value = e_Format env gmt RFC1123 t\<rparr>]\<rparr>]\<rparr>)"
  by (simp add: outputURIStart_def uriStart_def Let_def seq_def lastModified_ok ret_def
      println_def mk_header_def mk_field_def headerCodeURIStart_def
      headerDescriptionURIStart_def fieldNameURI_def fieldNameSize_def)

lemma outputURIStart_no_zone:
  "e_LoadLocation env ''GMT'' = Inl err \<Longrightarrow>
     outputURIStart env u n t s = (Exit 1, s\<lparr>stdout := stdout s @ [generalFailure err]\<rparr>)"
  by (simp add: outputURIStart_def uriStart_def Let_def lastModified_def seq_def
      handleError_Some)

lemma uriDone_ok:
  assumes "e_LoadLocation env ''GMT'' = Inr gmt" and "files s filename = Some fileBytes"
  shows "uriDone env u n t filename s =
       (Return
          \<lparr>Header = \<lparr>Status = 201, Description = ''URI Done''\<rparr>,
           Fields = [\<lparr>Name = ''URI'', Value = e_String env u\<rparr>,
                     \<lparr>Name = ''Filename'', Value = filename\<rparr>,
                     \<lparr>Name = ''Size'', Value = strconv_FormatInt n\<rparr>,
                     \<lparr>Name = ''Last-Modified'', Value = e_Format env gmt RFC1123 t\<rparr>,
                     \<lparr>Name = ''MD5-Hash'', Value = hex_EncodeToString (e_md5 env fileBytes)\<rparr>,
                     \<lparr>Name = ''MD5Sum-Hash'', Value = hex_EncodeToString (e_md5 env fileBytes)\<rparr>,
                     \<lparr>Name = ''SHA1-Hash'', Value = hex_EncodeToString (e_sha1 env fileBytes)\<rparr>,
                     \<lparr>Name = ''SHA256-Hash'', Value = hex_EncodeToString (e_sha256 env fileBytes)\<rparr>,
                     \<lparr>Name = ''SHA512-Hash'', Value = hex_EncodeToString (e_sha512 env fileBytes)\<rparr>]\<rparr>,
        s)"
  using assms
  by (simp add: uriDone_def Let_def seq_def lastModified_ok os_ReadFile_def handleError_None
      ret_def mk_header_def mk_field_def headerCodeURIDone_def headerDescriptionURIDone_def
      fieldName_defs md5Field_def md5SumField_def sha1Field_def sha256Field_def
      sha512Field_def computeHash_def)

text \<open>The sample requests reach the metadata query in the sample environment.\<close>

lemma sample_reaches_query:
  "configured sample_state"
  "0 < wg sample_state"
  "GetFieldValue sample_request ''URI''
     = (''s3://ak:sk@s3.amazonaws.com/my-bucket/pkg.deb'', True)"
  "GetFieldValue sample_request_no_filename ''URI''
     = (''s3://ak:sk@s3.amazonaws.com/my-bucket/pkg.deb'', True)"
  "GetFieldValue sample_request_other ''URI''
     = (''s3://ak:sk@s3.amazonaws.com/my-bucket/other.deb'', True)"
  "(if endpoint sample_state \<noteq> [] then e_Parse sample_env (endpoint sample_state)
    else e_s3EndpointURL sample_env (region sample_state)) = Inr sample_endpoint"
  "newLocation (e_Parse sample_env) ''s3://ak:sk@s3.amazonaws.com/my-bucket/pkg.deb''
     (url_Hostname sample_endpoint) = Ok (sample_location ''pkg.deb'')"
  "newLocation (e_Parse sample_env) ''s3://ak:sk@s3.amazonaws.com/my-bucket/other.deb''
     (url_Hostname sample_endpoint) = Ok (sample_location ''other.deb'')"
  "fst (s3Client sample_env (User (uri (sample_location k))) sample_state)
     = Return sample_client"
  "e_LoadLocation sample_env ''GMT'' = Inr ''GMT''"
  by code_simp+

lemma uriAcquire_missing_filename:
  assumes "configured s"
    and "GetFieldValue msg ''URI'' = (locator, True)"
    and "(if endpoint s \<noteq> [] then e_Parse env (endpoint s)
          else e_s3EndpointURL env (region s)) = Inr s3URL"
    and "newLocation (e_Parse env) locator (url_Hostname s3URL) = Ok objLoc"
    and "fst (s3Client env (User (uri objLoc)) s) = Return client"
    and "e_HeadObject env client (bucket objLoc) (key objLoc)
           = Inr \<lparr>ContentLength = Some n, LastModified = Some t\<rparr>"
    and "e_LoadLocation env ''GMT'' = Inr gmt"
    and "\<not> snd (GetFieldValue msg ''Filename'')"
  shows "uriAcquire env msg s =
           (Exit 1,
            s\<lparr>stdout := stdout s @
                 [requestStatus env (uri objLoc) ''Connecting to s3.amazonaws.com'',
                  \<lparr>Header = \<lparr>Status = 200, Description = ''URI Start''\<rparr>,
                    Fields = [\<lparr>Name = ''URI'', Value = e_String env (uri objLoc)\<rparr>,
                              \<lparr>Name = ''Size'', Value = strconv_FormatInt n\<rparr>,
                              \<lparr>Name = ''Last-Modified'',
                                Value = e_Format env gmt ''Mon, 02 Jan 2006 15:04:05 MST'' t\<rparr>]\<rparr>,
                  generalFailure (Error ''acquire message missing required field: Filename'')]\<rparr>)"
proof -
  note q = uriAcquire_to_query [OF assms(1,2,3,4,5)]
  show ?thesis
    using assms(6,8)
    by (auto simp: q outputURIStart_ok [OF assms(7)] seq_def ret_def
        fieldNameFilename_def fieldValue_defs handleError_Some RFC1123_def
        errAcqMsgMissingRequiredFieldFilename_def
        split: prod.splits)
qed

lemma sample_values:
  "e_String sample_env (uri (sample_location ''pkg.deb''))
     = ''s3://ak:sk@s3.amazonaws.com/my-bucket/pkg.deb''"
  "e_String sample_env (uri (sample_location ''other.deb''))
     = ''s3://ak:sk@s3.amazonaws.com/my-bucket/other.deb''"
  "strconv_FormatInt (int (length sample_object)) = ''21''"
  "e_Format sample_env ''GMT'' ''Mon, 02 Jan 2006 15:04:05 MST'' 1540498659
     = ''Thu, 25 Oct 2018 20:17:39 GMT''"
  "generalFailure (Error ''acquire message missing required field: Filename'')
     = \<lparr>Header = \<lparr>Status = 401, Description = ''General Failure''\<rparr>,
        Fields = [\<lparr>Name = ''Message'',
                    Value = ''acquire message missing required field: Filename''\<rparr>]\<rparr>"
  "hex_EncodeToString (e_md5 sample_env sample_object) = ''58585858585858585858585858585858''"
  "hex_EncodeToString (e_sha1 sample_env sample_object)
     = ''5858585858585858585858585858585858585858''"
  "hex_EncodeToString (e_sha256 sample_env sample_object)
     = ''5858585858585858585858585858585858585858585858585858585858585858''"
  "e_HeadObject sample_env sample_client (bucket (sample_location ''pkg.deb''))
     (key (sample_location ''pkg.deb''))
     = Inr \<lparr>ContentLength = Some (int (length sample_object)),
            LastModified = Some 1540498659\<rparr>"
  "GetFieldValue sample_request_no_filename ''Filename'' = ([], False)"
  by code_simp+

text \<open>The same in the environment without time zones, up to the load of the zone.\<close>

lemma sample_env_no_zone_sel:
  "e_Parse sample_env_no_zone = e_Parse sample_env"
  "e_String sample_env_no_zone = e_String sample_env"
  "e_s3EndpointURL sample_env_no_zone = e_s3EndpointURL sample_env"
  "e_HeadObject sample_env_no_zone = e_HeadObject sample_env"
  "s3Client sample_env_no_zone = s3Client sample_env"
  "requestStatus sample_env_no_zone = requestStatus sample_env"
  "e_LoadLocation sample_env_no_zone ''GMT'' = Inl (Error ''unknown time zone GMT'')"
  by (simp_all add: sample_env_no_zone_def fun_eq_iff s3Client_def requestStatus_def)

lemma sample_no_zone_reaches_query:
  "(if endpoint sample_state \<noteq> [] then e_Parse sample_env_no_zone (endpoint sample_state)
    else e_s3EndpointURL sample_env_no_zone (region sample_state)) = Inr sample_endpoint"
  "newLocation (e_Parse sample_env_no_zone) ''s3://ak:sk@s3.amazonaws.com/my-bucket/pkg.deb''
     (url_Hostname sample_endpoint) = Ok (sample_location ''pkg.deb'')"
  "fst (s3Client sample_env_no_zone (User (uri (sample_location k))) sample_state)
     = Return sample_client"
  "e_HeadObject sample_env_no_zone sample_client (bucket (sample_location ''pkg.deb''))
     (key (sample_location ''pkg.deb''))
     = Inr \<lparr>ContentLength = Some (int (length sample_object)),
            LastModified = Some 1540498659\<rparr>"
  unfolding sample_env_no_zone_sel
  by (rule sample_reaches_query(6) sample_reaches_query(7) sample_reaches_query(9)
      sample_values(9))+

subsection \<open>C1: the object is not found\<close>

text \<open>
  C1. Take a fetch request that reaches the metadata query: the latch is set, the URI field
  is there, the endpoint and the location resolve and the client is built. When the query
  fails with a request failure of status 404, the request prints, after the Status message,
  one message 400 URI Failure with the printed locator and the text
  \<^verbatim>\<open>The specified key does not exist.\<close>, decrements the counter and returns: no URI Start
  and no URI Done is printed and the process does not exit. Every other error of the query
  is handed to \<^verbatim>\<open>handleError\<close>: General Failure, exit status 1.
\<close>

theorem uriAcquire_not_found:
  assumes "configured s" and "0 < wg s"
    and "GetFieldValue msg ''URI'' = (locator, True)"
    and "(if endpoint s \<noteq> [] then e_Parse env (endpoint s)
          else e_s3EndpointURL env (region s)) = Inr s3URL"
    and "newLocation (e_Parse env) locator (url_Hostname s3URL) = Ok objLoc"
    and "fst (s3Client env (User (uri objLoc)) s) = Return client"
    and "e_HeadObject env client (bucket objLoc) (key objLoc) = Inl err"
  shows "((\<exists>t. err = RequestFailure t 404) \<longrightarrow>
            uriAcquire env msg s =
              (Return (),
               s\<lparr>stdout := stdout s @
                    [requestStatus env (uri objLoc) ''Connecting to s3.amazonaws.com'',
                     \<lparr>Header = \<lparr>Status = 400, Description = ''URI Failure''\<rparr>,
                       Fields = [\<lparr>Name = ''URI'', Value = e_String env (uri objLoc)\<rparr>,
                                 \<lparr>Name = ''Message'',
                                   Value = ''The specified key does not exist.''\<rparr>]\<rparr>],
                  wg := wg s - 1\<rparr>))
       \<and> ((\<forall>t. err \<noteq> RequestFailure t 404) \<longrightarrow>
            uriAcquire env msg s =
              (Exit 1,
               s\<lparr>stdout := stdout s @
                    [requestStatus env (uri objLoc) ''Connecting to s3.amazonaws.com'',
                     generalFailure err]\<rparr>))
       \<and> Status (Header (requestStatus env (uri objLoc) ''Connecting to s3.amazonaws.com'')) = 102"
proof -
  note q = uriAcquire_to_query [OF assms(1,3,4,5,6)]
  show ?thesis
    using assms(2,7)
    by (cases err)
      (auto simp: q http_StatusNotFound_def outputNotFound_def notFound_def Let_def seq_def
        println_def wg_Done_def handleError_Some mk_header_def mk_field_def
        headerCodeURIFailure_def headerDescriptionURIFailure_def fieldNameURI_def
        fieldNameMessage_def fieldValue_defs requestStatus_def headerCodeStatus_def)
qed

theorem uriAcquire_not_found_witness:
  "configured sample_state \<and> 0 < wg sample_state
   \<and> e_HeadObject sample_env sample_client ''my-bucket'' ''other.deb''
       = Inl (RequestFailure ''NotFound: Not Found'' 404)
   \<and> uriAcquire sample_env sample_request_other sample_state =
       (Return (),
        sample_state\<lparr>stdout := stdout sample_state @
             [requestStatus sample_env (uri (sample_location ''other.deb''))
                ''Connecting to s3.amazonaws.com'',
              \<lparr>Header = \<lparr>Status = 400, Description = ''URI Failure''\<rparr>,
                Fields = [\<lparr>Name = ''URI'',
                            Value = e_String sample_env (uri (sample_location ''other.deb''))\<rparr>,
                          \<lparr>Name = ''Message'',
                            Value = ''The specified key does not exist.''\<rparr>]\<rparr>],
           wg := wg sample_state - 1\<rparr>)"
proof -
  have h: "e_HeadObject sample_env sample_client (bucket (sample_location ''other.deb''))
             (key (sample_location ''other.deb''))
           = Inl (RequestFailure ''NotFound: Not Found'' 404)"
    by code_simp
  have h': "e_HeadObject sample_env sample_client ''my-bucket'' ''other.deb''
           = Inl (RequestFailure ''NotFound: Not Found'' 404)"
    by code_simp
  show ?thesis
    using sample_reaches_query(1,2) h'
      uriAcquire_not_found [where env = sample_env,
        OF sample_reaches_query(1,2,5,6,8,9) h]
    by simp
qed

subsection \<open>C5: URI Start and the Filename field\<close>

text \<open>
  C5. Take a fetch request that reaches the metadata query, and a query that answers with a
  size and a time. When the time zone database knows GMT, the request prints, after the
  Status message, the message 200 URI Start with the printed locator, the size in decimal
  and the time in the layout RFC 1123 in the zone GMT, whether or not the request has a
  Filename field. The field is looked at only afterwards: when it is absent the request is
  fatal, and the output is the Status message, URI Start and General Failure. When the zone
  GMT cannot be loaded, the request is fatal before URI Start is printed: the output is the
  Status message and General Failure with the error of the load.
\<close>

theorem uriAcquire_start_before_filename:
  assumes "configured s"
    and "GetFieldValue msg ''URI'' = (locator, True)"
    and "(if endpoint s \<noteq> [] then e_Parse env (endpoint s)
          else e_s3EndpointURL env (region s)) = Inr s3URL"
    and "newLocation (e_Parse env) locator (url_Hostname s3URL) = Ok objLoc"
    and "fst (s3Client env (User (uri objLoc)) s) = Return client"
    and "e_HeadObject env client (bucket objLoc) (key objLoc)
           = Inr \<lparr>ContentLength = Some n, LastModified = Some t\<rparr>"
  shows "(\<forall>gmt. e_LoadLocation env ''GMT'' = Inr gmt \<longrightarrow>
           take (length (stdout s) + 2) (stdout (snd (uriAcquire env msg s))) =
             stdout s @
             [requestStatus env (uri objLoc) ''Connecting to s3.amazonaws.com'',
              \<lparr>Header = \<lparr>Status = 200, Description = ''URI Start''\<rparr>,
                Fields = [\<lparr>Name = ''URI'', Value = e_String env (uri objLoc)\<rparr>,
                          \<lparr>Name = ''Size'', Value = strconv_FormatInt n\<rparr>,
                          \<lparr>Name = ''Last-Modified'',
                            Value = e_Format env gmt ''Mon, 02 Jan 2006 15:04:05 MST'' t\<rparr>]\<rparr>]
           \<and> (\<not> snd (GetFieldValue msg ''Filename'') \<longrightarrow>
                uriAcquire env msg s =
                  (Exit 1,
                   s\<lparr>stdout := stdout s @
                        [requestStatus env (uri objLoc) ''Connecting to s3.amazonaws.com'',
                         \<lparr>Header = \<lparr>Status = 200, Description = ''URI Start''\<rparr>,
                           Fields = [\<lparr>Name = ''URI'', Value = e_String env (uri objLoc)\<rparr>,
                                     \<lparr>Name = ''Size'', Value = strconv_FormatInt n\<rparr>,
                                     \<lparr>Name = ''Last-Modified'',
                                       Value = e_Format env gmt ''Mon, 02 Jan 2006 15:04:05 MST'' t\<rparr>]\<rparr>,
                         generalFailure (Error ''acquire message missing required field: Filename'')]\<rparr>)))
       \<and> (\<forall>err. e_LoadLocation env ''GMT'' = Inl err \<longrightarrow>
            uriAcquire env msg s =
              (Exit 1,
               s\<lparr>stdout := stdout s @
                    [requestStatus env (uri objLoc) ''Connecting to s3.amazonaws.com'',
                     generalFailure err]\<rparr>))
       \<and> Status (Header (requestStatus env (uri objLoc) ''Connecting to s3.amazonaws.com'')) = 102
       \<and> Status (Header (generalFailure e)) = 401"
proof -
  note q = uriAcquire_to_query [OF assms(1,2,3,4,5)]
  have zone: "take (length (stdout s) + 2) (stdout (snd (uriAcquire env msg s))) =
             stdout s @
             [requestStatus env (uri objLoc) ''Connecting to s3.amazonaws.com'',
              \<lparr>Header = \<lparr>Status = 200, Description = ''URI Start''\<rparr>,
                Fields = [\<lparr>Name = ''URI'', Value = e_String env (uri objLoc)\<rparr>,
                          \<lparr>Name = ''Size'', Value = strconv_FormatInt n\<rparr>,
                          \<lparr>Name = ''Last-Modified'',
                            Value = e_Format env gmt ''Mon, 02 Jan 2006 15:04:05 MST'' t\<rparr>]\<rparr>]
           \<and> (\<not> snd (GetFieldValue msg ''Filename'') \<longrightarrow>
                uriAcquire env msg s =
                  (Exit 1,
                   s\<lparr>stdout := stdout s @
                        [requestStatus env (uri objLoc) ''Connecting to s3.amazonaws.com'',
                         \<lparr>Header = \<lparr>Status = 200, Description = ''URI Start''\<rparr>,
                           Fields = [\<lparr>Name = ''URI'', Value = e_String env (uri objLoc)\<rparr>,
                                     \<lparr>Name = ''Size'', Value = strconv_FormatInt n\<rparr>,
                                     \<lparr>Name = ''Last-Modified'',
                                       Value = e_Format env gmt ''Mon, 02 Jan 2006 15:04:05 MST'' t\<rparr>]\<rparr>,
                         generalFailure (Error ''acquire message missing required field: Filename'')]\<rparr>))"
    if g: "e_LoadLocation env ''GMT'' = Inr gmt" for gmt
    using assms(6)
    by (auto simp: q outputURIStart_ok [OF g] uriDone_ok [OF g] seq_def ret_def
        fieldNameFilename_def fieldValue_defs handleError_Some handleError_None os_Create_def
        download_def outputURIDone_def println_def wg_Done_def RFC1123_def
        errAcqMsgMissingRequiredFieldFilename_def
        split: prod.splits option.splits sum.splits if_splits)
  have nozone: "uriAcquire env msg s =
              (Exit 1,
               s\<lparr>stdout := stdout s @
                    [requestStatus env (uri objLoc) ''Connecting to s3.amazonaws.com'',
                     generalFailure err]\<rparr>)"
    if g: "e_LoadLocation env ''GMT'' = Inl err" for err
    using assms(6)
    by (simp add: q outputURIStart_no_zone [OF g] seq_def fieldValue_defs)
  have codes: "Status (Header (requestStatus env (uri objLoc) ''Connecting to s3.amazonaws.com'')) = 102"
    "Status (Header (generalFailure e)) = 401"
    by (simp_all add: requestStatus_def generalFailure_def Let_def mk_header_def
        headerCodeStatus_def headerCodeGeneralFailure_def)
  show ?thesis
    using zone nozone codes by blast
qed


theorem uriAcquire_start_before_filename_witness:
  "configured sample_state
   \<and> \<not> snd (GetFieldValue sample_request_no_filename ''Filename'')
   \<and> e_LoadLocation sample_env ''GMT'' = Inr ''GMT''
   \<and> uriAcquire sample_env sample_request_no_filename sample_state =
       (Exit 1,
        sample_state\<lparr>stdout := stdout sample_state @
             [requestStatus sample_env (uri (sample_location ''pkg.deb''))
                ''Connecting to s3.amazonaws.com'',
              \<lparr>Header = \<lparr>Status = 200, Description = ''URI Start''\<rparr>,
                Fields = [\<lparr>Name = ''URI'',
                            Value = e_String sample_env (uri (sample_location ''pkg.deb''))\<rparr>,
                          \<lparr>Name = ''Size'',
                            Value = strconv_FormatInt (int (length sample_object))\<rparr>,
                          \<lparr>Name = ''Last-Modified'',
                            Value = e_Format sample_env ''GMT''
                                      ''Mon, 02 Jan 2006 15:04:05 MST'' 1540498659\<rparr>]\<rparr>,
              generalFailure (Error ''acquire message missing required field: Filename'')]\<rparr>)
   \<and> e_LoadLocation sample_env_no_zone ''GMT'' = Inl (Error ''unknown time zone GMT'')
   \<and> uriAcquire sample_env_no_zone sample_request sample_state =
       (Exit 1,
        sample_state\<lparr>stdout := stdout sample_state @
             [requestStatus sample_env (uri (sample_location ''pkg.deb''))
                ''Connecting to s3.amazonaws.com'',
              generalFailure (Error ''unknown time zone GMT'')]\<rparr>)"
proof -
  have f: "\<not> snd (GetFieldValue sample_request_no_filename ''Filename'')"
    by (simp add: sample_values)
  note r = sample_env_no_zone_sel(6)
  show ?thesis
    using sample_reaches_query(1,10) f sample_env_no_zone_sel(7) r
      uriAcquire_start_before_filename [where env = sample_env,
        OF sample_reaches_query(1,4,6,7,9) sample_values(9)]
      uriAcquire_start_before_filename [where env = sample_env_no_zone,
        OF sample_reaches_query(1,3) sample_no_zone_reaches_query(1,2,3,4)]
    by simp
qed

text \<open>The request without a Filename field, run: URI Start is printed, then the failure.\<close>

theorem uriAcquire_no_filename_prints_start:
  "GetFieldValue sample_request_no_filename ''Filename'' = ([], False)
   \<and> fst (uriAcquire sample_env sample_request_no_filename sample_state) = Exit 1
   \<and> stdout (snd (uriAcquire sample_env sample_request_no_filename sample_state)) =
       [\<lparr>Header = \<lparr>Status = 102, Description = ''Status''\<rparr>,
         Fields = [\<lparr>Name = ''URI'', Value = ''s3://ak:sk@s3.amazonaws.com/my-bucket/pkg.deb''\<rparr>,
                   \<lparr>Name = ''Message'', Value = ''Connecting to s3.amazonaws.com''\<rparr>]\<rparr>,
        \<lparr>Header = \<lparr>Status = 200, Description = ''URI Start''\<rparr>,
         Fields = [\<lparr>Name = ''URI'', Value = ''s3://ak:sk@s3.amazonaws.com/my-bucket/pkg.deb''\<rparr>,
                   \<lparr>Name = ''Size'', Value = ''21''\<rparr>,
                   \<lparr>Name = ''Last-Modified'', Value = ''Thu, 25 Oct 2018 20:17:39 GMT''\<rparr>]\<rparr>,
        \<lparr>Header = \<lparr>Status = 401, Description = ''General Failure''\<rparr>,
         Fields = [\<lparr>Name = ''Message'',
                     Value = ''acquire message missing required field: Filename''\<rparr>]\<rparr>]"
proof -
  have f: "\<not> snd (GetFieldValue sample_request_no_filename ''Filename'')"
    by (simp add: sample_values)
  have z: "stdout sample_state = []"
    by (simp add: sample_state_def)
  show ?thesis
    by (simp add: uriAcquire_missing_filename [where env = sample_env,
          OF sample_reaches_query(1,4,6,7,9) sample_values(9) sample_reaches_query(10) f]
        sample_values z requestStatus_def mk_header_def mk_field_def headerCodeStatus_def
        headerDescriptionStatus_def fieldNameURI_def fieldNameMessage_def)
qed

subsection \<open>C6: the message URI Done\<close>

text \<open>
  C6. \<^verbatim>\<open>uriDone\<close> reads the named file and builds the message 201 URI Done from the
  printed locator, the file name, the size, the time in the layout RFC 1123 in GMT, and the
  digests MD5, SHA-1, SHA-256 and SHA-512 of the bytes read, each in hexadecimal; the MD5
  digest stands under both names MD5-Hash and MD5Sum-Hash. A fetch request whose steps all
  succeed writes the downloaded bytes to the file, prints Status, URI Start and this URI
  Done, whose digests are therefore those of the bytes now in the file, decrements the
  counter and returns.
\<close>

theorem uriAcquire_done:
  assumes "configured s" and "0 < wg s"
    and "GetFieldValue msg ''URI'' = (locator, True)"
    and "(if endpoint s \<noteq> [] then e_Parse env (endpoint s)
          else e_s3EndpointURL env (region s)) = Inr s3URL"
    and "newLocation (e_Parse env) locator (url_Hostname s3URL) = Ok objLoc"
    and "fst (s3Client env (User (uri objLoc)) s) = Return client"
    and "e_HeadObject env client (bucket objLoc) (key objLoc)
           = Inr \<lparr>ContentLength = Some n, LastModified = Some t\<rparr>"
    and "e_LoadLocation env ''GMT'' = Inr gmt"
    and "GetFieldValue msg ''Filename'' = (filename, True)"
    and "e_Create env filename = None"
    and "e_Download env client (bucket objLoc) (key objLoc) = Inr (fileBytes, numBytes)"
  shows "(\<forall>s' u sz b. files s' filename = Some b \<longrightarrow>
            uriDone env u sz t filename s' =
              (Return
                 \<lparr>Header = \<lparr>Status = 201, Description = ''URI Done''\<rparr>,
                  Fields = [\<lparr>Name = ''URI'', Value = e_String env u\<rparr>,
                            \<lparr>Name = ''Filename'', Value = filename\<rparr>,
                            \<lparr>Name = ''Size'', Value = strconv_FormatInt sz\<rparr>,
                            \<lparr>Name = ''Last-Modified'',
                              Value = e_Format env gmt ''Mon, 02 Jan 2006 15:04:05 MST'' t\<rparr>,
                            \<lparr>Name = ''MD5-Hash'', Value = hex_EncodeToString (e_md5 env b)\<rparr>,
                            \<lparr>Name = ''MD5Sum-Hash'', Value = hex_EncodeToString (e_md5 env b)\<rparr>,
                            \<lparr>Name = ''SHA1-Hash'', Value = hex_EncodeToString (e_sha1 env b)\<rparr>,
                            \<lparr>Name = ''SHA256-Hash'',
                              Value = hex_EncodeToString (e_sha256 env b)\<rparr>,
                            \<lparr>Name = ''SHA512-Hash'',
                              Value = hex_EncodeToString (e_sha512 env b)\<rparr>]\<rparr>,
               s'))
       \<and> fst (uriAcquire env msg s) = Return ()
       \<and> files (snd (uriAcquire env msg s)) filename = Some fileBytes
       \<and> wg (snd (uriAcquire env msg s)) = wg s - 1
       \<and> stdout (snd (uriAcquire env msg s)) =
           stdout s @
           [requestStatus env (uri objLoc) ''Connecting to s3.amazonaws.com'',
            \<lparr>Header = \<lparr>Status = 200, Description = ''URI Start''\<rparr>,
              Fields = [\<lparr>Name = ''URI'', Value = e_String env (uri objLoc)\<rparr>,
                        \<lparr>Name = ''Size'', Value = strconv_FormatInt n\<rparr>,
                        \<lparr>Name = ''Last-Modified'',
                          Value = e_Format env gmt ''Mon, 02 Jan 2006 15:04:05 MST'' t\<rparr>]\<rparr>,
            \<lparr>Header = \<lparr>Status = 201, Description = ''URI Done''\<rparr>,
              Fields = [\<lparr>Name = ''URI'', Value = e_String env (uri objLoc)\<rparr>,
                        \<lparr>Name = ''Filename'', Value = filename\<rparr>,
                        \<lparr>Name = ''Size'', Value = strconv_FormatInt numBytes\<rparr>,
                        \<lparr>Name = ''Last-Modified'',
                          Value = e_Format env gmt ''Mon, 02 Jan 2006 15:04:05 MST'' t\<rparr>,
                        \<lparr>Name = ''MD5-Hash'', Value = hex_EncodeToString (e_md5 env fileBytes)\<rparr>,
                        \<lparr>Name = ''MD5Sum-Hash'', Value = hex_EncodeToString (e_md5 env fileBytes)\<rparr>,
                        \<lparr>Name = ''SHA1-Hash'', Value = hex_EncodeToString (e_sha1 env fileBytes)\<rparr>,
                        \<lparr>Name = ''SHA256-Hash'', Value = hex_EncodeToString (e_sha256 env fileBytes)\<rparr>,
                        \<lparr>Name = ''SHA512-Hash'', Value = hex_EncodeToString (e_sha512 env fileBytes)\<rparr>]\<rparr>]"
proof -
  note q = uriAcquire_to_query [OF assms(1,3,4,5,6)]
  show ?thesis
    using assms(2,7,9,10,11)
    by (simp add: q outputURIStart_ok [OF assms(8)] uriDone_ok [OF assms(8)] seq_def ret_def
        fieldNameFilename_def fieldValue_defs handleError_None os_Create_def
        download_def outputURIDone_def println_def wg_Done_def RFC1123_def)
qed

theorem uriAcquire_done_witness:
  "configured sample_state \<and> 0 < wg sample_state
   \<and> GetFieldValue sample_request ''Filename'' = (''/tmp/pkg.deb'', True)
   \<and> fst (uriAcquire sample_env sample_request sample_state) = Return ()
   \<and> files (snd (uriAcquire sample_env sample_request sample_state)) ''/tmp/pkg.deb''
       = Some sample_object
   \<and> wg (snd (uriAcquire sample_env sample_request sample_state)) = wg sample_state - 1
   \<and> stdout (snd (uriAcquire sample_env sample_request sample_state)) ! 2 =
       \<lparr>Header = \<lparr>Status = 201, Description = ''URI Done''\<rparr>,
        Fields = [\<lparr>Name = ''URI'',
                    Value = e_String sample_env (uri (sample_location ''pkg.deb''))\<rparr>,
                  \<lparr>Name = ''Filename'', Value = ''/tmp/pkg.deb''\<rparr>,
                  \<lparr>Name = ''Size'', Value = strconv_FormatInt (int (length sample_object))\<rparr>,
                  \<lparr>Name = ''Last-Modified'',
                    Value = e_Format sample_env ''GMT''
                              ''Mon, 02 Jan 2006 15:04:05 MST'' 1540498659\<rparr>,
                  \<lparr>Name = ''MD5-Hash'',
                    Value = hex_EncodeToString (e_md5 sample_env sample_object)\<rparr>,
                  \<lparr>Name = ''MD5Sum-Hash'',
                    Value = hex_EncodeToString (e_md5 sample_env sample_object)\<rparr>,
                  \<lparr>Name = ''SHA1-Hash'',
                    Value = hex_EncodeToString (e_sha1 sample_env sample_object)\<rparr>,
                  \<lparr>Name = ''SHA256-Hash'',
                    Value = hex_EncodeToString (e_sha256 sample_env sample_object)\<rparr>,
                  \<lparr>Name = ''SHA512-Hash'',
                    Value = hex_EncodeToString (e_sha512 sample_env sample_object)\<rparr>]\<rparr>"
proof -
  have h: "e_HeadObject sample_env sample_client (bucket (sample_location ''pkg.deb''))
             (key (sample_location ''pkg.deb''))
           = Inr \<lparr>ContentLength = Some (int (length sample_object)),
                  LastModified = Some 1540498659\<rparr>"
    by code_simp
  have f: "GetFieldValue sample_request ''Filename'' = (''/tmp/pkg.deb'', True)"
    by code_simp
  have c: "e_Create sample_env ''/tmp/pkg.deb'' = None"
    by code_simp
  have d: "e_Download sample_env sample_client (bucket (sample_location ''pkg.deb''))
             (key (sample_location ''pkg.deb''))
           = Inr (sample_object, int (length sample_object))"
    by code_simp
  have z: "stdout sample_state = []"
    by (simp add: sample_state_def)
  show ?thesis
    using sample_reaches_query(1,2) f
      uriAcquire_done [where env = sample_env,
        OF sample_reaches_query(1,2,3,6,7,9) h sample_reaches_query(10) f c d]
    by (simp add: z)
qed

subsection \<open>The effect of a goroutine on the counter and the latch\<close>

lemma plain_seq: "plain p \<Longrightarrow> (\<And>a. plain (f a)) \<Longrightarrow> plain (seq p f)"
  unfolding plain_def seq_def
  apply (intro allI)
  subgoal for s
    apply (cases "p s")
    subgoal for r s'
      by (cases r) (auto split: prod.splits, (metis fst_conv snd_conv)+)
    done
  done


lemma ending_seq: "plain p \<Longrightarrow> (\<And>a. ending (f a)) \<Longrightarrow> ending (seq p f)"
  unfolding plain_def ending_def seq_def
  apply (intro allI)
  subgoal for s
    apply (cases "p s")
    subgoal for r s'
      by (cases r) (auto split: prod.splits, (metis fst_conv snd_conv)+)
    done
  done

lemma plain_ret: "plain (ret a)"
  by (simp add: plain_def ret_def)

lemma plain_println: "plain (println m)"
  by (simp add: plain_def println_def)

lemma plain_handleError: "plain (handleError err)"
  by (cases err) (simp_all add: plain_def handleError_Some handleError_None)

lemma plain_panic: "plain panic"
  by (simp add: plain_def panic_def)

lemma ending_panic: "ending panic"
  by (simp add: ending_def panic_def)

lemma ending_fatal: "ending (seq (handleError (Some err)) f)"
  by (simp add: ending_def seq_def handleError_Some)

lemma plain_fatal: "plain (seq (handleError (Some err)) f)"
  by (simp add: plain_def seq_def handleError_Some)

lemma ending_wg_Done: "ending wg_Done"
  by (simp add: ending_def wg_Done_def)

lemmas plain_intros =
  plain_seq plain_ret plain_println plain_handleError plain_panic plain_fatal

lemma plain_lastModified: "plain (lastModified env t)"
  by (auto simp: lastModified_def intro!: plain_intros split: sum.split)

lemma plain_uriStart: "plain (uriStart env u n t)"
  by (auto simp: uriStart_def Let_def intro!: plain_intros plain_lastModified)

lemma plain_os_ReadFile: "plain (os_ReadFile f)"
  by (auto simp: plain_def os_ReadFile_def split: option.split)

lemma plain_uriDone: "plain (uriDone env u n t f)"
  by (auto simp: uriDone_def Let_def
      intro!: plain_intros plain_lastModified plain_os_ReadFile)

lemma plain_outputURIStart: "plain (outputURIStart env u n t)"
  by (auto simp: outputURIStart_def intro!: plain_intros plain_uriStart)

lemma plain_outputRequestStatus: "plain (outputRequestStatus env u m)"
  by (simp add: outputRequestStatus_def plain_println)

lemma ending_outputURIDone: "ending (outputURIDone env u n t f)"
  by (auto simp: outputURIDone_def
      intro!: ending_seq plain_uriDone plain_println ending_wg_Done)

lemma ending_outputNotFound: "ending (outputNotFound env u)"
  by (auto simp: outputNotFound_def intro!: ending_seq plain_println ending_wg_Done)

lemma plain_os_Create: "plain (os_Create env f)"
  by (auto simp: plain_def os_Create_def seq_def handleError_Some split: option.split)

lemma plain_download: "plain (download env c f b k)"
  by (auto simp: plain_def download_def seq_def handleError_Some split: sum.split)

lemma plain_s3Client: "plain (s3Client env usr)"
  by (auto simp: plain_def s3Client_def Let_def seq_def ret_def handleError_Some
      split: option.split prod.split bool.split)

lemma plain_endpoint:
  "plain (\<lambda>s.
            (if endpoint s \<noteq> [] then
               (case e_Parse env (endpoint s) of
                  Inl err \<Rightarrow>
                    seq (handleError (Some (Error (''parsing S3 endpoint '' @ endpoint s
                                                    @ '': '' @ Error_text err))))
                      (\<lambda>_. panic)
                | Inr u \<Rightarrow> ret u)
             else
               (case e_s3EndpointURL env (region s) of
                  Inl err \<Rightarrow>
                    seq (handleError (Some (Error (''resolving S3 endpoint for region ''
                                                    @ region s @ '': '' @ Error_text err))))
                      (\<lambda>_. panic)
                | Inr u \<Rightarrow> ret u)) s)"
  by (auto simp: plain_def seq_def ret_def handleError_Some split: sum.split)

lemma uriAcquire_gate:
  "\<exists>rest. ending rest \<and> uriAcquire env msg = seq waitForConfiguration (\<lambda>_. rest)"
  unfolding uriAcquire_def
  by (rule exI, rule conjI [OF _ refl])
    (auto intro!: ending_seq plain_intros plain_endpoint plain_outputRequestStatus
      plain_s3Client plain_outputURIStart plain_os_Create plain_download
      ending_outputURIDone ending_outputNotFound ending_panic ending_fatal
      split: sum.split option.split error.split result.split prod.split)


lemma uriAcquire_blocked: "\<not> configured s \<Longrightarrow> uriAcquire env msg s = (Blocked, s)"
  by (simp add: uriAcquire_def seq_def waitForConfiguration_def)

lemma uriAcquire_effect:
  assumes "configured s"
  shows "configured (snd (uriAcquire env msg s))"
    and "fst (uriAcquire env msg s) = Return a \<Longrightarrow> wg (snd (uriAcquire env msg s)) = wg s - 1"
    and "fst (uriAcquire env msg s) = Exit n \<Longrightarrow> n = 1"
    and "fst (uriAcquire env msg s) \<noteq> Blocked"
proof -
  obtain rest where r: "ending rest" "uriAcquire env msg = seq waitForConfiguration (\<lambda>_. rest)"
    using uriAcquire_gate by blast
  have eq: "uriAcquire env msg s = rest s"
    using assms by (simp add: r(2) seq_def waitForConfiguration_def)
  show "configured (snd (uriAcquire env msg s))"
    using r(1) assms by (simp add: eq ending_def)
  show "fst (uriAcquire env msg s) = Return a \<Longrightarrow> wg (snd (uriAcquire env msg s)) = wg s - 1"
    using r(1) by (simp add: eq ending_def)
  show "fst (uriAcquire env msg s) = Exit n \<Longrightarrow> n = 1"
    using r(1) by (simp add: eq ending_def)
  show "fst (uriAcquire env msg s) \<noteq> Blocked"
    using r(1) by (simp add: eq ending_def)
qed

lemma configure_item_effect:
  "fst (configure_item f s) \<noteq> Blocked \<and> (\<forall>n. fst (configure_item f s) \<noteq> Exit n)
   \<and> wg (snd (configure_item f s)) = wg s
   \<and> configured (snd (configure_item f s)) = configured s"
  by (simp add: configure_item_def Let_def split: option.split)

lemma configure_items_effect:
  "fst (configure_items fs s) \<noteq> Blocked \<and> (\<forall>n. fst (configure_items fs s) \<noteq> Exit n)
   \<and> wg (snd (configure_items fs s)) = wg s
   \<and> configured (snd (configure_items fs s)) = configured s"
proof (induction fs arbitrary: s)
  case Nil
  then show ?case by (simp add: ret_def)
next
  case (Cons f fs)
  obtain r s' where c: "configure_item f s = (r, s')"
    by (cases "configure_item f s")
  show ?case
    using configure_item_effect [of f s] Cons [of s']
    by (cases r) (simp_all add: seq_def c)
qed

lemma configure_effect:
  "fst (configure msg s) \<noteq> Blocked \<and> (\<forall>n. fst (configure msg s) \<noteq> Exit n)
   \<and> (fst (configure msg s) = Return () \<longrightarrow>
        configured (snd (configure msg s)) \<and> wg (snd (configure msg s)) = wg s - 1)"
proof -
  obtain r s' where c: "configure_items (GetFieldList msg fieldNameConfigItem) s = (r, s')"
    by (cases "configure_items (GetFieldList msg fieldNameConfigItem) s")
  show ?thesis
    using configure_items_effect [of "GetFieldList msg fieldNameConfigItem" s]
    by (cases r) (simp_all add: configure_def seq_def c wg_Done_def)
qed

lemma handleBytes_unparsed:
  "code_of env b = None \<Longrightarrow> \<exists>err. handleBytes env b s = handleError (Some err) s"
  by (auto simp: code_of_def handleBytes_def seq_def handleError_Some split: sum.splits)

lemma handleBytes_acquire:
  "code_of env b = Some 600 \<Longrightarrow> \<exists>msg. handleBytes env b = uriAcquire env msg"
  by (auto simp: code_of_def handleBytes_def headerCodeURIAcquire_def split: sum.splits)

lemma handleBytes_configure:
  "code_of env b = Some 601 \<Longrightarrow> \<exists>msg. handleBytes env b = configure msg"
  by (auto simp: code_of_def handleBytes_def headerCodeURIAcquire_def
      headerCodeConfiguration_def split: sum.splits)

lemma handleBytes_ignored:
  "code_of env b = Some c \<Longrightarrow> c \<noteq> 600 \<Longrightarrow> c \<noteq> 601 \<Longrightarrow> handleBytes env b s = (Return (), s)"
  by (auto simp: code_of_def handleBytes_def headerCodeURIAcquire_def
      headerCodeConfiguration_def ret_def split: sum.splits)

text \<open>What a goroutine of \<^verbatim>\<open>handleBytes\<close> can do to the counter and to the latch.\<close>

lemma handleBytes_effect:
  "(fst (handleBytes env b s) = Return () \<longrightarrow>
      wg (snd (handleBytes env b s)) =
        wg s - (if code_of env b = Some 600 \<or> code_of env b = Some 601 then 1 else 0)
      \<and> (configured (snd (handleBytes env b s)) \<longrightarrow>
           configured s \<or> code_of env b = Some 601))
   \<and> (\<forall>n. fst (handleBytes env b s) = Exit n \<longrightarrow> n = 1)
   \<and> (fst (handleBytes env b s) = Blocked \<longleftrightarrow> code_of env b = Some 600 \<and> \<not> configured s)"
proof (cases "code_of env b")
  case None
  then show ?thesis
    using handleBytes_unparsed [OF None, of s] by (auto simp: handleError_Some)
next
  case (Some c)
  consider "c = 600" | "c = 601" | "c \<noteq> 600" "c \<noteq> 601"
    by blast
  then show ?thesis
  proof cases
    case 1
    then obtain msg where m: "handleBytes env b = uriAcquire env msg"
      using handleBytes_acquire Some by blast
    show ?thesis
    proof (cases "configured s")
      case True
      then show ?thesis
        using uriAcquire_effect [OF True, of env msg] Some 1 by (auto simp: m)
    next
      case False
      then show ?thesis
        using Some 1 by (simp add: m uriAcquire_blocked)
    qed
  next
    case 2
    then obtain msg where m: "handleBytes env b = configure msg"
      using handleBytes_configure Some by blast
    show ?thesis
      using configure_effect [of msg s] Some 2 by (auto simp: m)
  next
    case 3
    then show ?thesis
      using Some by (simp add: handleBytes_ignored)
  qed
qed






lemma latch_inv_step:
  assumes "step env p a p'" and "latch_inv env p"
  shows "latch_inv env p'"
  using assms
proof (cases rule: step.cases)
  case (step_line l ls)
  then show ?thesis
    using assms(2)
    by (auto simp: latch_inv_def read_line_def Let_def nth_append intro: less_SucI)
next
  case step_add
  then show ?thesis
    using assms(2) by (auto simp: latch_inv_def)
next
  case (step_eof s')
  then show ?thesis
    using assms(2) by (auto simp: latch_inv_def wg_Done_def split: if_splits)
next
  case (step_eof_panic s')
  then show ?thesis by (simp add: latch_inv_def)
next
  case (step_return i b s')
  show ?thesis
    unfolding latch_inv_def
  proof (intro impI)
    assume c: "configured (st p')"
    have "configured (st p) \<or> code_of env b = Some 601"
      using handleBytes_effect [of env b "st p"] step_return c by simp
    then show "\<exists>j < length (handlers p').
        snd (handlers p' ! j) \<and> code_of env (fst (handlers p' ! j)) = Some 601"
    proof
      assume "configured (st p)"
      then obtain j where j: "j < length (handlers p)" "snd (handlers p ! j)"
          "code_of env (fst (handlers p ! j)) = Some 601"
        using assms(2) step_return by (auto simp: latch_inv_def)
      then have "j \<noteq> i"
        using step_return by auto
      then show ?thesis
        using j step_return by (intro exI [of _ j]) simp
    next
      assume "code_of env b = Some 601"
      then show ?thesis
        using step_return by (intro exI [of _ i]) simp
    qed
  qed
next
  case (step_exit i b n s')
  then show ?thesis by (simp add: latch_inv_def)
next
  case (step_panic i b s')
  then show ?thesis by (simp add: latch_inv_def)
next
  case step_run_returns
  then show ?thesis by (simp add: latch_inv_def)
qed

lemma reachable_latch_inv: "reachable env lines fs p \<Longrightarrow> latch_inv env p"
proof (induction rule: reachable.induct)
  case reachable_start
  then show ?case
    by (simp add: latch_inv_def Run_start_def New_def)
next
  case (reachable_step p a p')
  then show ?case by (blast intro: latch_inv_step)
qed





subsection \<open>What a goroutine prints before it exits\<close>

lemma reported_append:
  "no_failure out \<Longrightarrow> reported r out2 \<Longrightarrow> reported r (out @ out2)"
proof (cases r)
  case (Exit n)
  assume a: "no_failure out" "reported r out2"
  then obtain pre err where pe: "n = 1" "out2 = pre @ [generalFailure err]" "no_failure pre"
    using Exit by (auto simp: reported_def)
  have "no_failure (out @ pre)"
    using a(1) pe(3) by (auto simp: no_failure_def)
  moreover have "out @ out2 = (out @ pre) @ [generalFailure err]"
    using pe(2) by simp
  ultimately show ?thesis
    using pe(1) Exit unfolding reported_def by (simp only: outcome.case) blast
qed (auto simp: reported_def no_failure_def)

lemma reports_seq:
  assumes "reports p" and "\<And>a. reports (f a)"
  shows "reports (seq p f)"
  unfolding reports_def
proof
  fix s
  obtain r s' where ps: "p s = (r, s')"
    by (cases "p s")
  from assms(1) obtain out where out: "stdout s' = stdout s @ out" "reported r out"
    unfolding reports_def using ps by (metis fst_conv snd_conv)
  show "\<exists>out. stdout (snd (seq p f s)) = stdout s @ out \<and> reported (fst (seq p f s)) out"
  proof (cases r)
    case (Return a)
    from assms(2) [of a] obtain out2 where out2: "stdout (snd (f a s')) = stdout s' @ out2"
      "reported (fst (f a s')) out2"
      unfolding reports_def by blast
    have nf: "no_failure out"
      using out(2) Return by (simp add: reported_def)
    have eq: "seq p f s = f a s'"
      by (simp add: seq_def ps Return)
    have "stdout (snd (seq p f s)) = stdout s @ (out @ out2)"
      by (simp add: eq out2(1) out(1))
    moreover have "reported (fst (seq p f s)) (out @ out2)"
      unfolding eq by (rule reported_append [OF nf out2(2)])
    ultimately show ?thesis by blast
  next
    case (Exit n)
    then have "seq p f s = (Exit n, s')"
      by (simp add: seq_def ps)
    then show ?thesis
      using out Exit by (auto simp: reported_def)
  next
    case Panic
    then have "seq p f s = (Panic, s')"
      by (simp add: seq_def ps)
    then show ?thesis
      using out Panic by (auto simp: reported_def)
  next
    case Blocked
    then have "seq p f s = (Blocked, s')"
      by (simp add: seq_def ps)
    then show ?thesis
      using out Blocked by (auto simp: reported_def)
  qed
qed


lemma reportsI:
  "(\<And>s. \<exists>out. stdout (snd (p s)) = stdout s @ out \<and> reported (fst (p s)) out) \<Longrightarrow> reports p"
  by (simp add: reports_def)

lemma reports_ret: "reports (ret a)"
  by (simp add: reports_def ret_def reported_def no_failure_def)

lemma reports_panic: "reports panic"
  by (simp add: reports_def panic_def reported_def no_failure_def)

lemma reports_wait: "reports waitForConfiguration"
  by (simp add: reports_def waitForConfiguration_def reported_def no_failure_def)

lemma reports_wg_Done: "reports wg_Done"
  by (simp add: reports_def wg_Done_def reported_def no_failure_def)

lemma reports_println: "Status (Header m) \<noteq> 401 \<Longrightarrow> reports (println m)"
  by (simp add: reports_def println_def reported_def no_failure_def)

lemma reports_handleError: "reports (handleError err)"
proof (cases err)
  case None
  then show ?thesis
    by (simp add: reports_def handleError_None reported_def no_failure_def)
next
  case (Some e)
  have "reported (Exit 1) [generalFailure e]"
    unfolding reported_def by (simp only: outcome.case) (auto simp: no_failure_def)
  then show ?thesis
    by (simp add: reports_def Some handleError_Some)
qed

lemma reported_fatal: "reported (Exit 1) [generalFailure e]"
  unfolding reported_def by (simp only: outcome.case) (auto simp: no_failure_def)

lemma reports_fatal: "reports (seq (handleError (Some err)) f)"
  by (simp add: reports_def seq_def handleError_Some reported_fatal)

lemmas reports_intros =
  reports_seq reports_ret reports_panic reports_handleError reports_fatal reports_wg_Done

lemma reports_lastModified: "reports (lastModified env t)"
  by (auto simp: lastModified_def intro!: reports_intros split: sum.split)

lemma reports_outputRequestStatus: "reports (outputRequestStatus env u m)"
  by (simp add: outputRequestStatus_def requestStatus_def Let_def mk_header_def
      headerCodeStatus_def reports_println)

lemma reports_outputNotFound: "reports (outputNotFound env u)"
  by (auto simp: outputNotFound_def notFound_def Let_def mk_header_def
      headerCodeURIFailure_def intro!: reports_intros reports_println)

lemma reports_outputURIStart: "reports (outputURIStart env u n t)"
proof (cases "e_LoadLocation env ''GMT''")
  case (Inl e)
  then show ?thesis
    by (simp add: reports_def outputURIStart_def uriStart_def Let_def lastModified_def
        seq_def handleError_Some reported_fatal)
next
  case (Inr gmt)
  then show ?thesis
    by (simp add: reports_def outputURIStart_ok reported_def no_failure_def)
qed

lemma reports_os_ReadFile: "reports (os_ReadFile f)"
  by (auto simp: reports_def os_ReadFile_def reported_def no_failure_def split: option.split)

lemma reports_outputURIDone: "reports (outputURIDone env u n t f)"
proof (cases "e_LoadLocation env ''GMT''")
  case (Inl e)
  then show ?thesis
    by (simp add: reports_def outputURIDone_def uriDone_def Let_def lastModified_def
        seq_def handleError_Some reported_fatal)
next
  case (Inr gmt)
  show ?thesis
    unfolding reports_def
  proof
    fix s
    show "\<exists>out. stdout (snd (outputURIDone env u n t f s)) = stdout s @ out
            \<and> reported (fst (outputURIDone env u n t f s)) out"
    proof (cases "files s f")
      case None
      then show ?thesis
        by (simp add: outputURIDone_def uriDone_def Let_def lastModified_ok [OF Inr]
            os_ReadFile_def seq_def handleError_Some reported_fatal)
    next
      case (Some bytes)
      then show ?thesis
        by (simp add: outputURIDone_def uriDone_ok [OF Inr Some] seq_def println_def
            wg_Done_def reported_def no_failure_def)
    qed
  qed
qed


lemma reports_os_Create: "reports (os_Create env f)"
  by (auto simp: reports_def os_Create_def seq_def handleError_Some reported_fatal
      reported_def no_failure_def split: option.split)

lemma reports_download: "reports (download env c f b k)"
  by (auto simp: reports_def download_def seq_def handleError_Some reported_fatal
      reported_def no_failure_def split: sum.split)

lemma reports_s3Client: "reports (s3Client env usr)"
  by (auto simp: reports_def s3Client_def Let_def seq_def ret_def handleError_Some
      reported_fatal reported_def no_failure_def
      split: option.split prod.split bool.split)

lemma reports_endpoint:
  "reports (\<lambda>s.
            (if endpoint s \<noteq> [] then
               (case e_Parse env (endpoint s) of
                  Inl err \<Rightarrow>
                    seq (handleError (Some (Error (''parsing S3 endpoint '' @ endpoint s
                                                    @ '': '' @ Error_text err))))
                      (\<lambda>_. panic)
                | Inr u \<Rightarrow> ret u)
             else
               (case e_s3EndpointURL env (region s) of
                  Inl err \<Rightarrow>
                    seq (handleError (Some (Error (''resolving S3 endpoint for region ''
                                                    @ region s @ '': '' @ Error_text err))))
                      (\<lambda>_. panic)
                | Inr u \<Rightarrow> ret u)) s)"
  by (auto simp: reports_def seq_def ret_def handleError_Some reported_fatal
      reported_def no_failure_def split: sum.split)

lemma reports_uriAcquire: "reports (uriAcquire env msg)"
  unfolding uriAcquire_def
  by (auto intro!: reports_intros reports_wait reports_endpoint reports_outputRequestStatus
      reports_s3Client reports_outputURIStart reports_os_Create reports_download
      reports_outputURIDone reports_outputNotFound
      split: sum.split option.split error.split result.split prod.split)

lemma reports_configure_item: "reports (configure_item f)"
  by (auto simp: reports_def configure_item_def Let_def reported_def no_failure_def
      split: option.split)

lemma reports_configure_items: "reports (configure_items fs)"
  by (induction fs) (auto intro!: reports_intros reports_configure_item)

lemma reports_configure: "reports (configure msg)"
  unfolding configure_def
  by (auto intro!: reports_intros reports_configure_items)
    (simp add: reports_def reported_def no_failure_def)

lemma reports_handleBytes: "reports (handleBytes env b)"
  unfolding handleBytes_def
  by (auto intro!: reports_intros reports_uriAcquire reports_configure split: sum.split)

text \<open>Every exit of a goroutine of \<^verbatim>\<open>handleBytes\<close>: status 1, after one General Failure,
  the last message of the output.\<close>

lemma handleBytes_exit:
  assumes "handleBytes env b s = (Exit n, s')"
  shows "n = 1 \<and> (\<exists>pre err. stdout s' = stdout s @ pre @ [generalFailure err]
                      \<and> (\<forall>m \<in> set pre. Status (Header m) \<noteq> 401))"
proof -
  obtain out where "stdout s' = stdout s @ out" "reported (Exit n :: unit outcome) out"
    using reports_handleBytes [of env b] assms unfolding reports_def
    by (metis fst_conv snd_conv)
  then show ?thesis
    by (auto simp: reported_def no_failure_def)
qed

text \<open>A goroutine of \<^verbatim>\<open>handleBytes\<close> that panics has printed no General Failure.\<close>

lemma handleBytes_panic:
  assumes "handleBytes env b s = (Panic, s')"
  shows "\<exists>out. stdout s' = stdout s @ out \<and> (\<forall>m \<in> set out. Status (Header m) \<noteq> 401)"
proof -
  obtain out where "stdout s' = stdout s @ out" "reported (Panic :: unit outcome) out"
    using reports_handleBytes [of env b] assms unfolding reports_def
    by (metis fst_conv snd_conv)
  then show ?thesis
    by (auto simp: reported_def no_failure_def)
qed


subsection \<open>The errors that are handed to handleError\<close>

text \<open>One lemma for every call of \<^verbatim>\<open>handleError\<close> in \<^verbatim>\<open>handleBytes\<close>,
  \<^verbatim>\<open>uriAcquire\<close>, \<^verbatim>\<open>s3Client\<close>, \<^verbatim>\<open>lastModified\<close> and \<^verbatim>\<open>uriDone\<close>: the condition under
  which the call gets an error, and what the request has printed when it exits.\<close>

lemma fatal_unparsed:
  "e_FromBytes env b = Inl err \<Longrightarrow>
     handleBytes env b s = (Exit 1, s\<lparr>stdout := stdout s @ [generalFailure err]\<rparr>)"
  by (simp add: handleBytes_def seq_def handleError_Some)

lemma fatal_dispatch:
  "e_FromBytes env b = Inr msg \<Longrightarrow> Status (Header msg) = 600 \<Longrightarrow>
     handleBytes env b s = uriAcquire env msg s"
  by (simp add: handleBytes_def headerCodeURIAcquire_def)

lemma fatal_no_uri:
  assumes "configured s" and "\<not> snd (GetFieldValue msg ''URI'')"
  shows "uriAcquire env msg s =
       (Exit 1, s\<lparr>stdout := stdout s @
          [generalFailure (Error ''acquire message missing required field: URI'')]\<rparr>)"
proof -
  obtain v where v: "GetFieldValue msg ''URI'' = (v, False)"
    using assms(2) by (cases "GetFieldValue msg ''URI''") auto
  show ?thesis
    using assms(1)
    by (simp add: uriAcquire_def seq_def ret_def waitForConfiguration_def fieldNameURI_def v
        handleError_Some errAcqMsgMissingRequiredFieldURI_def)
qed

lemma fatal_endpoint_parse:
  assumes "configured s" and "snd (GetFieldValue msg ''URI'')" and "endpoint s \<noteq> []"
    and "e_Parse env (endpoint s) = Inl err"
  shows "uriAcquire env msg s =
       (Exit 1, s\<lparr>stdout := stdout s @
          [generalFailure (Error (''parsing S3 endpoint '' @ endpoint s @ '': ''
                                   @ Error_text err))]\<rparr>)"
proof -
  obtain v where v: "GetFieldValue msg ''URI'' = (v, True)"
    using assms(2) by (cases "GetFieldValue msg ''URI''") auto
  show ?thesis
    using assms(1,3,4)
    by (simp add: uriAcquire_def seq_def ret_def waitForConfiguration_def fieldNameURI_def v
        handleError_Some)
qed

lemma fatal_endpoint_region:
  assumes "configured s" and "snd (GetFieldValue msg ''URI'')" and "endpoint s = []"
    and "e_s3EndpointURL env (region s) = Inl err"
  shows "uriAcquire env msg s =
       (Exit 1, s\<lparr>stdout := stdout s @
          [generalFailure (Error (''resolving S3 endpoint for region '' @ region s @ '': ''
                                   @ Error_text err))]\<rparr>)"
proof -
  obtain v where v: "GetFieldValue msg ''URI'' = (v, True)"
    using assms(2) by (cases "GetFieldValue msg ''URI''") auto
  show ?thesis
    using assms(1,3,4)
    by (simp add: uriAcquire_def seq_def ret_def waitForConfiguration_def fieldNameURI_def v
        handleError_Some)
qed

lemma fatal_location:
  "configured s \<Longrightarrow> GetFieldValue msg ''URI'' = (locator, True) \<Longrightarrow>
   (if endpoint s \<noteq> [] then e_Parse env (endpoint s)
    else e_s3EndpointURL env (region s)) = Inr s3URL \<Longrightarrow>
   newLocation (e_Parse env) locator (url_Hostname s3URL) = Err err \<Longrightarrow>
     uriAcquire env msg s = (Exit 1, s\<lparr>stdout := stdout s @ [generalFailure err]\<rparr>)"
  by (auto simp: uriAcquire_def seq_def ret_def waitForConfiguration_def fieldNameURI_def
      handleError_Some handleError_None split: if_splits)

lemma uriAcquire_to_client:
  assumes "configured s"
    and "GetFieldValue msg ''URI'' = (locator, True)"
    and "(if endpoint s \<noteq> [] then e_Parse env (endpoint s)
          else e_s3EndpointURL env (region s)) = Inr s3URL"
    and "newLocation (e_Parse env) locator (url_Hostname s3URL) = Ok objLoc"
    and "s3Client env (User (uri objLoc))
           (s\<lparr>stdout := stdout s @ [requestStatus env (uri objLoc) fieldValueConnecting]\<rparr>)
         = (Exit n, s')"
  shows "uriAcquire env msg s = (Exit n, s')"
  unfolding uriAcquire_def
  using assms
  by (auto simp: seq_def ret_def waitForConfiguration_def fieldNameURI_def
      outputRequestStatus_def println_def split: if_splits)

lemma fatal_session:
  assumes "configured s"
    and "GetFieldValue msg ''URI'' = (locator, True)"
    and "(if endpoint s \<noteq> [] then e_Parse env (endpoint s)
          else e_s3EndpointURL env (region s)) = Inr s3URL"
    and "newLocation (e_Parse env) locator (url_Hostname s3URL) = Ok objLoc"
    and "e_NewSession env
           \<lparr>Region = region s,
            Endpoint = (if endpoint s \<noteq> [] then Some (endpoint s) else None),
            Credentials = None\<rparr> = Some err"
  shows "uriAcquire env msg s =
       (Exit 1, s\<lparr>stdout := stdout s @
          [requestStatus env (uri objLoc) ''Connecting to s3.amazonaws.com'',
           generalFailure (Error (''creating AWS session: '' @ Error_text err))]\<rparr>)"
  by (rule uriAcquire_to_client [OF assms(1,2,3,4)])
    (use assms(5) in \<open>cases "endpoint s = []";
      simp add: s3Client_def Let_def seq_def handleError_Some fieldValue_defs\<close>)

lemma fatal_password:
  assumes "configured s"
    and "GetFieldValue msg ''URI'' = (locator, True)"
    and "(if endpoint s \<noteq> [] then e_Parse env (endpoint s)
          else e_s3EndpointURL env (region s)) = Inr s3URL"
    and "newLocation (e_Parse env) locator (url_Hostname s3URL) = Ok objLoc"
    and "e_NewSession env
           \<lparr>Region = region s,
            Endpoint = (if endpoint s \<noteq> [] then Some (endpoint s) else None),
            Credentials = None\<rparr> = None"
    and "Userinfo_Username (User (uri objLoc)) \<noteq> []"
    and "\<not> snd (Userinfo_Password (User (uri objLoc)))"
  shows "uriAcquire env msg s =
       (Exit 1, s\<lparr>stdout := stdout s @
          [requestStatus env (uri objLoc) ''Connecting to s3.amazonaws.com'',
           generalFailure (Error ''acquire message missing required value: Password'')]\<rparr>)"
  by (rule uriAcquire_to_client [OF assms(1,2,3,4)])
    (use assms(5,6,7) in \<open>cases "endpoint s = []";
      cases "Userinfo_Password (User (uri objLoc))";
      simp add: s3Client_def Let_def seq_def ret_def handleError_Some
        fieldValue_defs errAcqMsgMissingRequiredFieldPassword_def\<close>)


lemma fatal_head:
  assumes "configured s"
    and "GetFieldValue msg ''URI'' = (locator, True)"
    and "(if endpoint s \<noteq> [] then e_Parse env (endpoint s)
          else e_s3EndpointURL env (region s)) = Inr s3URL"
    and "newLocation (e_Parse env) locator (url_Hostname s3URL) = Ok objLoc"
    and "fst (s3Client env (User (uri objLoc)) s) = Return client"
    and "e_HeadObject env client (bucket objLoc) (key objLoc) = Inl err"
    and "\<forall>t. err \<noteq> RequestFailure t 404"
  shows "uriAcquire env msg s =
       (Exit 1, s\<lparr>stdout := stdout s @ [requestStatus env (uri objLoc) ''Connecting to s3.amazonaws.com'', generalFailure err]\<rparr>)"
proof -
  note q = uriAcquire_to_query [OF assms(1,2,3,4,5)]
  show ?thesis
    using assms(6,7)
    by (cases err)
      (simp_all add: q http_StatusNotFound_def seq_def handleError_Some fieldValue_defs)
qed

lemma fatal_zone:
  assumes "configured s"
    and "GetFieldValue msg ''URI'' = (locator, True)"
    and "(if endpoint s \<noteq> [] then e_Parse env (endpoint s)
          else e_s3EndpointURL env (region s)) = Inr s3URL"
    and "newLocation (e_Parse env) locator (url_Hostname s3URL) = Ok objLoc"
    and "fst (s3Client env (User (uri objLoc)) s) = Return client"
    and "e_HeadObject env client (bucket objLoc) (key objLoc)
           = Inr \<lparr>ContentLength = Some n, LastModified = Some t\<rparr>"
    and "e_LoadLocation env ''GMT'' = Inl err"
  shows "uriAcquire env msg s =
       (Exit 1, s\<lparr>stdout := stdout s @ [requestStatus env (uri objLoc) ''Connecting to s3.amazonaws.com'', generalFailure err]\<rparr>)"
proof -
  note q = uriAcquire_to_query [OF assms(1,2,3,4,5)]
  show ?thesis
    using assms(6)
    by (simp add: q outputURIStart_no_zone [OF assms(7)] seq_def fieldValue_defs)
qed

lemma fatal_create:
  assumes "configured s"
    and "GetFieldValue msg ''URI'' = (locator, True)"
    and "(if endpoint s \<noteq> [] then e_Parse env (endpoint s)
          else e_s3EndpointURL env (region s)) = Inr s3URL"
    and "newLocation (e_Parse env) locator (url_Hostname s3URL) = Ok objLoc"
    and "fst (s3Client env (User (uri objLoc)) s) = Return client"
    and "e_HeadObject env client (bucket objLoc) (key objLoc)
           = Inr \<lparr>ContentLength = Some n, LastModified = Some t\<rparr>"
    and "e_LoadLocation env ''GMT'' = Inr gmt"
    and "GetFieldValue msg ''Filename'' = (filename, True)"
    and "e_Create env filename = Some err"
  shows "uriAcquire env msg s =
       (Exit 1, s\<lparr>stdout := stdout s @
          [requestStatus env (uri objLoc) ''Connecting to s3.amazonaws.com'',
           \<lparr>Header = \<lparr>Status = 200, Description = ''URI Start''\<rparr>,
             Fields = [\<lparr>Name = ''URI'', Value = e_String env (uri objLoc)\<rparr>,
                       \<lparr>Name = ''Size'', Value = strconv_FormatInt n\<rparr>,
                       \<lparr>Name = ''Last-Modified'',
                         Value = e_Format env gmt ''Mon, 02 Jan 2006 15:04:05 MST'' t\<rparr>]\<rparr>,
           generalFailure err]\<rparr>)"
proof -
  note q = uriAcquire_to_query [OF assms(1,2,3,4,5)]
  show ?thesis
    using assms(6,8,9)
    by (simp add: q outputURIStart_ok [OF assms(7)] seq_def ret_def fieldNameFilename_def
        fieldValue_defs handleError_Some handleError_None RFC1123_def os_Create_def)
qed

lemma fatal_download:
  assumes "configured s"
    and "GetFieldValue msg ''URI'' = (locator, True)"
    and "(if endpoint s \<noteq> [] then e_Parse env (endpoint s)
          else e_s3EndpointURL env (region s)) = Inr s3URL"
    and "newLocation (e_Parse env) locator (url_Hostname s3URL) = Ok objLoc"
    and "fst (s3Client env (User (uri objLoc)) s) = Return client"
    and "e_HeadObject env client (bucket objLoc) (key objLoc)
           = Inr \<lparr>ContentLength = Some n, LastModified = Some t\<rparr>"
    and "e_LoadLocation env ''GMT'' = Inr gmt"
    and "GetFieldValue msg ''Filename'' = (filename, True)"
    and "e_Create env filename = None"
    and "e_Download env client (bucket objLoc) (key objLoc) = Inl err"
  shows "uriAcquire env msg s =
       (Exit 1, s\<lparr>stdout := stdout s @
          [requestStatus env (uri objLoc) ''Connecting to s3.amazonaws.com'',
           \<lparr>Header = \<lparr>Status = 200, Description = ''URI Start''\<rparr>,
             Fields = [\<lparr>Name = ''URI'', Value = e_String env (uri objLoc)\<rparr>,
                       \<lparr>Name = ''Size'', Value = strconv_FormatInt n\<rparr>,
                       \<lparr>Name = ''Last-Modified'',
                         Value = e_Format env gmt ''Mon, 02 Jan 2006 15:04:05 MST'' t\<rparr>]\<rparr>,
           generalFailure err],
          files := (files s)(filename \<mapsto> [])\<rparr>)"
proof -
  note q = uriAcquire_to_query [OF assms(1,2,3,4,5)]
  show ?thesis
    using assms(6,8,9,10)
    by (simp add: q outputURIStart_ok [OF assms(7)] seq_def ret_def fieldNameFilename_def
        fieldValue_defs handleError_Some handleError_None RFC1123_def os_Create_def
        download_def)
qed

lemma fatal_read_back:
  assumes "e_LoadLocation env ''GMT'' = Inr gmt"
    and "os_ReadFile filename s = (Return (bytes, Some err), s)"
  shows "outputURIDone env u n t filename s =
       (Exit 1, s\<lparr>stdout := stdout s @ [generalFailure err]\<rparr>)"
  using assms(2)
  by (simp add: outputURIDone_def uriDone_def Let_def lastModified_ok [OF assms(1)] seq_def
      handleError_Some)

subsection \<open>Sample requests that fail\<close>

text \<open>The sample request in the environment whose file system refuses the file, and the
  request without its URI field.\<close>

lemma sample_env_read_only_sel:
  "e_Parse sample_env_read_only = e_Parse sample_env"
  "e_String sample_env_read_only = e_String sample_env"
  "e_s3EndpointURL sample_env_read_only = e_s3EndpointURL sample_env"
  "e_HeadObject sample_env_read_only = e_HeadObject sample_env"
  "e_LoadLocation sample_env_read_only = e_LoadLocation sample_env"
  "e_Format sample_env_read_only = e_Format sample_env"
  "e_FromBytes sample_env_read_only = e_FromBytes sample_env"
  "s3Client sample_env_read_only = s3Client sample_env"
  "requestStatus sample_env_read_only = requestStatus sample_env"
  "e_Create sample_env_read_only ''/tmp/pkg.deb''
     = Some (Error ''open /tmp/pkg.deb: permission denied'')"
  by (simp_all add: sample_env_read_only_def fun_eq_iff s3Client_def requestStatus_def)

lemma sample_read_only_reaches_query:
  "(if endpoint sample_state \<noteq> [] then e_Parse sample_env_read_only (endpoint sample_state)
    else e_s3EndpointURL sample_env_read_only (region sample_state)) = Inr sample_endpoint"
  "newLocation (e_Parse sample_env_read_only) ''s3://ak:sk@s3.amazonaws.com/my-bucket/pkg.deb''
     (url_Hostname sample_endpoint) = Ok (sample_location ''pkg.deb'')"
  "fst (s3Client sample_env_read_only (User (uri (sample_location k))) sample_state)
     = Return sample_client"
  "e_HeadObject sample_env_read_only sample_client (bucket (sample_location ''pkg.deb''))
     (key (sample_location ''pkg.deb''))
     = Inr \<lparr>ContentLength = Some (int (length sample_object)),
            LastModified = Some 1540498659\<rparr>"
  "e_LoadLocation sample_env_read_only ''GMT'' = Inr ''GMT''"
  unfolding sample_env_read_only_sel
  by (rule sample_reaches_query(6) sample_reaches_query(7) sample_reaches_query(9)
      sample_values(9) sample_reaches_query(10))+

lemma sample_no_uri_parsed:
  "e_FromBytes sample_env sample_no_uri_bytes
     = Inr \<lparr>Header = \<lparr>Status = 600, Description = ''URI Acquire''\<rparr>,
            Fields = [\<lparr>Name = ''Filename'', Value = ''/tmp/pkg.deb''\<rparr>]\<rparr>"
  "\<not> snd (GetFieldValue \<lparr>Header = \<lparr>Status = 600, Description = ''URI Acquire''\<rparr>,
            Fields = [\<lparr>Name = ''Filename'', Value = ''/tmp/pkg.deb''\<rparr>]\<rparr> ''URI'')"
  "GetFieldValue sample_request ''Filename'' = (''/tmp/pkg.deb'', True)"
  by code_simp+

subsection \<open>Every error that is handed to handleError is reported\<close>

text \<open>
  An error handed to \<^verbatim>\<open>handleError\<close> is reported by the goroutine that meets it: it
  appends to the output exactly one message 401 General Failure, whose only field Message
  holds the error text with every newline byte replaced by a space (so that no newline is
  left in it), and calls \<^verbatim>\<open>os.Exit\<close> with status 1, so that nothing sequenced after the
  call runs. The calls of \<^verbatim>\<open>handleError\<close>, each with the condition under which it gets
  an error: bytes that do not parse as a message, and, in a fetch request that has passed
  the latch: a missing URI field; an endpoint that does not parse, or a region whose
  endpoint does not resolve; an error returned by \<^verbatim>\<open>newLocation\<close>; a session that cannot
  be created; a user name without a password; an error of the metadata query other than a
  request failure of status 404; a zone GMT that cannot be loaded; a missing Filename
  field; a file that cannot be created; a download that fails; a file that cannot be read
  back. What the request has printed before the General Failure is its Status message,
  from the session on, and URI Start, from the Filename field on; a failed download leaves
  the file created and empty. A goroutine of \<^verbatim>\<open>handleBytes\<close> exits in no other way:
  whenever it exits, the status is 1 and what it has printed ends with the one General
  Failure. Whenever it panics instead, it has printed no General Failure.
\<close>

theorem fatal_errors_reported:
  "generalFailure err =
     \<lparr>Header = \<lparr>Status = 401, Description = ''General Failure''\<rparr>,
      Fields = [\<lparr>Name = ''Message'', Value = map (\<lambda>x. if x = CHR 0x0A then CHR '' '' else x) (Error_text err)\<rparr>]\<rparr>
   \<and> CHR 0x0A \<notin> set (map (\<lambda>x. if x = CHR 0x0A then CHR '' '' else x) (Error_text err))
   \<and> handleError (Some err) s = (Exit 1, s\<lparr>stdout := stdout s @ [generalFailure err]\<rparr>)
   \<and> seq (handleError (Some err)) k s = handleError (Some err) s
   \<and> (e_FromBytes env b = Inl err \<longrightarrow>
        handleBytes env b s = (Exit 1, s\<lparr>stdout := stdout s @ [generalFailure err]\<rparr>))
   \<and> (e_FromBytes env b = Inr msg \<and> Status (Header msg) = 600 \<longrightarrow>
        handleBytes env b s = uriAcquire env msg s)
   \<and> (configured s \<and> \<not> snd (GetFieldValue msg ''URI'') \<longrightarrow>
        uriAcquire env msg s =
          (Exit 1,
           s\<lparr>stdout := stdout s @
                [generalFailure (Error ''acquire message missing required field: URI'')]\<rparr>))
   \<and> (configured s \<and> snd (GetFieldValue msg ''URI'') \<and> endpoint s \<noteq> []
        \<and> e_Parse env (endpoint s) = Inl err \<longrightarrow>
        uriAcquire env msg s =
          (Exit 1,
           s\<lparr>stdout := stdout s @
                [generalFailure (Error (''parsing S3 endpoint '' @ endpoint s @ '': ''
                                         @ Error_text err))]\<rparr>))
   \<and> (configured s \<and> snd (GetFieldValue msg ''URI'') \<and> endpoint s = []
        \<and> e_s3EndpointURL env (region s) = Inl err \<longrightarrow>
        uriAcquire env msg s =
          (Exit 1,
           s\<lparr>stdout := stdout s @
                [generalFailure (Error (''resolving S3 endpoint for region '' @ region s
                                         @ '': '' @ Error_text err))]\<rparr>))
   \<and> (configured s \<and> GetFieldValue msg ''URI'' = (locator, True)
        \<and> (if endpoint s \<noteq> [] then e_Parse env (endpoint s)
           else e_s3EndpointURL env (region s)) = Inr s3URL
        \<and> newLocation (e_Parse env) locator (url_Hostname s3URL) = Err err \<longrightarrow>
        uriAcquire env msg s = (Exit 1, s\<lparr>stdout := stdout s @ [generalFailure err]\<rparr>))
   \<and> (configured s \<and> GetFieldValue msg ''URI'' = (locator, True)
        \<and> (if endpoint s \<noteq> [] then e_Parse env (endpoint s)
           else e_s3EndpointURL env (region s)) = Inr s3URL
        \<and> newLocation (e_Parse env) locator (url_Hostname s3URL) = Ok objLoc
        \<and> e_NewSession env
             \<lparr>Region = region s,
              Endpoint = (if endpoint s \<noteq> [] then Some (endpoint s) else None),
              Credentials = None\<rparr> = Some err \<longrightarrow>
        uriAcquire env msg s =
          (Exit 1,
           s\<lparr>stdout := stdout s @
                [requestStatus env (uri objLoc) ''Connecting to s3.amazonaws.com'',
                 generalFailure (Error (''creating AWS session: '' @ Error_text err))]\<rparr>))
   \<and> (configured s \<and> GetFieldValue msg ''URI'' = (locator, True)
        \<and> (if endpoint s \<noteq> [] then e_Parse env (endpoint s)
           else e_s3EndpointURL env (region s)) = Inr s3URL
        \<and> newLocation (e_Parse env) locator (url_Hostname s3URL) = Ok objLoc
        \<and> e_NewSession env
             \<lparr>Region = region s,
              Endpoint = (if endpoint s \<noteq> [] then Some (endpoint s) else None),
              Credentials = None\<rparr> = None
        \<and> Userinfo_Username (User (uri objLoc)) \<noteq> []
        \<and> \<not> snd (Userinfo_Password (User (uri objLoc))) \<longrightarrow>
        uriAcquire env msg s =
          (Exit 1,
           s\<lparr>stdout := stdout s @
                [requestStatus env (uri objLoc) ''Connecting to s3.amazonaws.com'',
                 generalFailure
                   (Error ''acquire message missing required value: Password'')]\<rparr>))
   \<and> (configured s \<and> GetFieldValue msg ''URI'' = (locator, True)
        \<and> (if endpoint s \<noteq> [] then e_Parse env (endpoint s)
           else e_s3EndpointURL env (region s)) = Inr s3URL
        \<and> newLocation (e_Parse env) locator (url_Hostname s3URL) = Ok objLoc
        \<and> fst (s3Client env (User (uri objLoc)) s) = Return client \<longrightarrow>
        (e_HeadObject env client (bucket objLoc) (key objLoc) = Inl err
           \<and> (\<forall>c. err \<noteq> RequestFailure c 404) \<longrightarrow>
         uriAcquire env msg s =
           (Exit 1,
            s\<lparr>stdout := stdout s @ [requestStatus env (uri objLoc) ''Connecting to s3.amazonaws.com'',
                                    generalFailure err]\<rparr>))
      \<and> (e_HeadObject env client (bucket objLoc) (key objLoc)
             = Inr \<lparr>ContentLength = Some n, LastModified = Some t\<rparr>
           \<and> e_LoadLocation env ''GMT'' = Inl err \<longrightarrow>
         uriAcquire env msg s =
           (Exit 1,
            s\<lparr>stdout := stdout s @ [requestStatus env (uri objLoc) ''Connecting to s3.amazonaws.com'',
                                    generalFailure err]\<rparr>))
      \<and> (e_HeadObject env client (bucket objLoc) (key objLoc)
             = Inr \<lparr>ContentLength = Some n, LastModified = Some t\<rparr>
           \<and> e_LoadLocation env ''GMT'' = Inr gmt
           \<and> \<not> snd (GetFieldValue msg ''Filename'') \<longrightarrow>
         uriAcquire env msg s =
           (Exit 1,
            s\<lparr>stdout := stdout s @
                 [requestStatus env (uri objLoc) ''Connecting to s3.amazonaws.com'',
                  \<lparr>Header = \<lparr>Status = 200, Description = ''URI Start''\<rparr>,
                     Fields = [\<lparr>Name = ''URI'', Value = e_String env (uri objLoc)\<rparr>,
                               \<lparr>Name = ''Size'', Value = strconv_FormatInt n\<rparr>,
                               \<lparr>Name = ''Last-Modified'',
                                 Value = e_Format env gmt
                                           ''Mon, 02 Jan 2006 15:04:05 MST'' t\<rparr>]\<rparr>,
                  generalFailure
                    (Error ''acquire message missing required field: Filename'')]\<rparr>))
      \<and> (e_HeadObject env client (bucket objLoc) (key objLoc)
             = Inr \<lparr>ContentLength = Some n, LastModified = Some t\<rparr>
           \<and> e_LoadLocation env ''GMT'' = Inr gmt
           \<and> GetFieldValue msg ''Filename'' = (filename, True)
           \<and> e_Create env filename = Some err \<longrightarrow>
         uriAcquire env msg s =
           (Exit 1,
            s\<lparr>stdout := stdout s @
                 [requestStatus env (uri objLoc) ''Connecting to s3.amazonaws.com'',
                  \<lparr>Header = \<lparr>Status = 200, Description = ''URI Start''\<rparr>,
                     Fields = [\<lparr>Name = ''URI'', Value = e_String env (uri objLoc)\<rparr>,
                               \<lparr>Name = ''Size'', Value = strconv_FormatInt n\<rparr>,
                               \<lparr>Name = ''Last-Modified'',
                                 Value = e_Format env gmt
                                           ''Mon, 02 Jan 2006 15:04:05 MST'' t\<rparr>]\<rparr>,
                  generalFailure err]\<rparr>))
      \<and> (e_HeadObject env client (bucket objLoc) (key objLoc)
             = Inr \<lparr>ContentLength = Some n, LastModified = Some t\<rparr>
           \<and> e_LoadLocation env ''GMT'' = Inr gmt
           \<and> GetFieldValue msg ''Filename'' = (filename, True)
           \<and> e_Create env filename = None
           \<and> e_Download env client (bucket objLoc) (key objLoc) = Inl err \<longrightarrow>
         uriAcquire env msg s =
           (Exit 1,
            s\<lparr>stdout := stdout s @
                 [requestStatus env (uri objLoc) ''Connecting to s3.amazonaws.com'',
                  \<lparr>Header = \<lparr>Status = 200, Description = ''URI Start''\<rparr>,
                     Fields = [\<lparr>Name = ''URI'', Value = e_String env (uri objLoc)\<rparr>,
                               \<lparr>Name = ''Size'', Value = strconv_FormatInt n\<rparr>,
                               \<lparr>Name = ''Last-Modified'',
                                 Value = e_Format env gmt
                                           ''Mon, 02 Jan 2006 15:04:05 MST'' t\<rparr>]\<rparr>,
                  generalFailure err],
              files := (files s)(filename \<mapsto> [])\<rparr>))
      \<and> Status (Header (requestStatus env (uri objLoc) ''Connecting to s3.amazonaws.com'')) = 102)
   \<and> (e_LoadLocation env ''GMT'' = Inr gmt
        \<and> os_ReadFile filename s = (Return (bytes, Some err), s) \<longrightarrow>
        outputURIDone env u n t filename s =
          (Exit 1, s\<lparr>stdout := stdout s @ [generalFailure err]\<rparr>))
   \<and> (handleBytes env b s = (Exit c, s') \<longrightarrow>
        c = 1 \<and> (\<exists>pre e. stdout s' = stdout s @ pre @ [generalFailure e]
                      \<and> (\<forall>m \<in> set pre. Status (Header m) \<noteq> 401)))
   \<and> (handleBytes env b s = (Panic, s') \<longrightarrow>
        (\<exists>out. stdout s' = stdout s @ out \<and> (\<forall>m \<in> set out. Status (Header m) \<noteq> 401)))"
  apply (intro conjI)
  subgoal
    by (simp add: generalFailure_def Let_def mk_header_def mk_field_def
        headerCodeGeneralFailure_def headerDescriptionGeneralFailure_def fieldNameMessage_def
        ReplaceAll_newline)
  subgoal by auto
  subgoal by (rule handleError_Some)
  subgoal by (simp add: seq_def handleError_Some)
  subgoal by (simp add: fatal_unparsed)
  subgoal by (simp add: fatal_dispatch)
  subgoal by (simp add: fatal_no_uri)
  subgoal by (simp add: fatal_endpoint_parse)
  subgoal by (simp add: fatal_endpoint_region)
  subgoal by (blast intro: fatal_location)
  subgoal by (blast intro: fatal_session)
  subgoal by (blast intro: fatal_password)
  subgoal
    apply (intro impI conjI; elim conjE)
    subgoal by (rule fatal_head) assumption+
    subgoal by (rule fatal_zone) assumption+
    subgoal by (rule uriAcquire_missing_filename) assumption+
    subgoal by (rule fatal_create) assumption+
    subgoal by (rule fatal_download) assumption+
    subgoal by (simp add: requestStatus_def Let_def mk_header_def headerCodeStatus_def)
    done
  subgoal by (blast intro: fatal_read_back)
  subgoal by (rule impI, rule handleBytes_exit)
  subgoal by (rule impI, rule handleBytes_panic)
  done


text \<open>Two of these in the sample environment: the fetch request without its URI field,
  and the sample request when the file cannot be created.\<close>

theorem fatal_errors_reported_example:
  "e_FromBytes sample_env sample_no_uri_bytes
     = Inr \<lparr>Header = \<lparr>Status = 600, Description = ''URI Acquire''\<rparr>,
            Fields = [\<lparr>Name = ''Filename'', Value = ''/tmp/pkg.deb''\<rparr>]\<rparr>
   \<and> configured sample_state
   \<and> handleBytes sample_env sample_no_uri_bytes sample_state =
       (Exit 1,
        sample_state\<lparr>stdout := stdout sample_state @
          [\<lparr>Header = \<lparr>Status = 401, Description = ''General Failure''\<rparr>,
            Fields = [\<lparr>Name = ''Message'',
                        Value = ''acquire message missing required field: URI''\<rparr>]\<rparr>]\<rparr>)
   \<and> e_Create sample_env_read_only ''/tmp/pkg.deb''
       = Some (Error ''open /tmp/pkg.deb: permission denied'')
   \<and> uriAcquire sample_env_read_only sample_request sample_state =
       (Exit 1,
        sample_state\<lparr>stdout := stdout sample_state @
          [requestStatus sample_env (uri (sample_location ''pkg.deb''))
             ''Connecting to s3.amazonaws.com'',
           \<lparr>Header = \<lparr>Status = 200, Description = ''URI Start''\<rparr>,
             Fields = [\<lparr>Name = ''URI'',
                         Value = e_String sample_env (uri (sample_location ''pkg.deb''))\<rparr>,
                       \<lparr>Name = ''Size'',
                         Value = strconv_FormatInt (int (length sample_object))\<rparr>,
                       \<lparr>Name = ''Last-Modified'',
                         Value = e_Format sample_env ''GMT''
                                   ''Mon, 02 Jan 2006 15:04:05 MST'' 1540498659\<rparr>]\<rparr>,
           \<lparr>Header = \<lparr>Status = 401, Description = ''General Failure''\<rparr>,
             Fields = [\<lparr>Name = ''Message'',
                         Value = ''open /tmp/pkg.deb: permission denied''\<rparr>]\<rparr>]\<rparr>)"
proof -
  let ?m = "\<lparr>Header = \<lparr>Status = 600, Description = ''URI Acquire''\<rparr>,
            Fields = [\<lparr>Name = ''Filename'', Value = ''/tmp/pkg.deb''\<rparr>]\<rparr>"
  have c: "Status (Header ?m) = 600"
    by simp
  have flat: "map (\<lambda>x. if x = CHR 0x0A then CHR '' '' else x) ''acquire message missing required field: URI''
                = ''acquire message missing required field: URI''"
    "map (\<lambda>x. if x = CHR 0x0A then CHR '' '' else x) ''open /tmp/pkg.deb: permission denied''
                = ''open /tmp/pkg.deb: permission denied''"
    by simp_all
  note T1 = fatal_errors_reported [where env = sample_env and b = sample_no_uri_bytes
        and s = sample_state and msg = ?m
        and err = "Error ''acquire message missing required field: URI''"]
  note T2 = fatal_errors_reported [where env = sample_env_read_only and s = sample_state
        and msg = sample_request
        and locator = "''s3://ak:sk@s3.amazonaws.com/my-bucket/pkg.deb''"
        and ?s3URL = sample_endpoint and objLoc = "sample_location ''pkg.deb''"
        and client = sample_client and n = "int (length sample_object)" and t = 1540498659
        and gmt = "''GMT''" and filename = "''/tmp/pkg.deb''"
        and err = "Error ''open /tmp/pkg.deb: permission denied''"]
  have run1: "handleBytes sample_env sample_no_uri_bytes sample_state =
       (Exit 1,
        sample_state\<lparr>stdout := stdout sample_state @
          [\<lparr>Header = \<lparr>Status = 401, Description = ''General Failure''\<rparr>,
            Fields = [\<lparr>Name = ''Message'',
                        Value = ''acquire message missing required field: URI''\<rparr>]\<rparr>]\<rparr>)"
    using T1 [THEN conjunct1] T1 [THEN conjunct2, THEN conjunct2, THEN conjunct2, THEN conjunct2, THEN conjunct2, THEN conjunct1]
      T1 [THEN conjunct2, THEN conjunct2, THEN conjunct2, THEN conjunct2, THEN conjunct2, THEN conjunct2, THEN conjunct1]
      sample_no_uri_parsed(1,2) c sample_reaches_query(1)
    by (simp add: flat(1))
  have run2: "uriAcquire sample_env_read_only sample_request sample_state =
       (Exit 1,
        sample_state\<lparr>stdout := stdout sample_state @
          [requestStatus sample_env (uri (sample_location ''pkg.deb''))
             ''Connecting to s3.amazonaws.com'',
           \<lparr>Header = \<lparr>Status = 200, Description = ''URI Start''\<rparr>,
             Fields = [\<lparr>Name = ''URI'',
                         Value = e_String sample_env (uri (sample_location ''pkg.deb''))\<rparr>,
                       \<lparr>Name = ''Size'',
                         Value = strconv_FormatInt (int (length sample_object))\<rparr>,
                       \<lparr>Name = ''Last-Modified'',
                         Value = e_Format sample_env ''GMT''
                                   ''Mon, 02 Jan 2006 15:04:05 MST'' 1540498659\<rparr>]\<rparr>,
           \<lparr>Header = \<lparr>Status = 401, Description = ''General Failure''\<rparr>,
             Fields = [\<lparr>Name = ''Message'',
                         Value = ''open /tmp/pkg.deb: permission denied''\<rparr>]\<rparr>]\<rparr>)"
    using T2 [THEN conjunct1] T2 [THEN conjunct2, THEN conjunct2, THEN conjunct2, THEN conjunct2, THEN conjunct2, THEN conjunct2, THEN conjunct2, THEN conjunct2, THEN conjunct2, THEN conjunct2, THEN conjunct2, THEN conjunct2, THEN conjunct1]
      sample_reaches_query(1,3) sample_read_only_reaches_query sample_no_uri_parsed(3)
      sample_env_read_only_sel(10)
    by (simp add: flat(2) sample_env_read_only_sel(2,6,9))
  show ?thesis
    using sample_no_uri_parsed(1) sample_reaches_query(1) run1 sample_env_read_only_sel(10) run2
    by (intro conjI)
qed

subsection \<open>Inputs on which the engine panics\<close>

lemma sample_config_no_value_parsed:
  "e_FromBytes sample_env sample_config_no_value_bytes
     = Inr \<lparr>Header = \<lparr>Status = 601, Description = ''Configuration''\<rparr>,
            Fields = [\<lparr>Name = ''Config-Item'', Value = ''Acquire::s3::region''\<rparr>]\<rparr>"
  by code_simp

lemma sample_config_no_value_panics:
  "handleBytes sample_env sample_config_no_value_bytes s = (Panic, s)"
  by (simp add: handleBytes_def sample_config_no_value_parsed headerCode_defs
      headerCodeURIAcquire_def headerCodeConfiguration_def configure_def GetFieldList_def
      fieldNameConfigItem_def seq_def configure_item_def Let_def at_index_def
      configItemAcquireS3Region_def)

lemma sample_no_scheme_panics:
  "newLocation (e_Parse sample_env) ''me@s3.amazonaws.com/my-bucket/pkg.deb''
     (url_Hostname sample_endpoint) = Panics"
  "GetFieldValue sample_request_no_scheme ''URI''
     = (''me@s3.amazonaws.com/my-bucket/pkg.deb'', True)"
  by code_simp+

lemma uriAcquire_location_panics:
  assumes "configured s"
    and "GetFieldValue msg ''URI'' = (locator, True)"
    and "(if endpoint s \<noteq> [] then e_Parse env (endpoint s)
          else e_s3EndpointURL env (region s)) = Inr s3URL"
    and "newLocation (e_Parse env) locator (url_Hostname s3URL) = Panics"
  shows "uriAcquire env msg s = (Panic, s)"
  using assms
  by (auto simp: uriAcquire_def seq_def ret_def waitForConfiguration_def fieldNameURI_def
      handleError_None panic_def split: if_splits)

lemma sample_config_no_value_reachable:
  "reachable sample_env sample_config_no_value_lines (\<lambda>_. None) sample_config_panicked"
proof -
  let ?R = "reachable sample_env sample_config_no_value_lines (\<lambda>_. None)"
  let ?s = "(New (\<lambda>_. None))\<lparr>stdout := [capabilities]\<rparr>"
  let ?p = "\<lambda>ls b r hs. \<lparr>st = ?s, input = ls, buffer = b, reader = r, handlers = hs,
                         exit_status = None\<rparr>"
  let ?l1 = "''601 Configuration''"
  let ?l2 = "''Config-Item: Acquire::s3::region''"
  have "?R (?p [?l1, ?l2, []] [] Reading [])"
    using reachable_start [of sample_env sample_config_no_value_lines "\<lambda>_. None"]
    by (simp add: Run_start_def sample_config_no_value_lines_def)
  from reachable_step [OF this step_line [where l = ?l1 and ls = "[?l2, []]"]]
  have "?R (?p [?l2, []] (?l1 @ [CHR 0x0A]) Reading [])"
    by (simp add: read_line_def TrimRight_newlines_def)
  from reachable_step [OF this step_line [where l = ?l2 and ls = "[[]]"]]
  have "?R (?p [[]] (?l1 @ [CHR 0x0A] @ ?l2 @ [CHR 0x0A]) Reading [])"
    by (simp add: read_line_def TrimRight_newlines_def)
  from reachable_step [OF this step_line [where l = "[]" and ls = "[]"]]
  have "?R (?p [] [] Adding [(sample_config_no_value_bytes, False)])"
    by (simp add: read_line_def TrimRight_newlines_def sample_config_no_value_bytes_def)
  from reachable_step [OF this step_add]
  have "?R (\<lparr>st = ?s\<lparr>wg := 2\<rparr>, input = [], buffer = [], reader = Reading,
              handlers = [(sample_config_no_value_bytes, False)], exit_status = None\<rparr>)"
    by (simp add: New_def)
  from reachable_step [OF this
      step_panic [where i = 0 and b = sample_config_no_value_bytes and s' = "?s\<lparr>wg := 2\<rparr>"]]
  show ?thesis
    by (simp add: sample_config_no_value_panics sample_config_panicked_def New_def)
qed

lemma sample_no_path_parsed:
  "e_FromBytes sample_env sample_config_region_bytes
     = Inr \<lparr>Header = \<lparr>Status = 601, Description = ''Configuration''\<rparr>,
            Fields = [\<lparr>Name = ''Config-Item'', Value = ''Acquire::s3::region=eu-west-1''\<rparr>]\<rparr>"
  "e_FromBytes sample_env sample_no_path_bytes
     = Inr \<lparr>Header = \<lparr>Status = 600, Description = ''URI Acquire''\<rparr>,
            Fields = [\<lparr>Name = ''URI'', Value = ''s3://my-bucket''\<rparr>,
                      \<lparr>Name = ''Filename'', Value = ''/tmp/pkg.deb''\<rparr>]\<rparr>"
  "e_s3EndpointURL sample_env ''eu-west-1''
     = Inr (sample_endpoint\<lparr>Host := ''s3.eu-west-1.amazonaws.com''\<rparr>)"
  "newLocation (e_Parse sample_env) ''s3://my-bucket''
     (url_Hostname (sample_endpoint\<lparr>Host := ''s3.eu-west-1.amazonaws.com''\<rparr>)) = Panics"
  "url_Hostname (sample_endpoint\<lparr>Host := ''s3.eu-west-1.amazonaws.com''\<rparr>)
     = ''s3.eu-west-1.amazonaws.com''"
  by code_simp+

lemma sample_config_region_returns:
  "0 < wg s \<Longrightarrow>
   handleBytes sample_env sample_config_region_bytes s
     = (Return (), s\<lparr>region := ''eu-west-1'', configured := True, wg := wg s - 1\<rparr>)"
  by (simp add: handleBytes_def sample_no_path_parsed(1) headerCodeURIAcquire_def
      headerCodeConfiguration_def configure_def GetFieldList_def fieldNameConfigItem_def
      seq_def ret_def configure_item_def Let_def at_index_def configItemAcquireS3Region_def
      wg_Done_def)

lemma sample_no_path_panics:
  assumes "configured s" and "endpoint s = []" and "region s = ''eu-west-1''"
  shows "handleBytes sample_env sample_no_path_bytes s = (Panic, s)"
proof -
  let ?m = "\<lparr>Header = \<lparr>Status = 600, Description = ''URI Acquire''\<rparr>,
            Fields = [\<lparr>Name = ''URI'', Value = ''s3://my-bucket''\<rparr>,
                      \<lparr>Name = ''Filename'', Value = ''/tmp/pkg.deb''\<rparr>]\<rparr>"
  have u: "GetFieldValue ?m ''URI'' = (''s3://my-bucket'', True)"
    by (simp add: GetFieldValue_def)
  have e: "(if endpoint s \<noteq> [] then e_Parse sample_env (endpoint s)
            else e_s3EndpointURL sample_env (region s))
           = Inr (sample_endpoint\<lparr>Host := ''s3.eu-west-1.amazonaws.com''\<rparr>)"
    using assms(2,3) by (simp add: sample_no_path_parsed(3))
  have "handleBytes sample_env sample_no_path_bytes s = uriAcquire sample_env ?m s"
    by (simp add: handleBytes_def sample_no_path_parsed(2) headerCodeURIAcquire_def)
  then show ?thesis
    by (simp add: uriAcquire_location_panics [OF assms(1) u e sample_no_path_parsed(4)])
qed

lemma sample_no_path_reachable:
  "reachable sample_env sample_no_path_lines (\<lambda>_. None) sample_no_path_panicked"
proof -
  let ?R = "reachable sample_env sample_no_path_lines (\<lambda>_. None)"
  let ?s = "(New (\<lambda>_. None))\<lparr>stdout := [capabilities]\<rparr>"
  let ?t = "(New (\<lambda>_. None))\<lparr>region := ''eu-west-1'', configured := True, wg := 1,
                                stdout := [capabilities]\<rparr>"
  let ?p = "\<lambda>s ls b r hs. \<lparr>st = s, input = ls, buffer = b, reader = r, handlers = hs,
                           exit_status = None\<rparr>"
  let ?l1 = "''601 Configuration''"
  let ?l2 = "''Config-Item: Acquire::s3::region=eu-west-1''"
  let ?l4 = "''600 URI Acquire''"
  let ?l5 = "''URI: s3://my-bucket''"
  let ?l6 = "''Filename: /tmp/pkg.deb''"
  let ?c = "sample_config_region_bytes"
  let ?r = "sample_no_path_bytes"
  have "?R (?p ?s [?l1, ?l2, [], ?l4, ?l5, ?l6, []] [] Reading [])"
    using reachable_start [of sample_env sample_no_path_lines "\<lambda>_. None"]
    by (simp add: Run_start_def sample_no_path_lines_def)
  from reachable_step [OF this
      step_line [where l = ?l1 and ls = "[?l2, [], ?l4, ?l5, ?l6, []]"]]
  have "?R (?p ?s [?l2, [], ?l4, ?l5, ?l6, []] (?l1 @ [CHR 0x0A]) Reading [])"
    by (simp add: read_line_def TrimRight_newlines_def)
  from reachable_step [OF this step_line [where l = ?l2 and ls = "[[], ?l4, ?l5, ?l6, []]"]]
  have "?R (?p ?s [[], ?l4, ?l5, ?l6, []] (?l1 @ [CHR 0x0A] @ ?l2 @ [CHR 0x0A]) Reading [])"
    by (simp add: read_line_def TrimRight_newlines_def)
  from reachable_step [OF this step_line [where l = "[]" and ls = "[?l4, ?l5, ?l6, []]"]]
  have "?R (?p ?s [?l4, ?l5, ?l6, []] [] Adding [(?c, False)])"
    by (simp add: read_line_def TrimRight_newlines_def sample_config_region_bytes_def)
  from reachable_step [OF this step_add]
  have "?R (?p (?s\<lparr>wg := 2\<rparr>) [?l4, ?l5, ?l6, []] [] Reading [(?c, False)])"
    by (simp add: New_def)
  from reachable_step [OF this step_return [where i = 0 and b = ?c and s' = ?t]]
  have "?R (?p ?t [?l4, ?l5, ?l6, []] [] Reading [(?c, True)])"
    by (simp add: sample_config_region_returns New_def)
  from reachable_step [OF this step_line [where l = ?l4 and ls = "[?l5, ?l6, []]"]]
  have "?R (?p ?t [?l5, ?l6, []] (?l4 @ [CHR 0x0A]) Reading [(?c, True)])"
    by (simp add: read_line_def TrimRight_newlines_def)
  from reachable_step [OF this step_line [where l = ?l5 and ls = "[?l6, []]"]]
  have "?R (?p ?t [?l6, []] (?l4 @ [CHR 0x0A] @ ?l5 @ [CHR 0x0A]) Reading [(?c, True)])"
    by (simp add: read_line_def TrimRight_newlines_def)
  from reachable_step [OF this step_line [where l = ?l6 and ls = "[[]]"]]
  have "?R (?p ?t [[]] (?l4 @ [CHR 0x0A] @ ?l5 @ [CHR 0x0A] @ ?l6 @ [CHR 0x0A]) Reading
              [(?c, True)])"
    by (simp add: read_line_def TrimRight_newlines_def)
  from reachable_step [OF this step_line [where l = "[]" and ls = "[]"]]
  have "?R (?p ?t [] [] Adding [(?c, True), (?r, False)])"
    by (simp add: read_line_def TrimRight_newlines_def sample_no_path_bytes_def)
  from reachable_step [OF this step_add]
  have "?R (?p (?t\<lparr>wg := 2\<rparr>) [] [] Reading [(?c, True), (?r, False)])"
    by (simp add: New_def)
  from reachable_step [OF this step_panic [where i = 1 and b = ?r and s' = "?t\<lparr>wg := 2\<rparr>"]]
  show ?thesis
    by (simp add: sample_no_path_panics sample_no_path_panicked_def New_def)
qed

subsection \<open>C2: fatal conditions that are not reported\<close>

text \<open>
  C2. Not every fatal condition ends in a General Failure and the exit status 1. The
  process reads a configuration message that sets the region and then a fetch request for
  the locator \<^verbatim>\<open>s3://my-bucket\<close>. The host of the locator is not the host of the endpoint,
  the path is empty, and \<^verbatim>\<open>uri.Path[1:]\<close> panics: the process ends with the status of a
  panic, 2, when it has printed its capabilities and nothing else. In the path style a
  locator without a key, \<^verbatim>\<open>s3://s3.amazonaws.com/my-bucket\<close>, is a location error, which
  \<^verbatim>\<open>uriAcquire\<close> hands to \<^verbatim>\<open>handleError\<close>.
  The same end, status 2 and no General Failure, has the process that reads a
  configuration message whose Config-Item has no \<^verbatim>\<open>=\<close>; and a fetch request whose
  locator has its \<^verbatim>\<open>@\<close> among the first five bytes panics with the output as it was.
\<close>

theorem fatal_conditions_that_panic:
  "reachable sample_env sample_no_path_lines (\<lambda>_. None) sample_no_path_panicked
   \<and> exit_status sample_no_path_panicked = Some 2
   \<and> stdout (st sample_no_path_panicked) = [capabilities]
   \<and> reachable sample_env sample_config_no_value_lines (\<lambda>_. None) sample_config_panicked
   \<and> exit_status sample_config_panicked = Some 2
   \<and> stdout (st sample_config_panicked) = [capabilities]
   \<and> Status (Header capabilities) = 100
   \<and> uriAcquire sample_env sample_request_no_scheme sample_state = (Panic, sample_state)
   \<and> newLocation (e_Parse sample_env) ''s3://s3.amazonaws.com/my-bucket'' ''s3.amazonaws.com''
       = Err (Error ''location missing required number of tokens'')"
proof -
  have p: "exit_status sample_no_path_panicked = Some 2"
    "stdout (st sample_no_path_panicked) = [capabilities]"
    "exit_status sample_config_panicked = Some 2"
    "stdout (st sample_config_panicked) = [capabilities]"
    "Status (Header capabilities) = 100"
    by (simp_all add: sample_no_path_panicked_def sample_config_panicked_def New_def
        capabilities_def mk_header_def headerCodeCapabilities_def)
  have l: "newLocation (e_Parse sample_env) ''s3://s3.amazonaws.com/my-bucket'' ''s3.amazonaws.com''
             = Err (Error ''location missing required number of tokens'')"
    by code_simp
  show ?thesis
    using sample_no_path_reachable p(1,2) sample_config_no_value_reachable p(3,4,5)
      uriAcquire_location_panics [OF sample_reaches_query(1) sample_no_scheme_panics(2)
        sample_reaches_query(6) sample_no_scheme_panics(1)] l
    by (intro conjI)
qed

subsection \<open>Two runs of the process\<close>



lemma sample_acquire_parsed:
  "e_FromBytes sample_env sample_acquire_bytes = Inr sample_request"
  by code_simp

lemma sample_acquire_reachable:
  "reachable sample_env sample_acquire_lines (\<lambda>_. None) sample_acquire_waiting"
proof -
  let ?R = "reachable sample_env sample_acquire_lines (\<lambda>_. None)"
  let ?s = "(New (\<lambda>_. None))\<lparr>stdout := [capabilities]\<rparr>"
  let ?p = "\<lambda>ls b r hs. \<lparr>st = ?s, input = ls, buffer = b, reader = r, handlers = hs,
                         exit_status = None\<rparr>"
  let ?l1 = "''600 URI Acquire''"
  let ?l2 = "''URI: s3://ak:sk@s3.amazonaws.com/my-bucket/pkg.deb''"
  let ?l3 = "''Filename: /tmp/pkg.deb''"
  have "?R (?p [?l1, ?l2, ?l3, []] [] Reading [])"
    using reachable_start [of sample_env sample_acquire_lines "\<lambda>_. None"]
    by (simp add: Run_start_def sample_acquire_lines_def)
  from reachable_step [OF this step_line [where l = ?l1 and ls = "[?l2, ?l3, []]"]]
  have "?R (?p [?l2, ?l3, []] (?l1 @ [CHR 0x0A]) Reading [])"
    by (simp add: read_line_def TrimRight_newlines_def)
  from reachable_step [OF this step_line [where l = ?l2 and ls = "[?l3, []]"]]
  have "?R (?p [?l3, []] (?l1 @ [CHR 0x0A] @ ?l2 @ [CHR 0x0A]) Reading [])"
    by (simp add: read_line_def TrimRight_newlines_def)
  from reachable_step [OF this step_line [where l = ?l3 and ls = "[[]]"]]
  have "?R (?p [[]] (?l1 @ [CHR 0x0A] @ ?l2 @ [CHR 0x0A] @ ?l3 @ [CHR 0x0A]) Reading [])"
    by (simp add: read_line_def TrimRight_newlines_def)
  from reachable_step [OF this step_line [where l = "[]" and ls = "[]"]]
  have "?R (?p [] [] Adding [(sample_acquire_bytes, False)])"
    by (simp add: read_line_def TrimRight_newlines_def sample_acquire_bytes_def)
  from reachable_step [OF this step_add]
  show ?thesis
    by (simp add: New_def sample_acquire_waiting_def)
qed

subsection \<open>C7: fetch requests wait for the configuration\<close>

text \<open>
  C7. In every state that the process reaches, whatever the order of the messages, a
  goroutine that handles a fetch request takes no step while the latch is unset: it waits
  in \<^verbatim>\<open>waitForConfiguration\<close> and has changed nothing. When it takes its step, which
  holds the resolution of the credentials, the metadata query and the download, the latch
  is set and a goroutine that handles a configuration message has returned. Nothing else
  holds a fetch request back: with the latch set, every goroutine of a fetch request that
  has not returned can take its step, whatever the other goroutines have done.
\<close>

theorem fetch_waits_for_configuration:
  assumes "reachable env lines fs p" and "i < length (handlers p)"
    and "e_FromBytes env (fst (handlers p ! i)) = Inr msg"
    and "Status (Header msg) = 600"
  shows "(\<not> configured (st p) \<longrightarrow>
            handleBytes env (fst (handlers p ! i)) (st p) = (Blocked, st p)
            \<and> \<not> (\<exists>p'. step env p (Handle i) p'))
       \<and> (\<forall>p'. step env p (Handle i) p' \<longrightarrow>
            configured (st p)
            \<and> (\<exists>j < length (handlers p).
                  snd (handlers p ! j) \<and> code_of env (fst (handlers p ! j)) = Some 601))
       \<and> (exit_status p = None \<and> \<not> snd (handlers p ! i) \<and> configured (st p) \<longrightarrow>
            (\<exists>p'. step env p (Handle i) p'))"
proof -
  have h: "handleBytes env (fst (handlers p ! i)) = uriAcquire env msg"
    using assms(3,4) by (simp add: handleBytes_def headerCodeURIAcquire_def)
  have c: "code_of env (fst (handlers p ! i)) = Some 600"
    using assms(3,4) by (simp add: code_of_def)
  have blocked: "\<not> (\<exists>p'. step env p (Handle i) p')" if n: "\<not> configured (st p)"
  proof
    assume "\<exists>p'. step env p (Handle i) p'"
    then obtain p' where "step env p (Handle i) p'" ..
    then show False
      using uriAcquire_blocked [OF n, of env msg] h
      by (cases rule: step.cases) auto
  qed
  have latch: "\<exists>j < length (handlers p).
        snd (handlers p ! j) \<and> code_of env (fst (handlers p ! j)) = Some 601"
    if "step env p (Handle i) p'" for p'
  proof -
    have "exit_status p = None"
      using that by (cases rule: step.cases) auto
    moreover have "configured (st p)"
      using blocked that by blast
    ultimately show ?thesis
      using reachable_latch_inv [OF assms(1)] by (simp add: latch_inv_def)
  qed
  have enabled: "\<exists>p'. step env p (Handle i) p'"
    if r: "exit_status p = None" "\<not> snd (handlers p ! i)" "configured (st p)"
  proof -
    obtain b where b: "handlers p ! i = (b, False)"
      using r(2) by (cases "handlers p ! i") auto
    obtain out s' where o: "handleBytes env b (st p) = (out, s')"
      by (cases "handleBytes env b (st p)")
    have "out \<noteq> Blocked"
      using handleBytes_effect [of env b "st p"] o r(3) by auto
    then show ?thesis
    proof (cases out)
      case (Return u)
      then show ?thesis
        using step_return [OF r(1) assms(2) b, of env s'] o by auto
    next
      case (Exit n)
      then show ?thesis
        using step_exit [OF r(1) assms(2) b, of env n s'] o by auto
    next
      case Panic
      then show ?thesis
        using step_panic [OF r(1) assms(2) b, of env s'] o by auto
    next
      case Blocked
      then show ?thesis
        using \<open>out \<noteq> Blocked\<close> by simp
    qed
  qed
  have "\<not> configured (st p) \<longrightarrow>
          handleBytes env (fst (handlers p ! i)) (st p) = (Blocked, st p)
          \<and> \<not> (\<exists>p'. step env p (Handle i) p')"
    using blocked uriAcquire_blocked [of "st p" env msg] by (simp add: h)
  moreover have "\<forall>p'. step env p (Handle i) p' \<longrightarrow>
          configured (st p)
          \<and> (\<exists>j < length (handlers p).
                snd (handlers p ! j) \<and> code_of env (fst (handlers p ! j)) = Some 601)"
    using blocked latch by blast
  moreover have "exit_status p = None \<and> \<not> snd (handlers p ! i) \<and> configured (st p) \<longrightarrow>
          (\<exists>p'. step env p (Handle i) p')"
    using enabled by blast
  ultimately show ?thesis
    by (intro conjI)
qed

theorem fetch_waits_for_configuration_witness:
  "reachable sample_env sample_acquire_lines (\<lambda>_. None) sample_acquire_waiting
   \<and> e_FromBytes sample_env (fst (handlers sample_acquire_waiting ! 0)) = Inr sample_request
   \<and> Status (Header sample_request) = 600
   \<and> \<not> configured (st sample_acquire_waiting)
   \<and> handleBytes sample_env (fst (handlers sample_acquire_waiting ! 0))
         (st sample_acquire_waiting) = (Blocked, st sample_acquire_waiting)
   \<and> \<not> (\<exists>p'. step sample_env sample_acquire_waiting (Handle 0) p')"
proof -
  have i: "0 < length (handlers sample_acquire_waiting)"
    by (simp add: sample_acquire_waiting_def)
  have m: "e_FromBytes sample_env (fst (handlers sample_acquire_waiting ! 0))
             = Inr sample_request"
    by (simp add: sample_acquire_waiting_def sample_acquire_parsed)
  have c: "Status (Header sample_request) = 600"
    by (simp add: sample_request_def)
  have n: "\<not> configured (st sample_acquire_waiting)"
    by (simp add: sample_acquire_waiting_def New_def)
  show ?thesis
    using sample_acquire_reachable m c n
      fetch_waits_for_configuration [OF sample_acquire_reachable i m c]
    by blast
qed

subsection \<open>C10: a message with another code\<close>



end
